theory Spec2Isabelle
  imports Main "HOL-Library.Sublist"
begin

section \<open>Python values, strings and regular expressions\<close>

text \<open>
  The adapters are Python classes. A Python \<open>str\<close> is modelled as a \<open>string\<close>: one
  \<open>char\<close> per code point, for the code points U+0000 .. U+00FF. The character classes
  below are those of Python 3's \<open>re\<close> module and of \<open>str\<close> on that range (\<open>\w\<close>, \<open>\s\<close> and
  \<open>\d\<close> are the Unicode-aware ones of a \<open>str\<close> pattern).

  Message texts of the source are Chinese; the envelopes and log records below carry an
  English rendering of each literal, with the interpolated values in the same places.
\<close>

definition code_in :: "nat \<Rightarrow> nat \<Rightarrow> char \<Rightarrow> bool" where
  "code_in lo hi c = (lo \<le> (of_char c :: nat) \<and> (of_char c :: nat) \<le> hi)"

text \<open>\<open>[0-9]\<close>, which is also \<open>\d\<close> on this range.\<close>
definition is_digit :: "char \<Rightarrow> bool" where
  "is_digit c = code_in 48 57 c"

text \<open>\<open>[a-zA-Z0-9]\<close>\<close>
definition is_alnum :: "char \<Rightarrow> bool" where
  "is_alnum c = (is_digit c \<or> code_in 65 90 c \<or> code_in 97 122 c)"

text \<open>\<open>[a-zA-Z0-9_-]\<close>\<close>
definition is_idchar :: "char \<Rightarrow> bool" where
  "is_idchar c = (is_alnum c \<or> c = CHR ''_'' \<or> c = CHR ''-'')"

text \<open>\<open>\w\<close>: letters, digits and the underscore, with the Latin-1 letters and numerics.\<close>
definition re_w :: "char \<Rightarrow> bool" where
  "re_w c = (is_alnum c \<or> c = CHR ''_'' \<or> code_in 170 170 c \<or> code_in 178 179 c
      \<or> code_in 181 181 c \<or> code_in 185 186 c \<or> code_in 188 190 c
      \<or> code_in 192 214 c \<or> code_in 216 246 c \<or> code_in 248 255 c)"

text \<open>\<open>\s\<close>, which is also what \<open>str.strip()\<close> removes.\<close>
definition re_s :: "char \<Rightarrow> bool" where
  "re_s c = (code_in 9 13 c \<or> code_in 28 32 c \<or> code_in 133 133 c \<or> code_in 160 160 c)"

text \<open>\<open>str.isdigit()\<close>: every character is a digit (superscripts included), and there is one.\<close>
definition isdigit :: "string \<Rightarrow> bool" where
  "isdigit s = (s \<noteq> [] \<and> list_all (\<lambda>c. is_digit c \<or> code_in 178 179 c \<or> code_in 185 185 c) s)"

definition startswith :: "string \<Rightarrow> string \<Rightarrow> bool" where
  "startswith s p = (take (length p) s = p)"

text \<open>\<open>sub in s\<close> for strings.\<close>
fun py_in :: "string \<Rightarrow> string \<Rightarrow> bool" where
  "py_in sub [] = (sub = [])"
| "py_in sub (c # cs) = (startswith (c # cs) sub \<or> py_in sub cs)"

text \<open>\<open>str.lower()\<close>: on this range every cased capital is 32 below its small letter.\<close>
definition lower_char :: "char \<Rightarrow> char" where
  "lower_char c = (if code_in 65 90 c \<or> code_in 192 214 c \<or> code_in 216 222 c
     then char_of ((of_char c :: nat) + 32) else c)"

definition lower :: "string \<Rightarrow> string" where
  "lower s = map lower_char s"

definition strip :: "string \<Rightarrow> string" where
  "strip s = rev (dropWhile re_s (rev (dropWhile re_s s)))"

text \<open>\<open>s.strip("/")\<close> and \<open>s.rstrip("/")\<close>\<close>
definition strip_slash :: "string \<Rightarrow> string" where
  "strip_slash s = rev (dropWhile (\<lambda>c. c = CHR ''/'') (rev (dropWhile (\<lambda>c. c = CHR ''/'') s)))"

definition rstrip_slash :: "string \<Rightarrow> string" where
  "rstrip_slash s = rev (dropWhile (\<lambda>c. c = CHR ''/'') (rev s))"

text \<open>
  \<open>s.split(sep)\<close> for a non-empty separator (every call site passes a literal): the
  occurrences of \<open>sep\<close> are found from the left and do not overlap. \<open>acc\<close> holds the
  current piece, reversed.
\<close>
fun split_from :: "string \<Rightarrow> string \<Rightarrow> string \<Rightarrow> string list" where
  "split_from sep acc [] = [rev acc]"
| "split_from sep acc (c # cs) =
     (if startswith (c # cs) sep
      then rev acc # split_from sep [] (drop (length sep - 1) cs)
      else split_from sep (c # acc) cs)"

definition split :: "string \<Rightarrow> string \<Rightarrow> string list" where
  "split s sep = split_from sep [] s"

text \<open>\<open>sep.join(xs)\<close>\<close>
fun join :: "string \<Rightarrow> string list \<Rightarrow> string" where
  "join sep [] = []"
| "join sep [x] = x"
| "join sep (x # y # ys) = x @ sep @ join sep (y # ys)"

text \<open>
  A raised exception: its class name and \<open>str(e)\<close>. A computation that can raise returns
  \<open>exn + 'a\<close>, with \<open>Inl\<close> the exception.
\<close>
datatype exn = PyExc string string

fun exn_str :: "exn \<Rightarrow> string" where
  "exn_str (PyExc cls msg) = msg"

text \<open>\<open>xs[-1]\<close>, which raises IndexError on an empty list.\<close>
definition index_last :: "'a list \<Rightarrow> exn + 'a" where
  "index_last xs = (if xs = [] then Inl (PyExc ''IndexError'' ''list index out of range'')
                    else Inr (last xs))"

text \<open>The values the operations return: dictionaries keep their keys in insertion order.\<close>
datatype pyval =
    PNone
  | PBool bool
  | PInt int
  | PStr string
  | PList "pyval list"
  | PDict "(string \<times> pyval) list"

text \<open>\<open>d.get(k)\<close> on a returned value; None when the value is no dictionary or lacks the key.\<close>
fun dict_get :: "pyval \<Rightarrow> string \<Rightarrow> pyval" where
  "dict_get (PDict kvs) k = (case map_of kvs k of Some v \<Rightarrow> v | None \<Rightarrow> PNone)"
| "dict_get v k = PNone"

subsection \<open>The regular expressions of the share-URL grammars\<close>

text \<open>
  \<open>re.search\<close> tries the pattern at each start position from the left and returns the first
  match. Every pattern of the adapters is a literal (or an alternation of literals, tried in
  order) followed by one greedy character-class repetition, so a match at one position is
  decided by the text from that position on: \<open>re_search\<close> takes the matcher anchored at a
  position and returns what it gives for group 1.
\<close>
fun re_search :: "(string \<Rightarrow> 'a option) \<Rightarrow> string \<Rightarrow> 'a option" where
  "re_search m [] = m []"
| "re_search m (c # cs) = (case m (c # cs) of Some g \<Rightarrow> Some g | None \<Rightarrow> re_search m cs)"

text \<open>
  \<open>(?:l1|l2|...)([cls]+)\<close> anchored: the first literal that is a prefix and is followed by at
  least one character of the class; group 1 is the longest run of the class after it.
\<close>
fun match_lits :: "string list \<Rightarrow> (char \<Rightarrow> bool) \<Rightarrow> string \<Rightarrow> string option" where
  "match_lits [] cls s = None"
| "match_lits (l # ls) cls s =
     (if startswith s l \<and> takeWhile cls (drop (length l) s) \<noteq> []
      then Some (takeWhile cls (drop (length l) s))
      else match_lits ls cls s)"

text \<open>
  \<open>#([a-zA-Z0-9]{4})\b\<close> anchored: a hash, four characters of the class, then a word
  boundary, which after a word character is the end of the text or a character outside
  \<open>\w\<close>.
\<close>
definition match_hash :: "string \<Rightarrow> string option" where
  "match_hash s =
     (if startswith s ''#'' \<and> 5 \<le> length s \<and> list_all is_alnum (take 4 (drop 1 s))
         \<and> (length s = 5 \<or> \<not> re_w (s ! 5))
      then Some (take 4 (drop 1 s)) else None)"

text \<open>\<open>re.match(r"(\w+)", s)\<close>: anchored at the start of the text.\<close>
definition match_word :: "string \<Rightarrow> string option" where
  "match_word s = (if takeWhile re_w s \<noteq> [] then Some (takeWhile re_w s) else None)"

section \<open>Share-URL parsing\<close>

text \<open>
  \<open>extract_url\<close> returns the tuple \<open>(pwd_id, passcode, pdir_fid, paths)\<close>. Indexing is the
  one step of the three parsers that can raise, so each returns \<open>exn + tuple\<close>.
\<close>
type_synonym share_ref = "string option \<times> string \<times> string \<times> pyval list"

definition aliyun_extract_url :: "string \<Rightarrow> exn + share_ref" where
  "aliyun_extract_url url =
     (let pwd_id = re_search (match_lits [''aliyundrive.com/s/'', ''alipan.com/s/''] is_alnum) url;
          passcode = (case re_search (match_lits [''pwd='', ''password='', ''code=''] is_alnum) url of
                        Some g \<Rightarrow> g | None \<Rightarrow> '''');
          pdir_fid = (case re_search (match_lits [''/folder/''] is_alnum) url of
                        Some g \<Rightarrow> g | None \<Rightarrow> ''root'')
      in Inr (pwd_id, passcode, pdir_fid, []))"

definition baidu_extract_url :: "string \<Rightarrow> exn + share_ref" where
  "baidu_extract_url url =
     (let pwd_id = (case re_search (match_lits [''/s/''] is_idchar) url of
                      Some g \<Rightarrow> Some g
                    | None \<Rightarrow> (case re_search (match_lits [''surl=''] is_idchar) url of
                                 Some g \<Rightarrow> Some (''1'' @ g) | None \<Rightarrow> None));
          passcode = (case re_search (match_lits [''pwd='', ''password=''] is_alnum) url of
                        Some g \<Rightarrow> g
                      | None \<Rightarrow> (case re_search match_hash url of
                                   Some g \<Rightarrow> g | None \<Rightarrow> ''''))
      in if py_in ''#/list/share/'' url
         then (case index_last (split url ''#/list/share/'') of
                 Inl e \<Rightarrow> Inl e
               | Inr raw_fid \<Rightarrow>
                   Inr (pwd_id, passcode,
                        (case match_word raw_fid of Some g \<Rightarrow> g | None \<Rightarrow> ''/''), []))
         else Inr (pwd_id, passcode, ''/'', []))"

definition xunlei_extract_url :: "string \<Rightarrow> exn + share_ref" where
  "xunlei_extract_url url =
     (let pwd_id = re_search (match_lits [''pan.xunlei.com/s/''] is_idchar) url;
          passcode = (case re_search (match_lits [''pwd='', ''password=''] is_alnum) url of
                        Some g \<Rightarrow> g | None \<Rightarrow> '''');
          pdir_fid = (case re_search (match_lits [''#/list/''] is_idchar) url of
                        Some g \<Rightarrow> g | None \<Rightarrow> ''0'')
      in Inr (pwd_id, passcode, pdir_fid, []))"

section \<open>Logging\<close>

text \<open>A record written through \<open>logging\<close>: its level and its text.\<close>
datatype level = DEBUG | WARNING | ERROR

type_synonym log_record = "level \<times> string"

text \<open>\<open>str(n)\<close> for an integer.\<close>
function str_nat :: "nat \<Rightarrow> string" where
  "str_nat n = (if n < 10 then [''0123456789'' ! n]
                else str_nat (n div 10) @ [''0123456789'' ! (n mod 10)])"
  by pat_completeness auto
termination
  by (relation "measure id") auto

definition str_int :: "int \<Rightarrow> string" where
  "str_int i = (if i < 0 then ''-'' @ str_nat (nat (- i)) else str_nat (nat i))"

section \<open>XunleiAdapter: the skeleton adapter\<close>

definition NOT_IMPLEMENTED_CODE :: int where
  "NOT_IMPLEMENTED_CODE = - 999"

definition NOT_IMPLEMENTED_MSG :: string where
  "NOT_IMPLEMENTED_MSG = ''Xunlei drive API is not implemented yet''"

record xunlei_adapter =
  x_cookies_dict :: "(string \<times> string) list"
  x_index :: int
  x_is_active :: bool
  x_nickname :: string

text \<open>\<open>init\<close> logs a warning, touches the adapter's own fields and returns False.\<close>
definition xunlei_init ::
  "xunlei_adapter \<Rightarrow> log_record list \<Rightarrow> pyval \<times> xunlei_adapter \<times> log_record list" where
  "xunlei_init self lg =
     (let logs' = lg @ [(WARNING, ''[Xunlei] adapter is not fully implemented yet'')]
      in if x_cookies_dict self \<noteq> []
         then (PBool False,
               self\<lparr>x_is_active := False,
                    x_nickname := ''Xunlei user'' @ str_int (x_index self) @ '' (unverified)''\<rparr>,
               logs')
         else (PBool False, self, logs'))"

definition xunlei_get_account_info :: "xunlei_adapter \<Rightarrow> pyval" where
  "xunlei_get_account_info self = PBool False"

definition xunlei_get_stoken :: "string \<Rightarrow> string \<Rightarrow> pyval" where
  "xunlei_get_stoken pwd_id passcode =
     PDict [(''status'', PInt NOT_IMPLEMENTED_CODE),
            (''code'', PInt NOT_IMPLEMENTED_CODE),
            (''message'', PStr NOT_IMPLEMENTED_MSG)]"

definition xunlei_get_detail :: "string \<Rightarrow> string \<Rightarrow> string \<Rightarrow> int \<Rightarrow> int \<Rightarrow> pyval" where
  "xunlei_get_detail pwd_id stoken pdir_fid fetch_share fetch_share_full_path =
     PDict [(''code'', PInt NOT_IMPLEMENTED_CODE),
            (''message'', PStr NOT_IMPLEMENTED_MSG),
            (''data'', PDict [(''list'', PList [])])]"

definition xunlei_ls_dir :: "string \<Rightarrow> pyval" where
  "xunlei_ls_dir pdir_fid =
     PDict [(''code'', PInt NOT_IMPLEMENTED_CODE),
            (''message'', PStr NOT_IMPLEMENTED_MSG),
            (''data'', PDict [(''list'', PList [])])]"

definition xunlei_save_file ::
  "string list \<Rightarrow> string list \<Rightarrow> string \<Rightarrow> string \<Rightarrow> string \<Rightarrow> pyval" where
  "xunlei_save_file fid_list fid_token_list to_pdir_fid pwd_id stoken =
     PDict [(''code'', PInt NOT_IMPLEMENTED_CODE),
            (''message'', PStr NOT_IMPLEMENTED_MSG),
            (''data'', PDict [])]"

definition xunlei_query_task :: "string \<Rightarrow> pyval" where
  "xunlei_query_task task_id =
     PDict [(''status'', PInt NOT_IMPLEMENTED_CODE),
            (''code'', PInt NOT_IMPLEMENTED_CODE),
            (''message'', PStr NOT_IMPLEMENTED_MSG),
            (''data'', PDict [(''status'', PInt 0)])]"

definition xunlei_mkdir :: "string \<Rightarrow> pyval" where
  "xunlei_mkdir dir_path =
     PDict [(''code'', PInt NOT_IMPLEMENTED_CODE), (''message'', PStr NOT_IMPLEMENTED_MSG)]"

definition xunlei_rename :: "string \<Rightarrow> string \<Rightarrow> pyval" where
  "xunlei_rename fid file_name =
     PDict [(''code'', PInt NOT_IMPLEMENTED_CODE), (''message'', PStr NOT_IMPLEMENTED_MSG)]"

definition xunlei_delete :: "string list \<Rightarrow> pyval" where
  "xunlei_delete filelist =
     PDict [(''code'', PInt NOT_IMPLEMENTED_CODE), (''message'', PStr NOT_IMPLEMENTED_MSG)]"

definition xunlei_get_fids :: "string list \<Rightarrow> pyval" where
  "xunlei_get_fids file_paths = PList []"

section \<open>Effects: the remote drive, the log, exceptions\<close>

text \<open>
  An adapter method runs against a world: the state of the remote drive, which only the
  provider's client reads and writes, and the log. A client call takes the remote state and
  returns its result, or the exception it raises, with the new remote state; nothing is
  assumed of it. A method is a function from the world to its result (or the exception
  that escapes it) and the new world.
\<close>
record 'r world =
  remote :: 'r
  logs :: "log_record list"

type_synonym ('w, 'a) prog = "'w \<Rightarrow> (exn + 'a) \<times> 'w"

definition ret :: "'a \<Rightarrow> ('w, 'a) prog" where
  "ret x = (\<lambda>w. (Inr x, w))"

text \<open>Sequencing: an exception of the first part skips the rest.\<close>
definition andthen :: "('w, 'a) prog \<Rightarrow> ('a \<Rightarrow> ('w, 'b) prog) \<Rightarrow> ('w, 'b) prog" where
  "andthen m f = (\<lambda>w. case m w of (Inl e, w') \<Rightarrow> (Inl e, w') | (Inr x, w') \<Rightarrow> f x w')"

text \<open>\<open>try: m except Exception as e: h\<close>; what the body did to the world before it raised stays.\<close>
definition try_except :: "('w, 'a) prog \<Rightarrow> (exn \<Rightarrow> ('w, 'a) prog) \<Rightarrow> ('w, 'a) prog" where
  "try_except m h = (\<lambda>w. case m w of (Inl e, w') \<Rightarrow> h e w' | (Inr x, w') \<Rightarrow> (Inr x, w'))"

text \<open>A pure step that can raise.\<close>
definition lift :: "exn + 'a \<Rightarrow> ('w, 'a) prog" where
  "lift r = (\<lambda>w. (r, w))"

text \<open>A call of the provider's client.\<close>
definition call ::
  "('r \<Rightarrow> (exn + 'a) \<times> 'r) \<Rightarrow> (('r, 'z) world_scheme, 'a) prog" where
  "call f = (\<lambda>w. case f (remote w) of (r, s') \<Rightarrow> (r, w\<lparr>remote := s'\<rparr>))"

definition add_log :: "level \<Rightarrow> string \<Rightarrow> ('r, 'z) world_scheme \<Rightarrow> ('r, 'z) world_scheme" where
  "add_log l m w = w\<lparr>logs := logs w @ [(l, m)]\<rparr>"

definition log :: "level \<Rightarrow> string \<Rightarrow> (('r, 'z) world_scheme, unit) prog" where
  "log l m = (\<lambda>w. (Inr (), add_log l m w))"

section \<open>BaiduAdapter\<close>

text \<open>
  An entry as the \<open>baidupcs_py\<close> client returns it, for a file of the own drive as for a
  shared path, with the attributes the adapter reads. \<open>server_filename\<close> is None where the
  object has no such attribute.
\<close>
record pcs_item =
  fs_id :: int
  path :: string
  is_dir :: bool
  item_size :: int
  server_mtime :: int
  server_filename :: "string option"
  uk :: int
  share_id :: int
  bdstoken :: string

record pcs_user =
  user_id :: int
  user_name :: string

text \<open>
  The client methods the adapter calls. \<open>c_transfer_shared_paths\<close> returns the truth value
  of what the client returns, \<open>c_user_info\<close> None for a falsy answer.
\<close>
record 'r baidu_client =
  c_list :: "string \<Rightarrow> 'r \<Rightarrow> (exn + pcs_item list) \<times> 'r"
  c_list_shared_paths :: "string \<Rightarrow> int \<Rightarrow> int \<Rightarrow> string \<Rightarrow> 'r \<Rightarrow> (exn + pcs_item list) \<times> 'r"
  c_access_shared :: "string \<Rightarrow> string \<Rightarrow> 'r \<Rightarrow> (exn + unit) \<times> 'r"
  c_shared_paths :: "string \<Rightarrow> 'r \<Rightarrow> (exn + pcs_item list) \<times> 'r"
  c_transfer_shared_paths ::
    "string \<Rightarrow> int list \<Rightarrow> int \<Rightarrow> int \<Rightarrow> string \<Rightarrow> string \<Rightarrow> 'r \<Rightarrow> (exn + bool) \<times> 'r"
  c_makedir :: "string \<Rightarrow> 'r \<Rightarrow> (exn + unit) \<times> 'r"
  c_rename :: "string \<Rightarrow> string \<Rightarrow> 'r \<Rightarrow> (exn + unit) \<times> 'r"
  c_remove :: "string list \<Rightarrow> 'r \<Rightarrow> (exn + unit) \<times> 'r"
  c_user_info :: "'r \<Rightarrow> (exn + pcs_user option) \<times> 'r"

text \<open>
  The adapter object: the module flag \<open>BAIDUPCS_AVAILABLE\<close>, the client (None when no cookie
  was given) and the keys of \<open>_share_info\<close>.
\<close>
record 'r baidu_adapter =
  BAIDUPCS_AVAILABLE :: bool
  client :: "'r baidu_client option"
  share_info :: "string list"
  index :: int

text \<open>\<open>path.split('/')[-1]\<close>; the split of a string is never empty, so the index cannot raise.\<close>
definition basename :: "string \<Rightarrow> string" where
  "basename p = last (split p ''/'')"

subsection \<open>Resolving an fs_id of the own drive to a path\<close>

text \<open>
  The inner loop over the items of one listing: the first item whose fs_id is the target
  ends the search with its path; the directories passed before it join \<open>next_dirs\<close>.
\<close>
fun scan_items :: "string \<Rightarrow> pcs_item list \<Rightarrow> string list \<Rightarrow> string option \<times> string list" where
  "scan_items fid [] next_dirs = (None, next_dirs)"
| "scan_items fid (item # items) next_dirs =
     (if str_int (fs_id item) = fid then (Some (path item), next_dirs)
      else scan_items fid items (if is_dir item then next_dirs @ [path item] else next_dirs))"

text \<open>
  The loop over \<open>dirs_to_search\<close>: a listing that raises is logged and skipped.
\<close>
fun search_level ::
  "'r baidu_client \<Rightarrow> string \<Rightarrow> string list \<Rightarrow> string list \<Rightarrow>
   (('r, 'z) world_scheme, string option \<times> string list) prog" where
  "search_level cl fid [] next_dirs w = (Inr (None, next_dirs), w)"
| "search_level cl fid (current_dir # dirs) next_dirs w =
     (case call (c_list cl current_dir) w of
        (Inl e, w') \<Rightarrow>
          search_level cl fid dirs next_dirs
            (add_log DEBUG (''[Baidu] listing '' @ current_dir @ '' failed: '' @ exn_str e) w')
      | (Inr items, w') \<Rightarrow>
          (case scan_items fid items next_dirs of
             (Some p, nd) \<Rightarrow>
               (Inr (Some p, nd),
                add_log DEBUG (''[Baidu] fid='' @ fid @ '' resolved to path: '' @ p) w')
           | (None, nd) \<Rightarrow> search_level cl fid dirs nd w'))"

text \<open>
  \<open>for depth in range(max_depth)\<close>: the first argument is the number of rounds left. Beside
  the path found, the function returns the frontiers it has searched, one per round, as a
  record of the run.
\<close>
fun bfs_levels ::
  "nat \<Rightarrow> 'r baidu_client \<Rightarrow> string \<Rightarrow> string list \<Rightarrow>
   (('r, 'z) world_scheme, string option \<times> string list list) prog" where
  "bfs_levels 0 cl fid dirs_to_search w = (Inr (None, []), w)"
| "bfs_levels (Suc n) cl fid dirs_to_search w =
     (case search_level cl fid dirs_to_search [] w of
        (Inl e, w') \<Rightarrow> (Inl e, w')
      | (Inr (Some p, nd), w') \<Rightarrow> (Inr (Some p, [dirs_to_search]), w')
      | (Inr (None, next_dirs), w') \<Rightarrow>
          if next_dirs = [] then (Inr (None, [dirs_to_search]), w')
          else (case bfs_levels n cl fid next_dirs w' of
                  (Inl e, w'') \<Rightarrow> (Inl e, w'')
                | (Inr (r, searched), w'') \<Rightarrow> (Inr (r, dirs_to_search # searched), w'')))"

text \<open>The search of \<open>_resolve_fid_to_path\<close>: from the root, with \<open>max_depth = 10\<close>.\<close>
definition resolve_search ::
  "'r baidu_client \<Rightarrow> string \<Rightarrow> (('r, 'z) world_scheme, string option \<times> string list list) prog" where
  "resolve_search cl fid = bfs_levels 10 cl fid [''/'']"

definition resolve_fid_to_path ::
  "'r baidu_adapter \<Rightarrow> string \<Rightarrow> (('r, 'z) world_scheme, string) prog" where
  "resolve_fid_to_path self fid =
     (if fid = [] \<or> fid = ''0'' then ret ''/''
      else if startswith fid ''/'' then ret fid
      else if \<not> isdigit fid then
        andthen (log WARNING (''[Baidu] fid='' @ fid @ '' has an unrecognized format''))
          (\<lambda>_. ret ''/'')
      else case client self of
        None \<Rightarrow> ret ''/''
      | Some cl \<Rightarrow>
          andthen (resolve_search cl fid) (\<lambda>(found, searched).
            case found of
              Some p \<Rightarrow> ret p
            | None \<Rightarrow>
                andthen (log WARNING (''[Baidu] no path found for fid='' @ fid
                                       @ '' after walking the directory tree''))
                  (\<lambda>_. ret ''/'')))"

subsection \<open>Resolving an fs_id inside a share\<close>

text \<open>A breadcrumb entry \<open>{"fid": ..., "file_name": ...}\<close>.\<close>
definition crumb :: "pcs_item \<Rightarrow> pyval" where
  "crumb item = PDict [(''fid'', PStr (str_int (fs_id item))),
                       (''file_name'', PStr (basename (path item)))]"

text \<open>The first loop of \<open>_bfs_share_tree\<close>: is a root-level entry the target?\<close>
fun find_root :: "string \<Rightarrow> pcs_item list \<Rightarrow> pcs_item option" where
  "find_root target_fid [] = None"
| "find_root target_fid (item # items) =
     (if str_int (fs_id item) = target_fid then Some item else find_root target_fid items)"

text \<open>The second loop: the queue of root-level directories, each with its breadcrumb.\<close>
fun root_queue :: "pcs_item list \<Rightarrow> (string \<times> pyval list) list" where
  "root_queue [] = []"
| "root_queue (item # items) =
     (if is_dir item then (path item, [crumb item]) # root_queue items else root_queue items)"

text \<open>The loop over the items of one shared directory.\<close>
fun scan_shared ::
  "string \<Rightarrow> pyval list \<Rightarrow> pcs_item list \<Rightarrow> (string \<times> pyval list) list \<Rightarrow>
   (string \<times> pyval list) option \<times> (string \<times> pyval list) list" where
  "scan_shared target_fid current_breadcrumb [] next_queue = (None, next_queue)"
| "scan_shared target_fid current_breadcrumb (item # items) next_queue =
     (let new_breadcrumb = current_breadcrumb @ [crumb item]
      in if str_int (fs_id item) = target_fid then (Some (path item, new_breadcrumb), next_queue)
         else scan_shared target_fid current_breadcrumb items
                (if is_dir item then next_queue @ [(path item, new_breadcrumb)] else next_queue))"

text \<open>The loop over the queue of one round.\<close>
fun search_shared_level ::
  "'r baidu_client \<Rightarrow> int \<Rightarrow> int \<Rightarrow> string \<Rightarrow> string \<Rightarrow>
   (string \<times> pyval list) list \<Rightarrow> (string \<times> pyval list) list \<Rightarrow>
   (('r, 'z) world_scheme, (string \<times> pyval list) option \<times> (string \<times> pyval list) list) prog" where
  "search_shared_level cl u sid tok target_fid [] next_queue w = (Inr (None, next_queue), w)"
| "search_shared_level cl u sid tok target_fid ((current_path, current_breadcrumb) # queue)
       next_queue w =
     (case call (c_list_shared_paths cl current_path u sid tok) w of
        (Inl e, w') \<Rightarrow>
          search_shared_level cl u sid tok target_fid queue next_queue
            (add_log DEBUG (''[Baidu] listing shared directory '' @ current_path
                            @ '' failed: '' @ exn_str e) w')
      | (Inr items, w') \<Rightarrow>
          (case scan_shared target_fid current_breadcrumb items next_queue of
             (Some found, nq) \<Rightarrow> (Inr (Some found, nq), w')
           | (None, nq) \<Rightarrow> search_shared_level cl u sid tok target_fid queue nq w'))"

text \<open>
  \<open>for _ in range(max_depth)\<close>, with the queues searched, one per round, as a record of the
  run.
\<close>
fun bfs_shared_levels ::
  "nat \<Rightarrow> 'r baidu_client \<Rightarrow> int \<Rightarrow> int \<Rightarrow> string \<Rightarrow> string \<Rightarrow> (string \<times> pyval list) list \<Rightarrow>
   (('r, 'z) world_scheme,
    (string \<times> pyval list) option \<times> (string \<times> pyval list) list list) prog" where
  "bfs_shared_levels 0 cl u sid tok target_fid queue w = (Inr (None, []), w)"
| "bfs_shared_levels (Suc n) cl u sid tok target_fid queue w =
     (case search_shared_level cl u sid tok target_fid queue [] w of
        (Inl e, w') \<Rightarrow> (Inl e, w')
      | (Inr (Some found, nq), w') \<Rightarrow> (Inr (Some found, [queue]), w')
      | (Inr (None, next_queue), w') \<Rightarrow>
          if next_queue = [] then (Inr (None, [queue]), w')
          else (case bfs_shared_levels n cl u sid tok target_fid next_queue w' of
                  (Inl e, w'') \<Rightarrow> (Inl e, w'')
                | (Inr (r, searched), w'') \<Rightarrow> (Inr (r, queue # searched), w'')))"

text \<open>
  \<open>_bfs_share_tree\<close> with its parameter \<open>max_depth\<close> (5 when the caller passes none, and no
  caller does). The result is the pair \<open>(path, breadcrumb)\<close>, with the queues searched.
\<close>
definition bfs_share_tree_searched ::
  "'r baidu_client \<Rightarrow> pcs_item list \<Rightarrow> int \<Rightarrow> int \<Rightarrow> string \<Rightarrow> string \<Rightarrow> nat \<Rightarrow>
   (('r, 'z) world_scheme, (string \<times> pyval list) \<times> (string \<times> pyval list) list list) prog" where
  "bfs_share_tree_searched cl shared_paths u sid tok target_fid max_depth =
     (case find_root target_fid shared_paths of
        Some item \<Rightarrow> ret ((path item, [crumb item]), [])
      | None \<Rightarrow>
          andthen (bfs_shared_levels max_depth cl u sid tok target_fid (root_queue shared_paths))
            (\<lambda>(found, searched).
               case found of
                 Some r \<Rightarrow> ret (r, searched)
               | None \<Rightarrow>
                   andthen (log WARNING (''[Baidu] fid='' @ target_fid
                              @ '' not found in the share tree, depth limit=''
                              @ str_int (int max_depth)))
                     (\<lambda>_. ret (('''', []), searched))))"

definition bfs_share_tree ::
  "'r baidu_client \<Rightarrow> pcs_item list \<Rightarrow> int \<Rightarrow> int \<Rightarrow> string \<Rightarrow> string \<Rightarrow>
   (('r, 'z) world_scheme, string \<times> pyval list) prog" where
  "bfs_share_tree cl shared_paths u sid tok target_fid =
     andthen (bfs_share_tree_searched cl shared_paths u sid tok target_fid 5)
       (\<lambda>(r, searched). ret r)"

definition resolve_share_fid_to_path ::
  "'r baidu_adapter \<Rightarrow> string \<Rightarrow> string \<Rightarrow> string \<Rightarrow> (('r, 'z) world_scheme, string) prog" where
  "resolve_share_fid_to_path self share_url passcode fid =
     (if fid = [] \<or> fid = ''0'' \<or> fid = ''/'' then ret ''/''
      else if startswith fid ''/'' then ret fid
      else if \<not> isdigit fid then
        andthen (log WARNING (''[Baidu] share fid='' @ fid @ '' has an unrecognized format''))
          (\<lambda>_. ret ''/'')
      else case client self of
        None \<Rightarrow> ret ''/''
      | Some cl \<Rightarrow>
          try_except
            (andthen (call (c_access_shared cl share_url passcode)) (\<lambda>_.
             andthen (call (c_shared_paths cl share_url)) (\<lambda>shared_paths.
               case shared_paths of
                 [] \<Rightarrow> ret ''/''
               | first # _ \<Rightarrow>
                   andthen (bfs_share_tree cl shared_paths (uk first) (share_id first)
                              (bdstoken first) fid)
                     (\<lambda>(path_str, _). ret (if path_str \<noteq> [] then path_str else ''/'')))))
            (\<lambda>e. andthen (log ERROR (''[Baidu] _resolve_share_fid_to_path failed: '' @ exn_str e))
                    (\<lambda>_. ret ''/'')))"

subsection \<open>Ancestry in a share tree\<close>

text \<open>
  A chain of entries from the root of a share downwards: it starts at a root-level entry of
  the share, and each further entry was returned by a listing of the directory before it.
\<close>
inductive share_chain ::
  "'r baidu_client \<Rightarrow> pcs_item list \<Rightarrow> int \<Rightarrow> int \<Rightarrow> string \<Rightarrow> pcs_item list \<Rightarrow> bool"
  for cl :: "'r baidu_client" and shared_paths u sid tok where
  top: "item \<in> set shared_paths \<Longrightarrow> share_chain cl shared_paths u sid tok [item]"
| child: "share_chain cl shared_paths u sid tok chain \<Longrightarrow> chain \<noteq> [] \<Longrightarrow> is_dir (last chain) \<Longrightarrow>
          c_list_shared_paths cl (path (last chain)) u sid tok s = (Inr items, s') \<Longrightarrow>
          item \<in> set items \<Longrightarrow>
          share_chain cl shared_paths u sid tok (chain @ [item])"

text \<open>What holds of an entry of the queue, and of a result of the search.\<close>
definition queued ::
  "'r baidu_client \<Rightarrow> pcs_item list \<Rightarrow> int \<Rightarrow> int \<Rightarrow> string \<Rightarrow> string \<times> pyval list \<Rightarrow> bool" where
  "queued cl sp u sid tok e =
     (\<exists>chain. share_chain cl sp u sid tok chain \<and> chain \<noteq> [] \<and> is_dir (last chain)
        \<and> fst e = path (last chain) \<and> snd e = map crumb chain)"

definition reached ::
  "'r baidu_client \<Rightarrow> pcs_item list \<Rightarrow> int \<Rightarrow> int \<Rightarrow> string \<Rightarrow> string \<Rightarrow> string \<times> pyval list \<Rightarrow> bool" where
  "reached cl sp u sid tok target r =
     (\<exists>chain. share_chain cl sp u sid tok chain \<and> chain \<noteq> []
        \<and> str_int (fs_id (last chain)) = target
        \<and> fst r = path (last chain) \<and> snd r = map crumb chain)"

subsection \<open>Integers in strings\<close>

text \<open>
  \<open>repr(s)\<close> of a string: double quotes when the string holds a single quote and no double
  quote, single quotes otherwise; the backslash and the chosen quote are escaped, tab,
  newline and carriage return are written \<open>\t\<close>, \<open>\n\<close>, \<open>\r\<close>, and every other
  character that is not printable is written \<open>\xNN\<close>.
\<close>
definition is_printable :: "char \<Rightarrow> bool" where
  "is_printable c = (\<not> (code_in 0 31 c \<or> code_in 127 160 c \<or> code_in 173 173 c))"

definition hex2 :: "nat \<Rightarrow> string" where
  "hex2 n = [''0123456789abcdef'' ! (n div 16 mod 16), ''0123456789abcdef'' ! (n mod 16)]"

definition repr_char :: "char \<Rightarrow> char \<Rightarrow> string" where
  "repr_char q c =
     (if c = CHR 0x5C then [CHR 0x5C, CHR 0x5C]
      else if c = q then [CHR 0x5C, q]
      else if c = CHR 0x09 then [CHR 0x5C, CHR ''t'']
      else if c = CHR 0x0A then [CHR 0x5C, CHR ''n'']
      else if c = CHR 0x0D then [CHR 0x5C, CHR ''r'']
      else if \<not> is_printable c then [CHR 0x5C, CHR ''x''] @ hex2 (of_char c)
      else [c])"

definition py_repr :: "string \<Rightarrow> string" where
  "py_repr s =
     (let q = (if CHR 0x27 \<in> set s \<and> CHR 0x22 \<notin> set s then CHR 0x22 else CHR 0x27)
      in [q] @ concat (map (repr_char q) s) @ [q])"

text \<open>
  \<open>int(s)\<close> for a string, in base 10. Whitespace before and after is skipped (the
  separators U+001C .. U+001F are not whitespace here), then comes an optional sign and
  the run of digits and underscores, in which an underscore may only stand between two
  digits; \<open>int_digits\<close> reads the run, \<open>prev\<close> telling whether the character before was a
  digit. A well-formed run of more than 4300 digits raises ValueError for its length,
  whatever follows it; anything else that is not a number raises ValueError with the first
  200 characters of \<open>repr(s)\<close>.
\<close>
fun int_digits :: "nat \<Rightarrow> bool \<Rightarrow> string \<Rightarrow> nat option" where
  "int_digits acc prev [] = (if prev then Some acc else None)"
| "int_digits acc prev (c # cs) =
     (if is_digit c then int_digits (10 * acc + ((of_char c :: nat) - 48)) True cs
      else if c = CHR ''_'' \<and> prev then int_digits acc False cs
      else None)"

definition int_space :: "char \<Rightarrow> bool" where
  "int_space c = (code_in 9 13 c \<or> code_in 32 32 c \<or> code_in 133 133 c \<or> code_in 160 160 c)"

definition invalid_literal :: "string \<Rightarrow> exn" where
  "invalid_literal s =
     PyExc ''ValueError'' (''invalid literal for int() with base 10: '' @ take 200 (py_repr s))"

definition exceeds_limit :: "nat \<Rightarrow> exn" where
  "exceeds_limit n =
     PyExc ''ValueError''
       (''Exceeds the limit (4300 digits) for integer string conversion: value has ''
        @ str_nat n @ '' digits; use sys.set_int_max_str_digits() to increase the limit'')"

definition py_int :: "string \<Rightarrow> exn + int" where
  "py_int s =
     (let t = dropWhile int_space s;
          neg = (case t of [] \<Rightarrow> False | c # cs \<Rightarrow> c = CHR ''-'');
          u = (case t of [] \<Rightarrow> t | c # cs \<Rightarrow> if c = CHR ''-'' \<or> c = CHR ''+'' then cs else t);
          run = takeWhile (\<lambda>c. is_digit c \<or> c = CHR ''_'') u;
          rest = dropWhile int_space (drop (length run) u)
      in case int_digits 0 False run of
           None \<Rightarrow> Inl (invalid_literal s)
         | Some n \<Rightarrow>
             if length (filter is_digit run) > 4300
             then Inl (exceeds_limit (length (filter is_digit run)))
             else if rest \<noteq> [] then Inl (invalid_literal s)
             else Inr (if neg then - int n else int n))"

text \<open>
  \<open>errno[=:]?\s*(-?\d+)\<close> anchored. Each part is settled by the next character, so the
  match does not depend on backtracking: the word, one \<open>=\<close> or \<open>:\<close> if there, all
  whitespace, one minus sign if there, and the longest run of digits, which must not be
  empty. Group 1 is the sign with the digits.
\<close>
definition match_errno :: "string \<Rightarrow> string option" where
  "match_errno s =
     (if startswith s ''errno'' then
        (let r1 = drop 5 s;
             r2 = (case r1 of [] \<Rightarrow> r1
                   | c # cs \<Rightarrow> if c = CHR ''='' \<or> c = CHR '':'' then cs else r1);
             r3 = dropWhile re_s r2;
             sign = (case r3 of [] \<Rightarrow> '''' | c # cs \<Rightarrow> if c = CHR ''-'' then ''-'' else '''');
             ds = takeWhile is_digit (drop (length sign) r3)
         in if ds \<noteq> [] then Some (sign @ ds) else None)
      else None)"

subsection \<open>Error codes\<close>

definition ERROR_CODES :: "(int \<times> string) list" where
  "ERROR_CODES =
     [(- 6, ''authentication failed, check that the cookie is valid''),
      (- 65, ''too many requests, retry later''),
      (145, ''the share link is no longer valid''),
      (200025, ''wrong extraction code''),
      (31066, ''the directory does not exist''),
      (31061, ''the file already exists''),
      (31299, ''creating the folder failed''),
      (- 9, ''the file does not exist or was deleted''),
      (- 3, ''too many files to transfer''),
      (- 7, ''the shared folder awaits review''),
      (- 21, ''your account is locked''),
      (2, ''parameter error''),
      (111, ''another asynchronous task is running''),
      (12, ''transferring the files failed''),
      (4, ''wrong share extraction code''),
      (105, ''the share link has expired''),
      (- 1, ''the share link does not exist'')]"

definition get_error_message :: "int \<Rightarrow> string" where
  "get_error_message errno =
     (case map_of ERROR_CODES errno of
        Some m \<Rightarrow> m
      | None \<Rightarrow> ''unknown error (errno='' @ str_int errno @ '')'')"

subsection \<open>The operations of BaiduAdapter\<close>

text \<open>\<open>if not BAIDUPCS_AVAILABLE or not self.client\<close>: the client, when the guard lets through.\<close>
definition usable_client :: "'r baidu_adapter \<Rightarrow> 'r baidu_client option" where
  "usable_client self = (if BAIDUPCS_AVAILABLE self then client self else None)"

definition uninitialized :: pyval where
  "uninitialized = PStr ''Baidu drive client is not initialized''"

text \<open>
  The branch \<open>if errno_match\<close> of the handlers of \<open>get_stoken\<close> and \<open>save_file\<close>: the code is the
  errno read from the text of the exception. \<open>int\<close> runs inside the handler, where nothing
  would catch what it raises.
\<close>
definition errno_envelope ::
  "(int \<Rightarrow> string \<Rightarrow> pyval) \<Rightarrow> string \<Rightarrow> ('w, pyval option) prog" where
  "errno_envelope mk error_msg =
     (case re_search match_errno error_msg of
        Some g \<Rightarrow> andthen (lift (py_int g)) (\<lambda>errno. ret (Some (mk errno (get_error_message errno))))
      | None \<Rightarrow> ret None)"

definition baidu_get_stoken ::
  "'r baidu_adapter \<Rightarrow> string \<Rightarrow> string \<Rightarrow> (('r, 'z) world_scheme, pyval) prog" where
  "baidu_get_stoken self pwd_id passcode =
     (case usable_client self of
        None \<Rightarrow> ret (PDict [(''status'', PInt 500), (''code'', PInt 1), (''message'', uninitialized)])
      | Some cl \<Rightarrow>
          andthen
            (try_except
               (andthen (call (c_access_shared cl
                           (''https://pan.baidu.com/s/'' @ pwd_id @ ''?pwd='' @ passcode) passcode))
                  (\<lambda>_. ret (Some (PDict
                     [(''status'', PInt 200), (''code'', PInt 0),
                      (''data'', PDict [(''stoken'', PStr (pwd_id @ '':'' @ passcode)),
                                       (''share_id'', PStr pwd_id)]),
                      (''message'', PStr ''success'')]))))
               (\<lambda>e. andthen (log ERROR (''[Baidu] access to the share failed: '' @ exn_str e))
                  (\<lambda>_. errno_envelope
                          (\<lambda>errno m. PDict [(''status'', PInt 400), (''code'', PInt errno),
                                             (''message'', PStr m)])
                          (exn_str e))))
            (\<lambda>returned. case returned of
               Some env \<Rightarrow> ret env
             | None \<Rightarrow> ret (PDict [(''status'', PInt 400), (''code'', PInt 1),
                                   (''message'', PStr ''the share link is invalid or expired'')])))"

text \<open>The entry of \<open>ls_dir\<close> for one item: the path serves as fid.\<close>
definition file_info :: "pcs_item \<Rightarrow> pyval" where
  "file_info item =
     PDict [(''fid'', PStr (path item)),
            (''file_name'', PStr (basename (path item))),
            (''file_type'', PInt (if is_dir item then 0 else 1)),
            (''dir'', PBool (is_dir item)),
            (''size'', PInt (item_size item)),
            (''updated_at'', PInt (server_mtime item)),
            (''share_fid_token'', PStr (str_int (fs_id item))),
            (''path'', PStr (path item))]"

definition baidu_ls_dir ::
  "'r baidu_adapter \<Rightarrow> string \<Rightarrow> (('r, 'z) world_scheme, pyval) prog" where
  "baidu_ls_dir self pdir_fid =
     (case usable_client self of
        None \<Rightarrow> ret (PDict [(''code'', PInt 1), (''message'', uninitialized),
                              (''data'', PDict [(''list'', PList [])])])
      | Some cl \<Rightarrow>
          try_except
            (andthen (resolve_fid_to_path self (if pdir_fid \<noteq> [] then pdir_fid else ''0''))
               (\<lambda>remote_path.
             andthen (call (c_list cl remote_path)) (\<lambda>files.
               ret (PDict [(''code'', PInt 0), (''message'', PStr ''success''),
                           (''data'', PDict [(''list'', PList (map file_info files))]),
                           (''metadata'', PDict [(''_total'', PInt (int (length files)))])]))))
            (\<lambda>e. andthen (log ERROR (''[Baidu] listing the directory failed: '' @ exn_str e))
               (\<lambda>_. ret (PDict [(''code'', PInt 1),
                                  (''message'', PStr (''listing the directory failed: '' @ exn_str e)),
                                  (''data'', PDict [(''list'', PList [])])]))))"

subsection \<open>save_file and the reconciliation of the new fids\<close>

text \<open>\<open>d.get(k, "")\<close> on an entry of a listing, and the list under \<open>data.list\<close> of an envelope.\<close>
definition get_str :: "pyval \<Rightarrow> string \<Rightarrow> string" where
  "get_str item k = (case dict_get item k of PStr s \<Rightarrow> s | _ \<Rightarrow> '''')"

definition data_list :: "pyval \<Rightarrow> pyval list" where
  "data_list env = (case dict_get (dict_get env ''data'') ''list'' of PList xs \<Rightarrow> xs | _ \<Rightarrow> [])"

text \<open>
  \<open>d[k] = v\<close> on a dictionary kept as the list of its items in insertion order: a key that
  is there keeps its place.
\<close>
fun dict_set :: "'k \<Rightarrow> 'v \<Rightarrow> ('k \<times> 'v) list \<Rightarrow> ('k \<times> 'v) list" where
  "dict_set k v [] = [(k, v)]"
| "dict_set k v ((k', v') # kvs) = (if k' = k then (k, v) # kvs else (k', v') # dict_set k v kvs)"

text \<open>The snapshot before the transfer: \<open>before_items[fid] = file_name\<close> for each entry.\<close>
fun record_before :: "pyval list \<Rightarrow> (string \<times> string) list \<Rightarrow> (string \<times> string) list" where
  "record_before [] before_items = before_items"
| "record_before (item # items) before_items =
     record_before items (dict_set (get_str item ''fid'') (get_str item ''file_name'') before_items)"

text \<open>
  The listing after the transfer: \<open>name_to_new_fid[fname] = fid\<close> for each entry whose fid
  is not empty and is no key of the snapshot.
\<close>
fun record_new ::
  "(string \<times> string) list \<Rightarrow> pyval list \<Rightarrow> (string \<times> string) list \<Rightarrow> (string \<times> string) list" where
  "record_new before_items [] name_to_new_fid = name_to_new_fid"
| "record_new before_items (item # items) name_to_new_fid =
     (let fid = get_str item ''fid''; fname = get_str item ''file_name''
      in record_new before_items items
           (if fid \<noteq> [] \<and> map_of before_items fid = None
            then dict_set fname fid name_to_new_fid else name_to_new_fid))"

text \<open>\<open>re.sub(r'[^\w\s\.]', '', name)\<close>\<close>
definition clean_name :: "string \<Rightarrow> string" where
  "clean_name name = filter (\<lambda>c. re_w c \<or> re_s c \<or> c = CHR ''.'') name"

text \<open>The fallback loop over \<open>name_to_new_fid.items()\<close>: the first key that is equal after cleaning.\<close>
fun fuzzy_match :: "string \<Rightarrow> (string \<times> string) list \<Rightarrow> string option" where
  "fuzzy_match fname_clean [] = None"
| "fuzzy_match fname_clean ((k, v) # kvs) =
     (if fname_clean = clean_name k then Some v else fuzzy_match fname_clean kvs)"

text \<open>The loop over \<open>file_names\<close> that fills \<open>saved_fids\<close>.\<close>
fun assemble_saved_fids ::
  "(string \<times> string) list \<Rightarrow> string list \<Rightarrow> string list \<Rightarrow>
   (('r, 'z) world_scheme, string list) prog" where
  "assemble_saved_fids name_to_new_fid [] saved_fids w = (Inr saved_fids, w)"
| "assemble_saved_fids name_to_new_fid (fname # file_names) saved_fids w =
     (let new_fid = (case map_of name_to_new_fid fname of Some v \<Rightarrow> v | None \<Rightarrow> '''')
      in if new_fid \<noteq> []
         then assemble_saved_fids name_to_new_fid file_names (saved_fids @ [new_fid]) w
         else (case fuzzy_match (clean_name fname) name_to_new_fid of
                 Some v \<Rightarrow> assemble_saved_fids name_to_new_fid file_names (saved_fids @ [v]) w
               | None \<Rightarrow>
                   assemble_saved_fids name_to_new_fid file_names (saved_fids @ [''''])
                     (add_log WARNING (''[Baidu] no new fid found for file '' @ fname) w)))"

text \<open>
  The block that builds \<open>saved_fids\<close> from the two listings: \<open>file_names\<close> is None when the
  caller passes none.
\<close>
definition reconcile ::
  "(string \<times> string) list \<Rightarrow> pyval list \<Rightarrow> string list option \<Rightarrow>
   (('r, 'z) world_scheme, string list) prog" where
  "reconcile before_items after_list file_names =
     (let name_to_new_fid = record_new before_items after_list []
      in case file_names of
           None \<Rightarrow> ret (map snd name_to_new_fid)
         | Some names \<Rightarrow>
             if names = [] then ret (map snd name_to_new_fid)
             else assemble_saved_fids name_to_new_fid names [])"

text \<open>\<open>[int(fid) for fid in fid_token_list if fid]\<close>\<close>
fun int_tokens :: "string list \<Rightarrow> exn + int list" where
  "int_tokens [] = Inr []"
| "int_tokens (fid # fids) =
     (if fid = [] then int_tokens fids
      else case py_int fid of
             Inl e \<Rightarrow> Inl e
           | Inr i \<Rightarrow> (case int_tokens fids of Inl e \<Rightarrow> Inl e | Inr is \<Rightarrow> Inr (i # is)))"

text \<open>\<open>parts[0]\<close> and \<open>parts[1] if len(parts) > 1 else ""\<close> of the stoken.\<close>
definition stoken_parts :: "string \<Rightarrow> string \<Rightarrow> exn + string \<times> string" where
  "stoken_parts stoken pwd_id =
     (let parts = (if stoken \<noteq> [] then split stoken '':'' else [pwd_id, ''''])
      in case parts of
           [] \<Rightarrow> Inl (PyExc ''IndexError'' ''list index out of range'')
         | p0 # rest \<Rightarrow> Inr (p0, (case rest of [] \<Rightarrow> '''' | p1 # _ \<Rightarrow> p1)))"

text \<open>
  A listing of the target directory through \<open>ls_dir\<close>, inside its own \<open>try\<close>: the entries
  when the code is 0, none otherwise. \<open>on_error\<close> is the handler (\<open>pass\<close> before the transfer,
  a log record after it).
\<close>
definition listed_entries ::
  "'r baidu_adapter \<Rightarrow> string \<Rightarrow> (exn \<Rightarrow> (('r, 'z) world_scheme, unit) prog) \<Rightarrow>
   (('r, 'z) world_scheme, pyval list) prog" where
  "listed_entries self to_pdir_fid on_error =
     try_except
       (andthen (baidu_ls_dir self (if to_pdir_fid \<noteq> [] then to_pdir_fid else ''0''))
          (\<lambda>dir. ret (if dict_get dir ''code'' = PInt 0 then data_list dir else [])))
       (\<lambda>e. andthen (on_error e) (\<lambda>_. ret []))"

text \<open>
  The two listings that \<open>save_file\<close> takes of the target directory: the snapshot before the
  transfer, where an exception is passed over, and the listing after it, where an exception
  is logged.
\<close>
abbreviation snapshot_before ::
  "'r baidu_adapter \<Rightarrow> string \<Rightarrow> (('r, 'z) world_scheme, pyval list) prog" where
  "snapshot_before self to_pdir_fid \<equiv> listed_entries self to_pdir_fid (\<lambda>e. ret ())"

abbreviation listing_after ::
  "'r baidu_adapter \<Rightarrow> string \<Rightarrow> (('r, 'z) world_scheme, pyval list) prog" where
  "listing_after self to_pdir_fid \<equiv>
     listed_entries self to_pdir_fid
       (\<lambda>e. log ERROR (''[Baidu] listing the directory after the transfer failed: ''
                        @ exn_str e))"

text \<open>
  The body of the \<open>try\<close> of \<open>save_file\<close>: Some envelope where it returns, None where it falls
  through to the last line of the method.
\<close>
definition save_file_body ::
  "'r baidu_adapter \<Rightarrow> 'r baidu_client \<Rightarrow> string list \<Rightarrow> string list \<Rightarrow> string \<Rightarrow> string \<Rightarrow>
   string \<Rightarrow> string list option \<Rightarrow> (('r, 'z) world_scheme, pyval option) prog" where
  "save_file_body self cl fid_list fid_token_list to_pdir_fid pwd_id stoken file_names =
     andthen (lift (stoken_parts stoken pwd_id)) (\<lambda>(share_id', passcode).
     let share_url = ''https://pan.baidu.com/s/'' @ share_id' in
     andthen (resolve_fid_to_path self (if to_pdir_fid \<noteq> [] then to_pdir_fid else ''0''))
       (\<lambda>remote_dir.
     andthen (snapshot_before self to_pdir_fid) (\<lambda>before_list.
     let before_items = record_before before_list [] in
     andthen (if share_id' \<notin> set (share_info self)
              then andthen (baidu_get_stoken self share_id' passcode) (\<lambda>token_result.
                     ret (if dict_get token_result ''code'' \<noteq> PInt 0
                          then Some (PDict [(''code'', PInt 1),
                                            (''message'', dict_get token_result ''message''),
                                            (''data'', PDict [])])
                          else None))
              else ret None) (\<lambda>refused.
     case refused of
       Some env \<Rightarrow> ret (Some env)
     | None \<Rightarrow>
     andthen (call (c_shared_paths cl share_url)) (\<lambda>shared_paths.
     case shared_paths of
       [] \<Rightarrow> ret (Some (PDict [(''code'', PInt 1),
                 (''message'', PStr ''transfer failed: the link is invalid or the network failed''),
                 (''data'', PDict [])]))
     | first # _ \<Rightarrow>
     andthen (lift (int_tokens fid_token_list)) (\<lambda>fs_ids.
     andthen (call (c_transfer_shared_paths cl remote_dir fs_ids (uk first) (share_id first)
                      (bdstoken first) share_url)) (\<lambda>result.
     andthen (listing_after self to_pdir_fid) (\<lambda>after_list.
     andthen (reconcile before_items after_list file_names) (\<lambda>saved_fids.
     ret (if \<not> result
          then Some (PDict [(''code'', PInt 0), (''message'', PStr ''success''),
                 (''data'', PDict [(''task_id'', PStr (''baidu_sync_'' @ share_id')),
                                  (''save_as_top_fids'', PList (map PStr saved_fids)),
                                  (''_sync'', PBool True)])])
          else None))))))))))"

definition baidu_save_file ::
  "'r baidu_adapter \<Rightarrow> string list \<Rightarrow> string list \<Rightarrow> string \<Rightarrow> string \<Rightarrow> string \<Rightarrow>
   string list option \<Rightarrow> (('r, 'z) world_scheme, pyval) prog" where
  "baidu_save_file self fid_list fid_token_list to_pdir_fid pwd_id stoken file_names =
     (case usable_client self of
        None \<Rightarrow> ret (PDict [(''code'', PInt 1), (''message'', uninitialized), (''data'', PDict [])])
      | Some cl \<Rightarrow>
          andthen
            (try_except
               (save_file_body self cl fid_list fid_token_list to_pdir_fid pwd_id stoken file_names)
               (\<lambda>e. andthen (log ERROR (''[Baidu] transfer failed: '' @ exn_str e)) (\<lambda>_.
                  andthen (errno_envelope
                             (\<lambda>errno m. PDict [(''code'', PInt errno), (''message'', PStr m),
                                                (''data'', PDict [])])
                             (exn_str e))
                    (\<lambda>r. case r of
                       Some env \<Rightarrow> ret (Some env)
                     | None \<Rightarrow> ret (Some (PDict [(''code'', PInt 1),
                                   (''message'', PStr (''transfer failed: '' @ exn_str e)),
                                   (''data'', PDict [])]))))))
            (\<lambda>returned. case returned of
               Some env \<Rightarrow> ret env
             | None \<Rightarrow> ret (PDict [(''code'', PInt 1), (''message'', PStr ''transfer failed''),
                                   (''data'', PDict [])])))"

subsection \<open>get_detail, mkdir, rename, delete and get_fids of BaiduAdapter\<close>

text \<open>\<open>_convert_shared_item\<close>: the name is \<open>server_filename\<close> where the entry has one.\<close>
definition convert_shared_item :: "pcs_item \<Rightarrow> pyval" where
  "convert_shared_item item =
     PDict [(''fid'', PStr (str_int (fs_id item))),
            (''file_name'', PStr (case server_filename item of
                                    Some n \<Rightarrow> n | None \<Rightarrow> basename (path item))),
            (''file_type'', PInt (if is_dir item then 0 else 1)),
            (''dir'', PBool (is_dir item)),
            (''size'', PInt (item_size item)),
            (''updated_at'', PInt (server_mtime item)),
            (''share_fid_token'', PStr (str_int (fs_id item))),
            (''path'', PStr (path item))]"

definition detail_envelope :: "pyval list \<Rightarrow> pyval list \<Rightarrow> pyval" where
  "detail_envelope file_list full_path =
     PDict [(''code'', PInt 0), (''message'', PStr ''success''),
            (''data'', PDict [(''list'', PList file_list), (''full_path'', PList full_path)]),
            (''metadata'', PDict [(''_total'', PInt (int (length file_list)))])]"

text \<open>The choice of \<open>remote_path\<close> and \<open>full_path\<close> from \<open>pdir_fid\<close>.\<close>
definition detail_target ::
  "'r baidu_client \<Rightarrow> pcs_item list \<Rightarrow> pcs_item \<Rightarrow> string \<Rightarrow> int \<Rightarrow>
   (('r, 'z) world_scheme, string \<times> pyval list) prog" where
  "detail_target cl shared_paths first pdir_fid fetch_share_full_path =
     (if pdir_fid = [] \<or> pdir_fid = ''0'' \<or> pdir_fid = ''/'' then ret (path first, [])
      else if startswith pdir_fid ''/'' then ret (pdir_fid, [])
      else if isdigit pdir_fid then
        andthen (bfs_share_tree cl shared_paths (uk first) (share_id first) (bdstoken first) pdir_fid)
          (\<lambda>(path_str, breadcrumb).
             ret (if path_str \<noteq> [] then path_str else path first,
                  if fetch_share_full_path \<noteq> 0 then breadcrumb else []))
      else andthen (log WARNING (''[Baidu] pdir_fid='' @ pdir_fid
                       @ '' has an unrecognized format, using the root directory''))
             (\<lambda>_. ret (path first, [])))"

definition baidu_get_detail ::
  "'r baidu_adapter \<Rightarrow> string \<Rightarrow> string \<Rightarrow> string \<Rightarrow> int \<Rightarrow> int \<Rightarrow>
   (('r, 'z) world_scheme, pyval) prog" where
  "baidu_get_detail self pwd_id stoken pdir_fid fetch_share fetch_share_full_path =
     (case usable_client self of
        None \<Rightarrow> ret (PDict [(''code'', PInt 1), (''message'', uninitialized),
                              (''data'', PDict [(''list'', PList [])])])
      | Some cl \<Rightarrow>
          try_except
            (andthen (lift (stoken_parts stoken pwd_id)) (\<lambda>(share_id', passcode).
             let share_url = ''https://pan.baidu.com/s/'' @ share_id' in
             andthen (call (c_access_shared cl share_url passcode)) (\<lambda>_.
             andthen (call (c_shared_paths cl share_url)) (\<lambda>shared_paths.
             case shared_paths of
               [] \<Rightarrow> ret (detail_envelope [] [])
             | first # _ \<Rightarrow>
                 andthen (detail_target cl shared_paths first pdir_fid fetch_share_full_path)
                   (\<lambda>(remote_path, full_path).
                 andthen (call (c_list_shared_paths cl remote_path (uk first) (share_id first)
                                  (bdstoken first))) (\<lambda>folder_files.
                   ret (detail_envelope (map convert_shared_item folder_files) full_path)))))))
            (\<lambda>e. andthen (log ERROR (''[Baidu] fetching the share details failed: '' @ exn_str e))
               (\<lambda>_. ret (PDict [(''code'', PInt 1),
                         (''message'', PStr (''fetching the share details failed: '' @ exn_str e)),
                         (''data'', PDict [(''list'', PList [])])]))))"

text \<open>\<open>dir_path.rstrip("/").split("/")[-1]\<close>\<close>
definition dir_name_of :: "string \<Rightarrow> string" where
  "dir_name_of dir_path = last (split (rstrip_slash dir_path) ''/'')"

text \<open>\<open>"/".join(p.rstrip("/").split("/")[:-1]) or "/"\<close>\<close>
definition parent_of :: "string \<Rightarrow> string" where
  "parent_of p =
     (let joined = join ''/'' (butlast (split (rstrip_slash p) ''/''))
      in if joined \<noteq> [] then joined else ''/'')"

text \<open>
  \<open>mkdir\<close>. The path is given its leading slash before the client is called, so the handler
  sees the path with the slash.
\<close>
definition baidu_mkdir ::
  "'r baidu_adapter \<Rightarrow> string \<Rightarrow> (('r, 'z) world_scheme, pyval) prog" where
  "baidu_mkdir self dir_path0 =
     (case usable_client self of
        None \<Rightarrow> ret (PDict [(''code'', PInt 1), (''message'', uninitialized)])
      | Some cl \<Rightarrow>
          (let dir_path = (if startswith dir_path0 ''/'' then dir_path0 else ''/'' @ dir_path0)
           in try_except
                (andthen (call (c_makedir cl dir_path)) (\<lambda>_.
                   ret (PDict [(''code'', PInt 0), (''message'', PStr ''success''),
                               (''data'', PDict [(''fid'', PStr dir_path),
                                                (''file_name'', PStr (dir_name_of dir_path))])])))
                (\<lambda>e. andthen (log ERROR (''[Baidu] creating the directory failed: '' @ exn_str e))
                   (\<lambda>_. if py_in ''31061'' (exn_str e) \<or> py_in ''already'' (lower (exn_str e))
                          then ret (PDict [(''code'', PInt 0),
                                 (''message'', PStr ''the directory already exists''),
                                 (''data'', PDict [(''fid'', PStr dir_path),
                                                  (''file_name'', PStr (dir_name_of dir_path))])])
                          else ret (PDict [(''code'', PInt 1),
                                 (''message'',
                                  PStr (''creating the directory failed: '' @ exn_str e))])))))"

definition baidu_rename ::
  "'r baidu_adapter \<Rightarrow> string \<Rightarrow> string \<Rightarrow> (('r, 'z) world_scheme, pyval) prog" where
  "baidu_rename self fid file_name =
     (case usable_client self of
        None \<Rightarrow> ret (PDict [(''code'', PInt 1), (''message'', uninitialized)])
      | Some cl \<Rightarrow>
          try_except
            (andthen (resolve_fid_to_path self fid) (\<lambda>old_path.
               if old_path = ''/''
               then ret (PDict [(''code'', PInt 1),
                      (''message'', PStr ''file path not found, refresh the directory first'')])
               else andthen (call (c_rename cl old_path (parent_of old_path @ ''/'' @ file_name)))
                      (\<lambda>_. ret (PDict [(''code'', PInt 0), (''message'', PStr ''success'')]))))
            (\<lambda>e. andthen (log ERROR (''[Baidu] rename failed: '' @ exn_str e))
               (\<lambda>_. ret (PDict [(''code'', PInt 1),
                                  (''message'', PStr (''rename failed: '' @ exn_str e))]))))"

text \<open>The loop of \<open>delete\<close> that resolves each fid and keeps the paths other than the root.\<close>
fun delete_paths ::
  "'r baidu_adapter \<Rightarrow> string list \<Rightarrow> string list \<Rightarrow> (('r, 'z) world_scheme, string list) prog" where
  "delete_paths self [] paths w = (Inr paths, w)"
| "delete_paths self (fid # filelist) paths w =
     (case resolve_fid_to_path self fid w of
        (Inl e, w') \<Rightarrow> (Inl e, w')
      | (Inr p, w') \<Rightarrow> delete_paths self filelist (if p \<noteq> ''/'' then paths @ [p] else paths) w')"

definition baidu_delete ::
  "'r baidu_adapter \<Rightarrow> string list \<Rightarrow> (('r, 'z) world_scheme, pyval) prog" where
  "baidu_delete self filelist =
     (case usable_client self of
        None \<Rightarrow> ret (PDict [(''code'', PInt 1), (''message'', uninitialized)])
      | Some cl \<Rightarrow>
          try_except
            (andthen (delete_paths self filelist []) (\<lambda>paths.
               if paths = []
               then ret (PDict [(''code'', PInt 1),
                                (''message'', PStr ''no file to delete was found'')])
               else andthen (call (c_remove cl paths))
                      (\<lambda>_. ret (PDict [(''code'', PInt 0), (''message'', PStr ''success'')]))))
            (\<lambda>e. andthen (log ERROR (''[Baidu] delete failed: '' @ exn_str e))
               (\<lambda>_. ret (PDict [(''code'', PInt 1),
                                  (''message'', PStr (''delete failed: '' @ exn_str e))]))))"

text \<open>
  \<open>get_fids\<close>. The body of the loop for one path gives the entry it appends, if any: the
  root entry for an empty path or \<open>/\<close>; otherwise the path, stripped and with its leading
  slash, when the listing of its parent has an entry of its name. A listing that raises is
  passed over.
\<close>
definition fid_entry :: "string \<Rightarrow> string \<Rightarrow> pyval" where
  "fid_entry file_path fid = PDict [(''file_path'', PStr file_path), (''fid'', PStr fid)]"

definition baidu_get_fid ::
  "'r baidu_client \<Rightarrow> string \<Rightarrow> (('r, 'z) world_scheme, pyval option) prog" where
  "baidu_get_fid cl path0 =
     (if path0 = [] \<or> path0 = ''/'' then ret (Some (fid_entry ''/'' ''/''))
      else
        (let p1 = strip path0;
             p = (if startswith p1 ''/'' then p1 else ''/'' @ p1)
         in try_except
              (andthen (call (c_list cl (parent_of p))) (\<lambda>files.
                 ret (if list_ex (\<lambda>f. basename (path f) = dir_name_of p) files
                      then Some (fid_entry p p) else None)))
              (\<lambda>e. ret None)))"

fun baidu_get_fids_loop ::
  "'r baidu_client \<Rightarrow> string list \<Rightarrow> pyval list \<Rightarrow> (('r, 'z) world_scheme, pyval list) prog" where
  "baidu_get_fids_loop cl [] results w = (Inr results, w)"
| "baidu_get_fids_loop cl (p # file_paths) results w =
     (case baidu_get_fid cl p w of
        (Inl e, w') \<Rightarrow> (Inl e, w')
      | (Inr (Some entry), w') \<Rightarrow> baidu_get_fids_loop cl file_paths (results @ [entry]) w'
      | (Inr None, w') \<Rightarrow> baidu_get_fids_loop cl file_paths results w')"

definition baidu_get_fids ::
  "'r baidu_adapter \<Rightarrow> string list \<Rightarrow> (('r, 'z) world_scheme, pyval list) prog" where
  "baidu_get_fids self file_paths =
     (case usable_client self of
        None \<Rightarrow> ret []
      | Some cl \<Rightarrow> baidu_get_fids_loop cl file_paths [])"

section \<open>AliyunAdapter\<close>

text \<open>
  What the \<open>aligo\<close> client returns, with the attributes the adapter reads. \<open>ali_size\<close> is None
  where the entry has no attribute \<open>size\<close>; \<open>updated_at\<close> is the time stamp in seconds that
  the adapter computes from the attribute, None where the attribute is missing or empty. A
  page of a listing has its entries and the marker of the next page, empty on the last one.
\<close>
record ali_item =
  file_id :: string
  item_name :: string
  item_type :: string
  ali_size :: "int option"
  updated_at :: "int option"

record ali_page =
  page_items :: "ali_item list"
  next_marker :: string

record ali_share_token =
  share_token :: string
  expire_time :: string

text \<open>
  The client methods the adapter calls. A result of None is a falsy answer; the Boolean
  results are the truth value of what the client returns; \<open>a_create_folder\<close> returns the
  \<open>file_id\<close> of the folder it made.
\<close>
record 'r aliyun_client =
  a_get_share_token :: "string \<Rightarrow> string \<Rightarrow> 'r \<Rightarrow> (exn + ali_share_token option) \<times> 'r"
  a_get_share_file_list ::
    "string \<Rightarrow> string \<Rightarrow> string option \<Rightarrow> 'r \<Rightarrow> (exn + ali_page option) \<times> 'r"
  a_get_file_list :: "string \<Rightarrow> string option \<Rightarrow> 'r \<Rightarrow> (exn + ali_page option) \<times> 'r"
  a_share_file_saveto_drive :: "string \<Rightarrow> string list \<Rightarrow> string \<Rightarrow> 'r \<Rightarrow> (exn + bool) \<times> 'r"
  a_create_folder :: "string \<Rightarrow> string \<Rightarrow> 'r \<Rightarrow> (exn + string option) \<times> 'r"
  a_rename_file :: "string \<Rightarrow> string \<Rightarrow> 'r \<Rightarrow> (exn + bool) \<times> 'r"
  a_batch_move_to_trash :: "string list \<Rightarrow> 'r \<Rightarrow> (exn + bool) \<times> 'r"

record 'r aliyun_adapter =
  ALIGO_AVAILABLE :: bool
  ali_client :: "'r aliyun_client option"

text \<open>The adapter's own dictionaries \<open>_share_tokens\<close> and \<open>_file_cache\<close> are part of its world.\<close>
record 'r ali_world = "'r world" +
  share_tokens :: "(string \<times> string) list"
  file_cache :: "(string \<times> pyval) list"

definition ali_usable :: "'r aliyun_adapter \<Rightarrow> 'r aliyun_client option" where
  "ali_usable self = (if ALIGO_AVAILABLE self then ali_client self else None)"

definition ali_uninitialized :: pyval where
  "ali_uninitialized = PStr ''Aliyun drive client is not initialized''"

text \<open>\<open>pdir_fid if pdir_fid and pdir_fid != "0" else "root"\<close>\<close>
definition parent_file_id_of :: "string \<Rightarrow> string" where
  "parent_file_id_of pdir_fid = (if pdir_fid \<noteq> [] \<and> pdir_fid \<noteq> ''0'' then pdir_fid else ''root'')"

definition aliyun_get_stoken ::
  "'r aliyun_adapter \<Rightarrow> string \<Rightarrow> string \<Rightarrow> (('r, 'z) ali_world_scheme, pyval) prog" where
  "aliyun_get_stoken self pwd_id passcode =
     (case ali_usable self of
        None \<Rightarrow> ret (PDict [(''status'', PInt 500), (''code'', PInt 1),
                              (''message'', ali_uninitialized)])
      | Some cl \<Rightarrow>
          andthen
            (try_except
               (andthen (call (a_get_share_token cl pwd_id passcode)) (\<lambda>tok.
                  case tok of
                    None \<Rightarrow> ret None
                  | Some st \<Rightarrow>
                      (\<lambda>w. (Inr (Some (PDict
                                [(''status'', PInt 200), (''code'', PInt 0),
                                 (''data'', PDict [(''stoken'', PStr (share_token st)),
                                                  (''share_id'', PStr pwd_id),
                                                  (''expire_time'', PStr (expire_time st))]),
                                 (''message'', PStr ''success'')])),
                             w\<lparr>share_tokens := dict_set pwd_id (share_token st) (share_tokens w)\<rparr>))))
               (\<lambda>e. andthen (log ERROR (''[Aliyun] fetching the share token failed: '' @ exn_str e))
                  (\<lambda>_. ret
                     (if py_in ''ShareLink is cancelled'' (exn_str e)
                      then Some (PDict [(''status'', PInt 400), (''code'', PInt 1),
                                        (''message'', PStr ''the share link was cancelled'')])
                      else if py_in ''share_pwd'' (lower (exn_str e))
                      then Some (PDict [(''status'', PInt 400), (''code'', PInt 1),
                                        (''message'', PStr ''wrong extraction code'')])
                      else if py_in ''not found'' (lower (exn_str e))
                      then Some (PDict [(''status'', PInt 400), (''code'', PInt 1),
                                        (''message'', PStr ''the share link does not exist'')])
                      else None))))
            (\<lambda>returned. case returned of
               Some env \<Rightarrow> ret env
             | None \<Rightarrow> ret (PDict [(''status'', PInt 400), (''code'', PInt 1),
                                   (''message'', PStr ''the share link is invalid or expired'')])))"

definition convert_share_item :: "ali_item \<Rightarrow> pyval" where
  "convert_share_item item =
     PDict [(''fid'', PStr (file_id item)),
            (''file_name'', PStr (item_name item)),
            (''file_type'', PInt (if item_type item = ''folder'' then 0 else 1)),
            (''dir'', PBool (item_type item = ''folder'')),
            (''size'', PInt (case ali_size item of Some n \<Rightarrow> n | None \<Rightarrow> 0)),
            (''updated_at'', PInt (case updated_at item of Some n \<Rightarrow> n | None \<Rightarrow> 0)),
            (''share_fid_token'', PStr (file_id item))]"

definition convert_dir_item :: "ali_item \<Rightarrow> pyval" where
  "convert_dir_item item =
     PDict [(''fid'', PStr (file_id item)),
            (''file_name'', PStr (item_name item)),
            (''file_type'', PInt (if item_type item = ''folder'' then 0 else 1)),
            (''dir'', PBool (item_type item = ''folder'')),
            (''size'', PInt (case ali_size item of Some n \<Rightarrow> n | None \<Rightarrow> 0)),
            (''updated_at'', PInt (case updated_at item of Some n \<Rightarrow> n | None \<Rightarrow> 0))]"

text \<open>The loop over the entries of one page: each is converted, listed and cached.\<close>
fun take_page ::
  "(ali_item \<Rightarrow> pyval) \<Rightarrow> ali_item list \<Rightarrow> pyval list \<Rightarrow> ('r, 'z) ali_world_scheme \<Rightarrow>
   pyval list \<times> ('r, 'z) ali_world_scheme" where
  "take_page conv [] file_list w = (file_list, w)"
| "take_page conv (item # rest) file_list w =
     take_page conv rest (file_list @ [conv item])
       (w\<lparr>file_cache := dict_set (file_id item) (conv item) (file_cache w)\<rparr>)"

text \<open>
  \<open>while True\<close> over the pages of a listing. Nothing bounds the number of pages a client
  may hand out, so the loop need not end: the result is None when it does not. \<open>fetch\<close> is
  the client call for the page after a marker.
\<close>
partial_function (option) page_loop ::
  "(string option \<Rightarrow> 'r \<Rightarrow> (exn + ali_page option) \<times> 'r) \<Rightarrow> (ali_item \<Rightarrow> pyval) \<Rightarrow>
   string option \<Rightarrow> pyval list \<Rightarrow> ('r, 'z) ali_world_scheme \<Rightarrow>
   ((exn + pyval list) \<times> ('r, 'z) ali_world_scheme) option" where
  "page_loop fetch conv marker file_list w =
     (case call (fetch marker) w of
        (Inl e, w') \<Rightarrow> Some (Inl e, w')
      | (Inr None, w') \<Rightarrow> Some (Inr file_list, w')
      | (Inr (Some page), w') \<Rightarrow>
          if page_items page = [] then Some (Inr file_list, w')
          else (case take_page conv (page_items page) file_list w' of
                  (file_list', w'') \<Rightarrow>
                    if next_marker page = [] then Some (Inr file_list', w'')
                    else page_loop fetch conv (Some (next_marker page)) file_list' w''))"

declare page_loop.simps [code]

definition list_envelope :: "pyval list \<Rightarrow> pyval" where
  "list_envelope file_list =
     PDict [(''code'', PInt 0), (''message'', PStr ''success''),
            (''data'', PDict [(''list'', PList file_list)]),
            (''metadata'', PDict [(''_total'', PInt (int (length file_list)))])]"

text \<open>\<open>ls_dir\<close> and \<open>get_detail\<close>: None when the paging does not end.\<close>
definition aliyun_ls_dir ::
  "'r aliyun_adapter \<Rightarrow> string \<Rightarrow> ('r, 'z) ali_world_scheme \<Rightarrow>
   ((exn + pyval) \<times> ('r, 'z) ali_world_scheme) option" where
  "aliyun_ls_dir self pdir_fid w =
     (case ali_usable self of
        None \<Rightarrow> Some (Inr (PDict [(''code'', PInt 1), (''message'', ali_uninitialized),
                                    (''data'', PDict [(''list'', PList [])])]), w)
      | Some cl \<Rightarrow>
          (case page_loop (a_get_file_list cl (parent_file_id_of pdir_fid)) convert_dir_item
                  None [] w of
             None \<Rightarrow> None
           | Some (Inr file_list, w') \<Rightarrow> Some (Inr (list_envelope file_list), w')
           | Some (Inl e, w') \<Rightarrow>
               Some (Inr (PDict [(''code'', PInt 1),
                                 (''message'', PStr (''listing the directory failed: '' @ exn_str e)),
                                 (''data'', PDict [(''list'', PList [])])]),
                     add_log ERROR (''[Aliyun] listing the directory failed: '' @ exn_str e) w')))"

definition aliyun_get_detail ::
  "'r aliyun_adapter \<Rightarrow> string \<Rightarrow> string \<Rightarrow> string \<Rightarrow> int \<Rightarrow> int \<Rightarrow>
   ('r, 'z) ali_world_scheme \<Rightarrow> ((exn + pyval) \<times> ('r, 'z) ali_world_scheme) option" where
  "aliyun_get_detail self pwd_id stoken pdir_fid fetch_share fetch_share_full_path w =
     (case ali_usable self of
        None \<Rightarrow> Some (Inr (PDict [(''code'', PInt 1), (''message'', ali_uninitialized),
                                    (''data'', PDict [(''list'', PList [])])]), w)
      | Some cl \<Rightarrow>
          (case page_loop (a_get_share_file_list cl pwd_id (parent_file_id_of pdir_fid))
                  convert_share_item None []
                  (if map_of (share_tokens w) pwd_id = None
                   then w\<lparr>share_tokens := dict_set pwd_id stoken (share_tokens w)\<rparr> else w) of
             None \<Rightarrow> None
           | Some (Inr file_list, w') \<Rightarrow> Some (Inr (list_envelope file_list), w')
           | Some (Inl e, w') \<Rightarrow>
               Some (Inr (PDict [(''code'', PInt 1),
                        (''message'', PStr (''fetching the share details failed: '' @ exn_str e)),
                        (''data'', PDict [(''list'', PList [])])]),
                     add_log ERROR (''[Aliyun] fetching the share details failed: '' @ exn_str e) w')))"

text \<open>\<open>save_file\<close>; \<open>now\<close> is what \<open>int(time.time())\<close> gives.\<close>
definition aliyun_save_file ::
  "'r aliyun_adapter \<Rightarrow> int \<Rightarrow> string list \<Rightarrow> string list \<Rightarrow> string \<Rightarrow> string \<Rightarrow> string \<Rightarrow>
   (('r, 'z) ali_world_scheme, pyval) prog" where
  "aliyun_save_file self now fid_list fid_token_list to_pdir_fid pwd_id stoken =
     (case ali_usable self of
        None \<Rightarrow> ret (PDict [(''code'', PInt 1), (''message'', ali_uninitialized),
                              (''data'', PDict [])])
      | Some cl \<Rightarrow>
          andthen
            (try_except
               (andthen (call (a_share_file_saveto_drive cl pwd_id fid_token_list
                                 (parent_file_id_of to_pdir_fid))) (\<lambda>result.
                  ret (if result
                       then Some (PDict [(''code'', PInt 0), (''message'', PStr ''success''),
                              (''data'', PDict [(''task_id'',
                                                PStr (''aliyun_sync_'' @ pwd_id @ ''_'' @ str_int now)),
                                               (''_sync'', PBool True)])])
                       else None)))
               (\<lambda>e. andthen (log ERROR (''[Aliyun] transfer failed: '' @ exn_str e)) (\<lambda>_.
                  ret (Some
                    (if py_in ''QuotaExhausted'' (exn_str e)
                     then PDict [(''code'', PInt 1), (''message'', PStr ''not enough drive space''),
                                 (''data'', PDict [])]
                     else if py_in ''FileAlreadyExists'' (exn_str e)
                     then PDict [(''code'', PInt 0), (''message'', PStr ''the file already exists''),
                                 (''data'', PDict [(''_sync'', PBool True)])]
                     else PDict [(''code'', PInt 1),
                                 (''message'', PStr (''transfer failed: '' @ exn_str e)),
                                 (''data'', PDict [])])))))
            (\<lambda>returned. case returned of
               Some env \<Rightarrow> ret env
             | None \<Rightarrow> ret (PDict [(''code'', PInt 1), (''message'', PStr ''transfer failed''),
                                   (''data'', PDict [])])))"

text \<open>
  \<open>_find_file_in_dir\<close>: the fid of the first entry of that name in what one call of
  \<open>get_file_list\<close> returns for the directory (the call passes no marker); None when there is
  none or the call raises.
\<close>
definition find_file_in_dir ::
  "'r aliyun_client \<Rightarrow> string \<Rightarrow> string \<Rightarrow> (('r, 'z) world_scheme, string option) prog" where
  "find_file_in_dir cl parent_id nm =
     try_except
       (andthen (call (a_get_file_list cl parent_id None)) (\<lambda>result.
          ret (case result of
                 None \<Rightarrow> None
               | Some page \<Rightarrow> map_option file_id (find (\<lambda>item. item_name item = nm) (page_items page)))))
       (\<lambda>e. ret None)"

text \<open>
  The loop of \<open>mkdir\<close> over the parts of the path. It ends with the \<open>created_id\<close>, or with
  the envelope of the early return when \<open>create_folder\<close> gives a falsy answer.
\<close>
fun mkdir_loop ::
  "'r aliyun_client \<Rightarrow> string list \<Rightarrow> string \<Rightarrow> string \<Rightarrow>
   (('r, 'z) world_scheme, pyval + string) prog" where
  "mkdir_loop cl [] parent_id created_id w = (Inr (Inr created_id), w)"
| "mkdir_loop cl (part # parts) parent_id created_id w =
     (if part = [] then mkdir_loop cl parts parent_id created_id w
      else case find_file_in_dir cl parent_id part w of
             (Inl e, w') \<Rightarrow> (Inl e, w')
           | (Inr (Some fid), w') \<Rightarrow> mkdir_loop cl parts fid fid w'
           | (Inr None, w') \<Rightarrow>
               (case call (a_create_folder cl part parent_id) w' of
                  (Inl e, w'') \<Rightarrow> (Inl e, w'')
                | (Inr (Some new_id), w'') \<Rightarrow> mkdir_loop cl parts new_id new_id w''
                | (Inr None, w'') \<Rightarrow>
                    (Inr (Inl (PDict [(''code'', PInt 1),
                            (''message'', PStr (''creating directory '' @ part @ '' failed''))])),
                     w'')))"

definition aliyun_mkdir ::
  "'r aliyun_adapter \<Rightarrow> string \<Rightarrow> (('r, 'z) world_scheme, pyval) prog" where
  "aliyun_mkdir self dir_path =
     (case ali_usable self of
        None \<Rightarrow> ret (PDict [(''code'', PInt 1), (''message'', ali_uninitialized)])
      | Some cl \<Rightarrow>
          try_except
            (let parts = split (strip_slash dir_path) ''/'' in
             andthen (mkdir_loop cl parts ''root'' '''') (\<lambda>r.
               case r of
                 Inl env \<Rightarrow> ret env
               | Inr created_id \<Rightarrow>
                   ret (PDict [(''code'', PInt 0), (''message'', PStr ''success''),
                          (''data'', PDict [(''fid'', PStr created_id),
                             (''file_name'',
                              PStr (if parts \<noteq> [] then last parts else ''new folder''))])])))
            (\<lambda>e. andthen (log ERROR (''[Aliyun] creating the directory failed: '' @ exn_str e))
               (\<lambda>_. ret (PDict [(''code'', PInt 1),
                         (''message'', PStr (''creating the directory failed: '' @ exn_str e))]))))"

definition aliyun_rename ::
  "'r aliyun_adapter \<Rightarrow> string \<Rightarrow> string \<Rightarrow> (('r, 'z) world_scheme, pyval) prog" where
  "aliyun_rename self fid file_name =
     (case ali_usable self of
        None \<Rightarrow> ret (PDict [(''code'', PInt 1), (''message'', ali_uninitialized)])
      | Some cl \<Rightarrow>
          try_except
            (andthen (call (a_rename_file cl fid file_name)) (\<lambda>result.
               ret (if result then PDict [(''code'', PInt 0), (''message'', PStr ''success'')]
                    else PDict [(''code'', PInt 1), (''message'', PStr ''rename failed'')])))
            (\<lambda>e. andthen (log ERROR (''[Aliyun] rename failed: '' @ exn_str e))
               (\<lambda>_. ret (PDict [(''code'', PInt 1),
                                  (''message'', PStr (''rename failed: '' @ exn_str e))]))))"

definition aliyun_delete ::
  "'r aliyun_adapter \<Rightarrow> string list \<Rightarrow> (('r, 'z) world_scheme, pyval) prog" where
  "aliyun_delete self filelist =
     (case ali_usable self of
        None \<Rightarrow> ret (PDict [(''code'', PInt 1), (''message'', ali_uninitialized)])
      | Some cl \<Rightarrow>
          try_except
            (andthen (call (a_batch_move_to_trash cl filelist)) (\<lambda>result.
               ret (if result then PDict [(''code'', PInt 0), (''message'', PStr ''success'')]
                    else PDict [(''code'', PInt 1), (''message'', PStr ''delete failed'')])))
            (\<lambda>e. andthen (log ERROR (''[Aliyun] delete failed: '' @ exn_str e))
               (\<lambda>_. ret (PDict [(''code'', PInt 1),
                                  (''message'', PStr (''delete failed: '' @ exn_str e))]))))"

text \<open>
  \<open>get_fids\<close>. The inner loop walks the parts of one path from the root: the id reached, or
  None at the first part that is not found.
\<close>
fun walk_parts ::
  "'r aliyun_client \<Rightarrow> string list \<Rightarrow> string \<Rightarrow> (('r, 'z) world_scheme, string option) prog" where
  "walk_parts cl [] current_id w = (Inr (Some current_id), w)"
| "walk_parts cl (part # parts) current_id w =
     (if part = [] then walk_parts cl parts current_id w
      else case find_file_in_dir cl current_id part w of
             (Inl e, w') \<Rightarrow> (Inl e, w')
           | (Inr (Some fid), w') \<Rightarrow> walk_parts cl parts fid w'
           | (Inr None, w') \<Rightarrow> (Inr None, w'))"

text \<open>The body of the outer loop for one path: the entry it appends, if any.\<close>
definition aliyun_get_fid ::
  "'r aliyun_client \<Rightarrow> string \<Rightarrow> (('r, 'z) world_scheme, pyval option) prog" where
  "aliyun_get_fid cl path0 =
     (if path0 = [] \<or> path0 = ''/'' then ret (Some (fid_entry ''/'' ''root''))
      else andthen (walk_parts cl (split (strip_slash path0) ''/'') ''root'') (\<lambda>found.
             ret (map_option (fid_entry (''/'' @ strip_slash path0)) found)))"

fun aliyun_get_fids_loop ::
  "'r aliyun_client \<Rightarrow> string list \<Rightarrow> pyval list \<Rightarrow> (('r, 'z) world_scheme, pyval list) prog" where
  "aliyun_get_fids_loop cl [] results w = (Inr results, w)"
| "aliyun_get_fids_loop cl (p # file_paths) results w =
     (case aliyun_get_fid cl p w of
        (Inl e, w') \<Rightarrow> (Inl e, w')
      | (Inr (Some entry), w') \<Rightarrow> aliyun_get_fids_loop cl file_paths (results @ [entry]) w'
      | (Inr None, w') \<Rightarrow> aliyun_get_fids_loop cl file_paths results w')"

definition aliyun_get_fids ::
  "'r aliyun_adapter \<Rightarrow> string list \<Rightarrow> (('r, 'z) world_scheme, pyval list) prog" where
  "aliyun_get_fids self file_paths =
     (case ali_usable self of
        None \<Rightarrow> ret []
      | Some cl \<Rightarrow> aliyun_get_fids_loop cl file_paths [])"

subsection \<open>What the parsers find in a URL\<close>

text \<open>
  The patterns of the parsers, read at a position of the URL. \<open>group_at lits cls url n\<close> is
  group 1 of \<open>(?:l1|l2|...)([cls]+)\<close> matched at position \<open>n\<close>: the first literal of the list
  that stands at \<open>n\<close> and is followed by a character of the class gives the longest run of
  the class after it. \<open>hash_at url n\<close> is group 1 of \<open>#([a-zA-Z0-9]{4})\b\<close> matched at \<open>n\<close>.
\<close>
definition group_at :: "string list \<Rightarrow> (char \<Rightarrow> bool) \<Rightarrow> string \<Rightarrow> nat \<Rightarrow> string option" where
  "group_at lits cls url n =
     map_option (\<lambda>l. takeWhile cls (drop (n + length l) url))
       (find (\<lambda>l. take (length l) (drop n url) = l \<and> takeWhile cls (drop (n + length l) url) \<noteq> [])
          lits)"

definition hash_at :: "string \<Rightarrow> nat \<Rightarrow> string option" where
  "hash_at url n =
     (case drop n url of
        c0 # c1 # c2 # c3 # c4 # rest \<Rightarrow>
          if c0 = CHR ''#'' \<and> is_alnum c1 \<and> is_alnum c2 \<and> is_alnum c3 \<and> is_alnum c4
             \<and> (case rest of [] \<Rightarrow> True | c5 # _ \<Rightarrow> \<not> re_w c5)
          then Some [c1, c2, c3, c4] else None
      | _ \<Rightarrow> None)"

text \<open>
  What a search from the left finds: \<open>r\<close> is the group of the match at the least position
  that has one, and None when no position up to \<open>len\<close> has a match.
\<close>
definition leftmost :: "(nat \<Rightarrow> 'a option) \<Rightarrow> nat \<Rightarrow> 'a option \<Rightarrow> bool" where
  "leftmost pat len r =
     (case r of
        None \<Rightarrow> (\<forall>n\<le>len. pat n = None)
      | Some g \<Rightarrow> (\<exists>n\<le>len. pat n = Some g \<and> (\<forall>j<n. pat j = None)))"

subsection \<open>What a slot of save_as_top_fids stands for\<close>

text \<open>
  An entry of the listing after the transfer is new when it has a fid and that fid is none
  of the fids listed before the transfer.
\<close>
definition is_new :: "string list \<Rightarrow> pyval \<Rightarrow> bool" where
  "is_new before_fids e = (get_str e ''fid'' \<noteq> [] \<and> get_str e ''fid'' \<notin> set before_fids)"

text \<open>
  A slot for a requested name: the fid of a new entry whose name is the requested one up
  to cleaning, or the empty marker when there is no such entry.
\<close>
definition slot_ok :: "string list \<Rightarrow> pyval list \<Rightarrow> string \<Rightarrow> string \<Rightarrow> bool" where
  "slot_ok before_fids after_list fname slot =
     (if slot = []
      then list_all (\<lambda>e. is_new before_fids e \<longrightarrow>
                          clean_name (get_str e ''file_name'') \<noteq> clean_name fname) after_list
      else list_ex (\<lambda>e. is_new before_fids e \<and> get_str e ''fid'' = slot
                        \<and> clean_name (get_str e ''file_name'') = clean_name fname) after_list)"

subsection \<open>What get_fids reports for an input path\<close>

text \<open>The \<open>file_path\<close> of the entry that \<open>get_fids\<close> appends for an input path, when it appends one.\<close>
definition baidu_file_path :: "string \<Rightarrow> string" where
  "baidu_file_path p0 =
     (if p0 = [] \<or> p0 = ''/'' then ''/''
      else if startswith (strip p0) ''/'' then strip p0 else ''/'' @ strip p0)"

definition aliyun_file_path :: "string \<Rightarrow> string" where
  "aliyun_file_path p0 = (if p0 = [] \<or> p0 = ''/'' then ''/'' else ''/'' @ strip_slash p0)"

text \<open>
  BaiduAdapter resolves an input path in a state \<open>s\<close> of the drive when the path is the
  root, or when the listing of its parent directory succeeds and holds an entry whose last
  path segment is the last segment of the path. The entry reported has the path as
  \<open>file_path\<close> and as \<open>fid\<close>. The listing is the one call made for the path; \<open>baidu_after\<close>
  is the state it leaves.
\<close>
definition baidu_resolved :: "'r baidu_client \<Rightarrow> 'r \<Rightarrow> string \<Rightarrow> bool" where
  "baidu_resolved cl s p0 =
     (p0 = [] \<or> p0 = ''/'' \<or>
      (case fst (c_list cl (parent_of (baidu_file_path p0)) s) of
         Inr files \<Rightarrow> list_ex (\<lambda>f. basename (path f) = dir_name_of (baidu_file_path p0)) files
       | Inl e \<Rightarrow> False))"

definition baidu_entry :: "'r baidu_client \<Rightarrow> 'r \<Rightarrow> string \<Rightarrow> pyval option" where
  "baidu_entry cl s p0 =
     (if baidu_resolved cl s p0
      then Some (PDict [(''file_path'', PStr (baidu_file_path p0)),
                        (''fid'', PStr (baidu_file_path p0))])
      else None)"

definition baidu_after :: "'r baidu_client \<Rightarrow> 'r \<Rightarrow> string \<Rightarrow> 'r" where
  "baidu_after cl s p0 =
     (if p0 = [] \<or> p0 = ''/'' then s else snd (c_list cl (parent_of (baidu_file_path p0)) s))"

text \<open>
  What a lookup of AliyunAdapter finds in a state of the drive: the first entry of that
  name on the page that \<open>get_file_list\<close> returns for the directory without a marker.
\<close>
definition first_page_find :: "'r aliyun_client \<Rightarrow> string \<Rightarrow> string \<Rightarrow> 'r \<Rightarrow> string option" where
  "first_page_find cl parent_id nm s =
     (case fst (a_get_file_list cl parent_id None s) of
        Inr (Some page) \<Rightarrow> map_option file_id (find (\<lambda>item. item_name item = nm) (page_items page))
      | _ \<Rightarrow> None)"

text \<open>
  AliyunAdapter resolves an input path by a walk from the root along its segments that
  are not empty: each is looked up under the id reached so far, and the walk ends without
  an id at the first segment that is not found. The result is the id reached and the state
  in which the lookups leave the drive.
\<close>
fun ali_walk :: "'r aliyun_client \<Rightarrow> string list \<Rightarrow> string \<Rightarrow> 'r \<Rightarrow> string option \<times> 'r" where
  "ali_walk cl [] current_id s = (Some current_id, s)"
| "ali_walk cl (part # parts) current_id s =
     (if part = [] then ali_walk cl parts current_id s
      else case first_page_find cl current_id part s of
             Some fid \<Rightarrow> ali_walk cl parts fid (snd (a_get_file_list cl current_id None s))
           | None \<Rightarrow> (None, snd (a_get_file_list cl current_id None s)))"

definition aliyun_entry :: "'r aliyun_client \<Rightarrow> 'r \<Rightarrow> string \<Rightarrow> pyval option" where
  "aliyun_entry cl s p0 =
     (if p0 = [] \<or> p0 = ''/'' then Some (PDict [(''file_path'', PStr ''/''), (''fid'', PStr ''root'')])
      else map_option (\<lambda>fid. PDict [(''file_path'', PStr (aliyun_file_path p0)), (''fid'', PStr fid)])
             (fst (ali_walk cl (split (strip_slash p0) ''/'') ''root'' s)))"

definition aliyun_after :: "'r aliyun_client \<Rightarrow> 'r \<Rightarrow> string \<Rightarrow> 'r" where
  "aliyun_after cl s p0 =
     (if p0 = [] \<or> p0 = ''/'' then s
      else snd (ali_walk cl (split (strip_slash p0) ''/'') ''root'' s))"

text \<open>
  One entry per input path that is resolved, in the order of the input, and nothing for a
  path that is not: \<open>entry s p\<close> is the entry for the path \<open>p\<close> in the state \<open>s\<close>, if it is
  resolved there, and \<open>after s p\<close> the state in which resolving \<open>p\<close> leaves the drive.
\<close>
fun resolved_entries ::
  "('s \<Rightarrow> 'p \<Rightarrow> 'e option) \<Rightarrow> ('s \<Rightarrow> 'p \<Rightarrow> 's) \<Rightarrow> 'p list \<Rightarrow> 's \<Rightarrow> 'e list" where
  "resolved_entries entry after [] s = []"
| "resolved_entries entry after (p # ps) s =
     (case entry s p of Some e \<Rightarrow> [e] | None \<Rightarrow> []) @ resolved_entries entry after ps (after s p)"

subsection \<open>Result envelopes\<close>

text \<open>
  A result envelope is a dictionary with an integer under \<open>code\<close> and a text under
  \<open>message\<close>. \<open>returns_envelope r\<close> says of the outcome \<open>r\<close> of an operation that the
  operation returned an envelope and raised nothing; \<open>answers r c m\<close> that it returned an
  envelope with the code \<open>c\<close> and the message \<open>m\<close>.
\<close>
definition is_envelope :: "pyval \<Rightarrow> bool" where
  "is_envelope env =
     (case dict_get env ''code'' of
        PInt c \<Rightarrow> (case dict_get env ''message'' of PStr m \<Rightarrow> True | _ \<Rightarrow> False)
      | _ \<Rightarrow> False)"

definition returns_envelope :: "(exn + pyval) \<times> 'w \<Rightarrow> bool" where
  "returns_envelope r = (case fst r of Inr env \<Rightarrow> is_envelope env | Inl e \<Rightarrow> False)"

definition answers :: "(exn + pyval) \<times> 'w \<Rightarrow> int \<Rightarrow> string \<Rightarrow> bool" where
  "answers r c m =
     (case fst r of
        Inr env \<Rightarrow> dict_get env ''code'' = PInt c \<and> dict_get env ''message'' = PStr m
      | Inl e \<Rightarrow> False)"

section \<open>Example drives\<close>

text \<open>
  Concrete clients on which the theorems are exercised. \<open>tree_client t\<close> is a drive without
  state whose listings are given by \<open>t\<close>, for own directories and shared ones alike; its
  other calls succeed and do nothing.
\<close>
definition mk_item :: "int \<Rightarrow> string \<Rightarrow> bool \<Rightarrow> pcs_item" where
  "mk_item i p d = \<lparr>fs_id = i, path = p, is_dir = d, item_size = 0, server_mtime = 0,
                     server_filename = None, uk = 7, share_id = 8, bdstoken = ''tok''\<rparr>"

definition tree_client :: "(string \<Rightarrow> exn + pcs_item list) \<Rightarrow> unit baidu_client" where
  "tree_client t =
     \<lparr>c_list = (\<lambda>p s. (t p, s)),
      c_list_shared_paths = (\<lambda>p u sid tok s. (t p, s)),
      c_access_shared = (\<lambda>url pc s. (Inr (), s)),
      c_shared_paths = (\<lambda>url s. (t ''/'', s)),
      c_transfer_shared_paths = (\<lambda>d ids u sid tok url s. (Inr False, s)),
      c_makedir = (\<lambda>p s. (Inr (), s)),
      c_rename = (\<lambda>p q s. (Inr (), s)),
      c_remove = (\<lambda>ps s. (Inr (), s)),
      c_user_info = (\<lambda>s. (Inr None, s))\<rparr>"

definition baidu_with :: "'r baidu_client \<Rightarrow> 'r baidu_adapter" where
  "baidu_with cl = \<lparr>BAIDUPCS_AVAILABLE = True, client = Some cl, share_info = [], index = 0\<rparr>"

definition w0 :: "unit world" where
  "w0 = \<lparr>remote = (), logs = []\<rparr>"

text \<open>A tree without bottom: every directory holds one directory \<open>d\<close>, with fs_id 1.\<close>
definition chain_tree :: "string \<Rightarrow> exn + pcs_item list" where
  "chain_tree p = Inr [mk_item 1 (rstrip_slash p @ ''/d'') True]"

text \<open>
  A share with the root-level directories \<open>E\<close>, \<open>A\<close> and \<open>B\<close>; \<open>A\<close> holds a file, \<open>B\<close> the
  directory \<open>C\<close>, and \<open>C\<close> the file \<open>t.mp4\<close> with fs_id 30. Listing anything else, \<open>E\<close>
  included, raises.
\<close>
definition share_roots :: "pcs_item list" where
  "share_roots = [mk_item 12 ''/s/E'' True, mk_item 10 ''/s/A'' True, mk_item 11 ''/s/B'' True]"

definition share_tree :: "string \<Rightarrow> exn + pcs_item list" where
  "share_tree p =
     (if p = ''/s/A'' then Inr [mk_item 20 ''/s/A/x.txt'' False]
      else if p = ''/s/B'' then Inr [mk_item 21 ''/s/B/C'' True]
      else if p = ''/s/B/C'' then Inr [mk_item 30 ''/s/B/C/t.mp4'' False]
      else Inl (PyExc ''BaiduPCSError'' ''errno: 31066, no such directory''))"

text \<open>An entry of a directory listing, reduced to the two keys the reconciliation reads.\<close>
definition ent :: "string \<Rightarrow> string \<Rightarrow> pyval" where
  "ent fid fname = PDict [(''fid'', PStr fid), (''file_name'', PStr fname)]"

text \<open>
  A drive with one directory \<open>/dest\<close>, whose entries are the remote state; a transfer adds
  the entries \<open>added\<close> to it, whatever is asked for, and answers None.
\<close>
definition dest_client :: "pcs_item list \<Rightarrow> pcs_item list baidu_client" where
  "dest_client added =
     \<lparr>c_list = (\<lambda>p s. (if p = ''/dest'' then Inr s
                         else Inl (PyExc ''BaiduPCSError'' ''errno: 31066, no such directory''), s)),
      c_list_shared_paths = (\<lambda>p u sid tok s. (Inr [], s)),
      c_access_shared = (\<lambda>url pc s. (Inr (), s)),
      c_shared_paths = (\<lambda>url s. (Inr [mk_item 100 ''/share'' True], s)),
      c_transfer_shared_paths = (\<lambda>d ids u sid tok url s. (Inr False, s @ added)),
      c_makedir = (\<lambda>p s. (Inr (), s)),
      c_rename = (\<lambda>p q s. (Inr (), s)),
      c_remove = (\<lambda>ps s. (Inr (), s)),
      c_user_info = (\<lambda>s. (Inr None, s))\<rparr>"

text \<open>
  An Aliyun drive kept in memory: the state is the list of its folders, each with the id of
  its parent. A listing returns all entries of a directory on one page; \<open>create_folder\<close>
  adds a folder under a fresh id. \<open>listing\<close> tells whether listings work: where they do not,
  each raises.
\<close>
definition folder :: "string \<Rightarrow> string \<Rightarrow> ali_item" where
  "folder fid nm = \<lparr>file_id = fid, item_name = nm, item_type = ''folder'',
                     ali_size = None, updated_at = None\<rparr>"

definition mem_list :: "bool \<Rightarrow> string \<Rightarrow> (string \<times> ali_item) list \<Rightarrow> exn + ali_page option" where
  "mem_list listing parent_id s =
     (if listing
      then Inr (Some \<lparr>page_items = map snd (filter (\<lambda>e. fst e = parent_id) s), next_marker = ''''\<rparr>)
      else Inl (PyExc ''AligoException'' ''TooManyRequests''))"

definition mem_drive :: "bool \<Rightarrow> (string \<times> ali_item) list aliyun_client" where
  "mem_drive listing =
     \<lparr>a_get_share_token = (\<lambda>pwd_id passcode s. (Inr None, s)),
      a_get_share_file_list = (\<lambda>pwd_id parent_id marker s. (Inr None, s)),
      a_get_file_list = (\<lambda>parent_id marker s. (mem_list listing parent_id s, s)),
      a_share_file_saveto_drive = (\<lambda>sid ids parent_id s. (Inr True, s)),
      a_create_folder = (\<lambda>nm parent_id s.
         (Inr (Some (''f'' @ str_nat (length s))),
          s @ [(parent_id, folder (''f'' @ str_nat (length s)) nm)])),
      a_rename_file = (\<lambda>fid nm s. (Inr True, s)),
      a_batch_move_to_trash = (\<lambda>fids s. (Inr True, s))\<rparr>"

definition aliyun_with :: "'r aliyun_client \<Rightarrow> 'r aliyun_adapter" where
  "aliyun_with cl = \<lparr>ALIGO_AVAILABLE = True, ali_client = Some cl\<rparr>"

definition mem_world :: "(string \<times> ali_item) list \<Rightarrow> (string \<times> ali_item) list world" where
  "mem_world s = \<lparr>remote = s, logs = []\<rparr>"

text \<open>
  A Baidu drive whose state is the list of its directories: \<open>makedir\<close> of a directory that
  is there raises the error 31061, and adds the directory otherwise.
\<close>
definition dir_client :: "string list baidu_client" where
  "dir_client =
     \<lparr>c_list = (\<lambda>p s. (Inr [], s)),
      c_list_shared_paths = (\<lambda>p u sid tok s. (Inr [], s)),
      c_access_shared = (\<lambda>url pc s. (Inr (), s)),
      c_shared_paths = (\<lambda>url s. (Inr [], s)),
      c_transfer_shared_paths = (\<lambda>d ids u sid tok url s. (Inr False, s)),
      c_makedir = (\<lambda>p s. if p \<in> set s
                           then (Inl (PyExc ''BaiduPCSError'' ''errno: 31061, file already exists''), s)
                           else (Inr (), s @ [p])),
      c_rename = (\<lambda>p q s. (Inr (), s)),
      c_remove = (\<lambda>ps s. (Inr (), s)),
      c_user_info = (\<lambda>s. (Inr None, s))\<rparr>"

text \<open>Clients of which every call raises the exception given.\<close>
definition raising_baidu :: "exn \<Rightarrow> unit baidu_client" where
  "raising_baidu e =
     \<lparr>c_list = (\<lambda>p s. (Inl e, s)),
      c_list_shared_paths = (\<lambda>p u sid tok s. (Inl e, s)),
      c_access_shared = (\<lambda>url pc s. (Inl e, s)),
      c_shared_paths = (\<lambda>url s. (Inl e, s)),
      c_transfer_shared_paths = (\<lambda>d ids u sid tok url s. (Inl e, s)),
      c_makedir = (\<lambda>p s. (Inl e, s)),
      c_rename = (\<lambda>p q s. (Inl e, s)),
      c_remove = (\<lambda>ps s. (Inl e, s)),
      c_user_info = (\<lambda>s. (Inl e, s))\<rparr>"

definition raising_aliyun :: "exn \<Rightarrow> unit aliyun_client" where
  "raising_aliyun e =
     \<lparr>a_get_share_token = (\<lambda>pwd_id passcode s. (Inl e, s)),
      a_get_share_file_list = (\<lambda>pwd_id parent_id marker s. (Inl e, s)),
      a_get_file_list = (\<lambda>parent_id marker s. (Inl e, s)),
      a_share_file_saveto_drive = (\<lambda>sid ids parent_id s. (Inl e, s)),
      a_create_folder = (\<lambda>nm parent_id s. (Inl e, s)),
      a_rename_file = (\<lambda>fid nm s. (Inl e, s)),
      a_batch_move_to_trash = (\<lambda>fids s. (Inl e, s))\<rparr>"

definition aw0 :: "unit ali_world" where
  "aw0 = \<lparr>remote = (), logs = [], share_tokens = [], file_cache = []\<rparr>"

text \<open>
  The drive \<open>mem_drive\<close> with listings in pages of one entry: the marker of a page is the
  number of entries before it, and the last page has the empty marker. Every listing
  succeeds; following the markers from the first page gives all entries of the directory.
\<close>
definition paged_list ::
  "string \<Rightarrow> string option \<Rightarrow> (string \<times> ali_item) list \<Rightarrow> exn + ali_page option" where
  "paged_list parent_id marker s =
     (let entries = map snd (filter (\<lambda>e. fst e = parent_id) s);
          off = (case marker of
                   None \<Rightarrow> 0
                 | Some m \<Rightarrow> (case find (\<lambda>i. str_nat i = m) [0..<length entries] of
                                Some i \<Rightarrow> i
                              | None \<Rightarrow> length entries))
      in Inr (Some \<lparr>page_items = take 1 (drop off entries),
                    next_marker = (if off + 1 < length entries then str_nat (off + 1) else '''')\<rparr>))"

definition paged_drive :: "(string \<times> ali_item) list aliyun_client" where
  "paged_drive =
     (mem_drive True)\<lparr>a_get_file_list := (\<lambda>parent_id marker s. (paged_list parent_id marker s, s))\<rparr>"

definition ali_mem_world :: "(string \<times> ali_item) list \<Rightarrow> (string \<times> ali_item) list ali_world" where
  "ali_mem_world s = \<lparr>remote = s, logs = [], share_tokens = [], file_cache = []\<rparr>"

section \<open>Properties\<close>

subsection \<open>Strings and patterns\<close>

lemma startswith_py_in: "startswith s l \<Longrightarrow> py_in l s"
  by (cases s) (auto simp: startswith_def)

lemma py_in_set: "py_in l s \<Longrightarrow> set l \<subseteq> set s"
proof (induction s)
  case Nil
  then show ?case by simp
next
  case (Cons c cs)
  show ?case
  proof (cases "startswith (c # cs) l")
    case True
    then have "l = take (length l) (c # cs)" by (simp add: startswith_def)
    then have "set l \<subseteq> set (c # cs)" by (metis set_take_subset)
    then show ?thesis .
  next
    case False
    with Cons show ?thesis by auto
  qed
qed

lemma match_lits_Some: "match_lits ls cls s = Some g \<Longrightarrow> \<exists>l\<in>set ls. startswith s l"
  by (induction ls) (auto split: if_splits)

lemma re_search_lits_Some:
  "re_search (match_lits ls cls) s = Some g \<Longrightarrow> \<exists>l\<in>set ls. py_in l s"
proof (induction s)
  case Nil
  then show ?case using match_lits_Some startswith_py_in by fastforce
next
  case (Cons c cs)
  show ?case
  proof (cases "match_lits ls cls (c # cs)")
    case None
    with Cons show ?thesis by auto
  next
    case (Some a)
    then obtain l where "l \<in> set ls" "startswith (c # cs) l" using match_lits_Some by blast
    then show ?thesis by auto
  qed
qed

lemma re_search_lits_None:
  "\<forall>l\<in>set ls. \<not> py_in l s \<Longrightarrow> re_search (match_lits ls cls) s = None"
  using re_search_lits_Some by (metis not_Some_eq)

lemma re_search_hash_Some: "re_search match_hash s = Some g \<Longrightarrow> py_in ''#'' s"
proof (induction s)
  case Nil
  then show ?case by (simp add: match_hash_def startswith_def)
next
  case (Cons c cs)
  then show ?case by (auto simp: match_hash_def startswith_def split: option.splits if_splits)
qed

lemma re_search_hash_None: "\<not> py_in ''#'' s \<Longrightarrow> re_search match_hash s = None"
  using re_search_hash_Some by (metis not_Some_eq)

lemma split_from_nonempty: "split_from sep acc s \<noteq> []"
  by (induction sep acc s rule: split_from.induct) auto

lemma index_last_split: "index_last (split url sep) = Inr (last (split url sep))"
  by (simp add: index_last_def split_def split_from_nonempty)

lemma re_search_leftmost: "leftmost (\<lambda>n. m (drop n s)) (length s) (re_search m s)"
proof (induction s)
  case Nil
  show ?case by (cases "m []") (simp_all add: leftmost_def)
next
  case (Cons c cs)
  show ?case
  proof (cases "m (c # cs)")
    case (Some g)
    then have "m (drop 0 (c # cs)) = Some g \<and> (\<forall>j<0::nat. m (drop j (c # cs)) = None)" by simp
    then have "\<exists>n\<le>length (c # cs). m (drop n (c # cs)) = Some g
                 \<and> (\<forall>j<n. m (drop j (c # cs)) = None)"
      by blast
    with Some show ?thesis by (simp add: leftmost_def)
  next
    case None
    then have rs: "re_search m (c # cs) = re_search m cs" by simp
    show ?thesis
    proof (cases "re_search m cs")
      case none: None
      with Cons.IH have all: "\<forall>n\<le>length cs. m (drop n cs) = None" by (simp add: leftmost_def)
      have "\<forall>n\<le>length (c # cs). m (drop n (c # cs)) = None"
      proof (intro allI impI)
        fix n assume "n \<le> length (c # cs)"
        then show "m (drop n (c # cs)) = None" using None all by (cases n) simp_all
      qed
      with rs none show ?thesis by (simp add: leftmost_def)
    next
      case (Some g)
      with Cons.IH obtain n where n: "n \<le> length cs" "m (drop n cs) = Some g"
        "\<forall>j<n. m (drop j cs) = None"
        by (auto simp: leftmost_def)
      have "\<forall>j<Suc n. m (drop j (c # cs)) = None"
      proof (intro allI impI)
        fix j assume "j < Suc n"
        then show "m (drop j (c # cs)) = None" using None n(3) by (cases j) simp_all
      qed
      with n(1,2) have "Suc n \<le> length (c # cs) \<and> m (drop (Suc n) (c # cs)) = Some g
          \<and> (\<forall>j<Suc n. m (drop j (c # cs)) = None)"
        by simp
      then have "\<exists>k\<le>length (c # cs). m (drop k (c # cs)) = Some g
          \<and> (\<forall>j<k. m (drop j (c # cs)) = None)"
        by blast
      with rs Some show ?thesis by (simp add: leftmost_def)
    qed
  qed
qed

lemma match_lits_group_at: "match_lits lits cls (drop n url) = group_at lits cls url n"
  by (induction lits) (simp_all add: group_at_def startswith_def add.commute)

lemma match_hash_cases:
  "match_hash t =
     (case t of
        c0 # c1 # c2 # c3 # c4 # rest \<Rightarrow>
          if c0 = CHR ''#'' \<and> is_alnum c1 \<and> is_alnum c2 \<and> is_alnum c3 \<and> is_alnum c4
             \<and> (case rest of [] \<Rightarrow> True | c5 # _ \<Rightarrow> \<not> re_w c5)
          then Some [c1, c2, c3, c4] else None
      | _ \<Rightarrow> None)"
  by (auto simp: match_hash_def startswith_def split: list.splits)

lemma match_hash_hash_at: "match_hash (drop n url) = hash_at url n"
  by (simp add: match_hash_cases hash_at_def)

lemma search_lits_leftmost:
  "leftmost (group_at lits cls url) (length url) (re_search (match_lits lits cls) url)"
  using re_search_leftmost [of "match_lits lits cls" url] by (simp add: match_lits_group_at)

lemma search_hash_leftmost: "leftmost (hash_at url) (length url) (re_search match_hash url)"
  using re_search_leftmost [of match_hash url] by (simp add: match_hash_hash_at)

text \<open>The last piece of a split stands after an occurrence of the separator and holds none.\<close>
lemma split_from_last:
  assumes "sep \<noteq> []"
  shows "if py_in sep s
         then (\<exists>pre. s = pre @ sep @ last (split_from sep acc s))
              \<and> \<not> py_in sep (last (split_from sep acc s))
         else last (split_from sep acc s) = rev acc @ s"
  using assms
proof (induction sep acc s rule: split_from.induct)
  case (1 sep acc)
  then show ?case by simp
next
  case (2 sep acc c cs)
  show ?case
  proof (cases "startswith (c # cs) sep")
    case True
    let ?rest = "drop (length sep - 1) cs"
    let ?l = "last (split_from sep [] ?rest)"
    have l: "last (split_from sep acc (c # cs)) = ?l"
      using True by (simp add: split_from_nonempty)
    have "drop (length sep) (c # cs) = ?rest" using 2(3) by (cases sep) simp_all
    then have s: "c # cs = sep @ ?rest"
      using True by (metis append_take_drop_id startswith_def)
    have ih: "if py_in sep ?rest
         then (\<exists>pre. ?rest = pre @ sep @ ?l) \<and> \<not> py_in sep ?l
         else ?l = rev [] @ ?rest"
      using 2(1) [OF True 2(3)] .
    have "(\<exists>pre. c # cs = pre @ sep @ ?l) \<and> \<not> py_in sep ?l"
    proof (cases "py_in sep ?rest")
      case True
      with ih obtain pre where "?rest = pre @ sep @ ?l" "\<not> py_in sep ?l" by auto
      with s have "c # cs = (sep @ pre) @ sep @ ?l" by simp
      with \<open>\<not> py_in sep ?l\<close> show ?thesis by blast
    next
      case False
      with ih have "?l = ?rest" by simp
      with s False have "c # cs = [] @ sep @ ?l" "\<not> py_in sep ?l" by simp_all
      then show ?thesis by blast
    qed
    with True l show ?thesis by simp
  next
    case False
    let ?l = "last (split_from sep (c # acc) cs)"
    have l: "last (split_from sep acc (c # cs)) = ?l" using False by simp
    have ih: "if py_in sep cs
         then (\<exists>pre. cs = pre @ sep @ ?l) \<and> \<not> py_in sep ?l
         else ?l = rev (c # acc) @ cs"
      using 2(2) [OF False 2(3)] .
    show ?thesis
    proof (cases "py_in sep cs")
      case True
      with ih obtain pre where "cs = pre @ sep @ ?l" "\<not> py_in sep ?l" by auto
      then have "c # cs = (c # pre) @ sep @ ?l" by simp
      with \<open>\<not> py_in sep ?l\<close> have "(\<exists>pre. c # cs = pre @ sep @ ?l) \<and> \<not> py_in sep ?l" by blast
      with True l show ?thesis by simp
    next
      case no: False
      with ih have "?l = rev acc @ c # cs" by simp
      with False no l show ?thesis by simp
    qed
  qed
qed

text \<open>\<open>sub in s\<close>: \<open>sub\<close> stands somewhere in \<open>s\<close>.\<close>
lemma py_in_iff: "py_in sub s \<longleftrightarrow> (\<exists>a b. s = a @ sub @ b)"
proof (induction s)
  case Nil
  show ?case by auto
next
  case (Cons c cs)
  have sw: "startswith (c # cs) sub \<longleftrightarrow> (\<exists>b. c # cs = sub @ b)"
  proof
    assume "startswith (c # cs) sub"
    then have "c # cs = sub @ drop (length sub) (c # cs)"
      by (metis append_take_drop_id startswith_def)
    then show "\<exists>b. c # cs = sub @ b" ..
  next
    assume "\<exists>b. c # cs = sub @ b"
    then obtain b where "c # cs = sub @ b" ..
    then show "startswith (c # cs) sub" by (simp add: startswith_def)
  qed
  show ?case
  proof
    assume "py_in sub (c # cs)"
    then consider "startswith (c # cs) sub" | "py_in sub cs" by auto
    then show "\<exists>a b. c # cs = a @ sub @ b"
    proof cases
      case 1
      with sw obtain b where "c # cs = [] @ sub @ b" by auto
      then show ?thesis by blast
    next
      case 2
      with Cons.IH obtain a b where "cs = a @ sub @ b" by auto
      then have "c # cs = (c # a) @ sub @ b" by simp
      then show ?thesis by blast
    qed
  next
    assume "\<exists>a b. c # cs = a @ sub @ b"
    then obtain a b where ab: "c # cs = a @ sub @ b" by auto
    show "py_in sub (c # cs)"
    proof (cases a)
      case Nil
      with ab have "\<exists>b. c # cs = sub @ b" by auto
      with sw have "startswith (c # cs) sub" by simp
      then show ?thesis unfolding py_in.simps by (rule disjI1)
    next
      case (Cons x xs)
      with ab have "cs = xs @ sub @ b" by simp
      with Cons.IH show ?thesis by auto
    qed
  qed
qed

subsection \<open>Share-URL parsing\<close>

lemma aliyun_extract_url_fields:
  "\<exists>sid pc d. aliyun_extract_url url = Inr (sid, pc, d, [])
     \<and> leftmost (group_at [''aliyundrive.com/s/'', ''alipan.com/s/''] is_alnum url) (length url) sid
     \<and> (\<exists>pw. leftmost (group_at [''pwd='', ''password='', ''code=''] is_alnum url) (length url) pw
            \<and> pc = (case pw of Some g \<Rightarrow> g | None \<Rightarrow> ''''))
     \<and> (\<exists>fo. leftmost (group_at [''/folder/''] is_alnum url) (length url) fo
            \<and> d = (case fo of Some g \<Rightarrow> g | None \<Rightarrow> ''root''))
     \<and> (\<not> py_in ''aliyundrive.com/s/'' url \<and> \<not> py_in ''alipan.com/s/'' url \<longrightarrow> sid = None)
     \<and> (\<not> py_in ''pwd='' url \<and> \<not> py_in ''password='' url \<and> \<not> py_in ''code='' url \<longrightarrow> pc = '''')
     \<and> (\<not> py_in ''/folder/'' url \<longrightarrow> d = ''root'')"
proof -
  let ?sid = "re_search (match_lits [''aliyundrive.com/s/'', ''alipan.com/s/''] is_alnum) url"
  let ?pw = "re_search (match_lits [''pwd='', ''password='', ''code=''] is_alnum) url"
  let ?fo = "re_search (match_lits [''/folder/''] is_alnum) url"
  let ?pc = "case ?pw of Some g \<Rightarrow> g | None \<Rightarrow> ''''"
  let ?d = "case ?fo of Some g \<Rightarrow> g | None \<Rightarrow> ''root''"
  have e: "aliyun_extract_url url = Inr (?sid, ?pc, ?d, [])"
    by (simp add: aliyun_extract_url_def Let_def)
  have s: "leftmost (group_at [''aliyundrive.com/s/'', ''alipan.com/s/''] is_alnum url)
             (length url) ?sid"
    by (rule search_lits_leftmost)
  have p: "\<exists>pw. leftmost (group_at [''pwd='', ''password='', ''code=''] is_alnum url) (length url) pw
            \<and> ?pc = (case pw of Some g \<Rightarrow> g | None \<Rightarrow> '''')"
    using search_lits_leftmost [of "[''pwd='', ''password='', ''code='']" is_alnum url] by blast
  have f: "\<exists>fo. leftmost (group_at [''/folder/''] is_alnum url) (length url) fo
            \<and> ?d = (case fo of Some g \<Rightarrow> g | None \<Rightarrow> ''root'')"
    using search_lits_leftmost [of "[''/folder/'']" is_alnum url] by blast
  have d1: "\<not> py_in ''aliyundrive.com/s/'' url \<and> \<not> py_in ''alipan.com/s/'' url \<longrightarrow> ?sid = None"
    by (simp add: re_search_lits_None)
  have d2: "\<not> py_in ''pwd='' url \<and> \<not> py_in ''password='' url \<and> \<not> py_in ''code='' url \<longrightarrow> ?pc = ''''"
    by (simp add: re_search_lits_None)
  have d3: "\<not> py_in ''/folder/'' url \<longrightarrow> ?d = ''root''"
    by (simp add: re_search_lits_None)
  show ?thesis
    by (intro exI [of _ ?sid] exI [of _ ?pc] exI [of _ ?d] conjI e s p f d1 d2 d3)
qed

lemma xunlei_extract_url_fields:
  "\<exists>sid pc d. xunlei_extract_url url = Inr (sid, pc, d, [])
     \<and> leftmost (group_at [''pan.xunlei.com/s/''] is_idchar url) (length url) sid
     \<and> (\<exists>pw. leftmost (group_at [''pwd='', ''password=''] is_alnum url) (length url) pw
            \<and> pc = (case pw of Some g \<Rightarrow> g | None \<Rightarrow> ''''))
     \<and> (\<exists>fo. leftmost (group_at [''#/list/''] is_idchar url) (length url) fo
            \<and> d = (case fo of Some g \<Rightarrow> g | None \<Rightarrow> ''0''))
     \<and> (\<not> py_in ''pan.xunlei.com/s/'' url \<longrightarrow> sid = None)
     \<and> (\<not> py_in ''pwd='' url \<and> \<not> py_in ''password='' url \<longrightarrow> pc = '''')
     \<and> (\<not> py_in ''#/list/'' url \<longrightarrow> d = ''0'')"
proof -
  let ?sid = "re_search (match_lits [''pan.xunlei.com/s/''] is_idchar) url"
  let ?pw = "re_search (match_lits [''pwd='', ''password=''] is_alnum) url"
  let ?fo = "re_search (match_lits [''#/list/''] is_idchar) url"
  let ?pc = "case ?pw of Some g \<Rightarrow> g | None \<Rightarrow> ''''"
  let ?d = "case ?fo of Some g \<Rightarrow> g | None \<Rightarrow> ''0''"
  have e: "xunlei_extract_url url = Inr (?sid, ?pc, ?d, [])"
    by (simp add: xunlei_extract_url_def Let_def)
  have s: "leftmost (group_at [''pan.xunlei.com/s/''] is_idchar url) (length url) ?sid"
    by (rule search_lits_leftmost)
  have p: "\<exists>pw. leftmost (group_at [''pwd='', ''password=''] is_alnum url) (length url) pw
            \<and> ?pc = (case pw of Some g \<Rightarrow> g | None \<Rightarrow> '''')"
    using search_lits_leftmost [of "[''pwd='', ''password='']" is_alnum url] by blast
  have f: "\<exists>fo. leftmost (group_at [''#/list/''] is_idchar url) (length url) fo
            \<and> ?d = (case fo of Some g \<Rightarrow> g | None \<Rightarrow> ''0'')"
    using search_lits_leftmost [of "[''#/list/'']" is_idchar url] by blast
  have d1: "\<not> py_in ''pan.xunlei.com/s/'' url \<longrightarrow> ?sid = None"
    by (simp add: re_search_lits_None)
  have d2: "\<not> py_in ''pwd='' url \<and> \<not> py_in ''password='' url \<longrightarrow> ?pc = ''''"
    by (simp add: re_search_lits_None)
  have d3: "\<not> py_in ''#/list/'' url \<longrightarrow> ?d = ''0''"
    by (simp add: re_search_lits_None)
  show ?thesis
    by (intro exI [of _ ?sid] exI [of _ ?pc] exI [of _ ?d] conjI e s p f d1 d2 d3)
qed

lemma baidu_extract_url_fields:
  "\<exists>sid pc d. baidu_extract_url url = Inr (sid, pc, d, [])
     \<and> (\<exists>s1 s2. leftmost (group_at [''/s/''] is_idchar url) (length url) s1
              \<and> leftmost (group_at [''surl=''] is_idchar url) (length url) s2
              \<and> sid = (case s1 of Some g \<Rightarrow> Some g | None \<Rightarrow> map_option (\<lambda>g. ''1'' @ g) s2))
     \<and> (\<exists>pw hc. leftmost (group_at [''pwd='', ''password=''] is_alnum url) (length url) pw
              \<and> leftmost (hash_at url) (length url) hc
              \<and> pc = (case pw of Some g \<Rightarrow> g
                       | None \<Rightarrow> (case hc of Some g \<Rightarrow> g | None \<Rightarrow> '''')))
     \<and> (if py_in ''#/list/share/'' url
         then \<exists>pre raw. url = pre @ ''#/list/share/'' @ raw \<and> \<not> py_in ''#/list/share/'' raw
                \<and> d = (if takeWhile re_w raw = [] then ''/'' else takeWhile re_w raw)
         else d = ''/'')
     \<and> (\<not> py_in ''/s/'' url \<and> \<not> py_in ''surl='' url \<longrightarrow> sid = None)
     \<and> (\<not> py_in ''pwd='' url \<and> \<not> py_in ''password='' url \<and> \<not> py_in ''#'' url \<longrightarrow> pc = '''')
     \<and> (\<not> py_in ''#/list/share/'' url \<longrightarrow> d = ''/'')"
proof -
  let ?s1 = "re_search (match_lits [''/s/''] is_idchar) url"
  let ?s2 = "re_search (match_lits [''surl=''] is_idchar) url"
  let ?pw = "re_search (match_lits [''pwd='', ''password=''] is_alnum) url"
  let ?hc = "re_search match_hash url"
  let ?raw = "last (split url ''#/list/share/'')"
  let ?sid = "case ?s1 of Some g \<Rightarrow> Some g | None \<Rightarrow> map_option (\<lambda>g. ''1'' @ g) ?s2"
  let ?pc = "case ?pw of Some g \<Rightarrow> g | None \<Rightarrow> (case ?hc of Some g \<Rightarrow> g | None \<Rightarrow> '''')"
  let ?d = "if py_in ''#/list/share/'' url
            then (if takeWhile re_w ?raw = [] then ''/'' else takeWhile re_w ?raw) else ''/''"
  have sid: "(case ?s1 of Some g \<Rightarrow> Some g
              | None \<Rightarrow> (case ?s2 of Some g \<Rightarrow> Some (''1'' @ g) | None \<Rightarrow> None)) = ?sid"
    by (simp split: option.splits)
  have e: "baidu_extract_url url = Inr (?sid, ?pc, ?d, [])"
    unfolding baidu_extract_url_def Let_def sid
    by (simp add: index_last_split match_word_def)
  have s: "\<exists>s1 s2. leftmost (group_at [''/s/''] is_idchar url) (length url) s1
              \<and> leftmost (group_at [''surl=''] is_idchar url) (length url) s2
              \<and> ?sid = (case s1 of Some g \<Rightarrow> Some g | None \<Rightarrow> map_option (\<lambda>g. ''1'' @ g) s2)"
    using search_lits_leftmost [of "[''/s/'']" is_idchar url]
      search_lits_leftmost [of "[''surl='']" is_idchar url]
    by blast
  have p: "\<exists>pw hc. leftmost (group_at [''pwd='', ''password=''] is_alnum url) (length url) pw
              \<and> leftmost (hash_at url) (length url) hc
              \<and> ?pc = (case pw of Some g \<Rightarrow> g
                        | None \<Rightarrow> (case hc of Some g \<Rightarrow> g | None \<Rightarrow> ''''))"
    using search_lits_leftmost [of "[''pwd='', ''password='']" is_alnum url]
      search_hash_leftmost [of url]
    by blast
  have f: "if py_in ''#/list/share/'' url
         then \<exists>pre raw. url = pre @ ''#/list/share/'' @ raw \<and> \<not> py_in ''#/list/share/'' raw
                \<and> ?d = (if takeWhile re_w raw = [] then ''/'' else takeWhile re_w raw)
         else ?d = ''/''"
  proof (cases "py_in ''#/list/share/'' url")
    case True
    have "''#/list/share/'' \<noteq> []" by simp
    from split_from_last [OF this, of url "[]"] True
    obtain pre where "url = pre @ ''#/list/share/'' @ ?raw" "\<not> py_in ''#/list/share/'' ?raw"
      unfolding split_def by auto
    moreover have "?d = (if takeWhile re_w ?raw = [] then ''/'' else takeWhile re_w ?raw)"
      using True by simp
    ultimately have "\<exists>pre raw. url = pre @ ''#/list/share/'' @ raw
        \<and> \<not> py_in ''#/list/share/'' raw
        \<and> ?d = (if takeWhile re_w raw = [] then ''/'' else takeWhile re_w raw)"
      by blast
    with True show ?thesis by simp
  next
    case False
    then show ?thesis by simp
  qed
  have d1: "\<not> py_in ''/s/'' url \<and> \<not> py_in ''surl='' url \<longrightarrow> ?sid = None"
    by (simp add: re_search_lits_None)
  have d2: "\<not> py_in ''pwd='' url \<and> \<not> py_in ''password='' url \<and> \<not> py_in ''#'' url \<longrightarrow> ?pc = ''''"
    by (simp add: re_search_lits_None re_search_hash_None)
  have d3: "\<not> py_in ''#/list/share/'' url \<longrightarrow> ?d = ''/''"
    by simp
  show ?thesis
    by (intro exI [of _ ?sid] exI [of _ ?pc] exI [of _ ?d] conjI e s p f d1 d2 d3)
qed

text \<open>
  Claim C2, as the code has it. For every adapter and every URL string, \<open>extract_url\<close>
  returns a tuple and raises nothing, and its breadcrumb list is empty. The three other
  fields are searched for independently of each other, each by its own pattern, and each
  is the group of the leftmost match of its pattern in the URL, or its default when the
  pattern matches nowhere: None for the share id, the empty passcode, and the root marker
  of the provider (\<open>root\<close>, \<open>/\<close>, \<open>0\<close>) for the start directory. BaiduAdapter falls back
  from \<open>/s/\<close> to \<open>surl=\<close> (with \<open>1\<close> put before the id) and from the passcode parameter to
  the hash code, and takes its directory from the text after the last \<open>#/list/share/\<close>.
  So the unrecognized result with all four defaults is what a URL with none of the markers
  gives, and a URL that lacks only the share id still yields the passcode and the
  directory found in it.
\<close>
theorem extract_url_total:
  "(\<exists>sid pc d. aliyun_extract_url url = Inr (sid, pc, d, [])
     \<and> leftmost (group_at [''aliyundrive.com/s/'', ''alipan.com/s/''] is_alnum url) (length url) sid
     \<and> (\<exists>pw. leftmost (group_at [''pwd='', ''password='', ''code=''] is_alnum url) (length url) pw
            \<and> pc = (case pw of Some g \<Rightarrow> g | None \<Rightarrow> ''''))
     \<and> (\<exists>fo. leftmost (group_at [''/folder/''] is_alnum url) (length url) fo
            \<and> d = (case fo of Some g \<Rightarrow> g | None \<Rightarrow> ''root''))
     \<and> (\<not> py_in ''aliyundrive.com/s/'' url \<and> \<not> py_in ''alipan.com/s/'' url \<longrightarrow> sid = None)
     \<and> (\<not> py_in ''pwd='' url \<and> \<not> py_in ''password='' url \<and> \<not> py_in ''code='' url \<longrightarrow> pc = '''')
     \<and> (\<not> py_in ''/folder/'' url \<longrightarrow> d = ''root''))
   \<and> (\<exists>sid pc d. baidu_extract_url url = Inr (sid, pc, d, [])
     \<and> (\<exists>s1 s2. leftmost (group_at [''/s/''] is_idchar url) (length url) s1
              \<and> leftmost (group_at [''surl=''] is_idchar url) (length url) s2
              \<and> sid = (case s1 of Some g \<Rightarrow> Some g | None \<Rightarrow> map_option (\<lambda>g. ''1'' @ g) s2))
     \<and> (\<exists>pw hc. leftmost (group_at [''pwd='', ''password=''] is_alnum url) (length url) pw
              \<and> leftmost (hash_at url) (length url) hc
              \<and> pc = (case pw of Some g \<Rightarrow> g
                       | None \<Rightarrow> (case hc of Some g \<Rightarrow> g | None \<Rightarrow> '''')))
     \<and> (if py_in ''#/list/share/'' url
         then \<exists>pre raw. url = pre @ ''#/list/share/'' @ raw \<and> \<not> py_in ''#/list/share/'' raw
                \<and> d = (if takeWhile re_w raw = [] then ''/'' else takeWhile re_w raw)
         else d = ''/'')
     \<and> (\<not> py_in ''/s/'' url \<and> \<not> py_in ''surl='' url \<longrightarrow> sid = None)
     \<and> (\<not> py_in ''pwd='' url \<and> \<not> py_in ''password='' url \<and> \<not> py_in ''#'' url \<longrightarrow> pc = '''')
     \<and> (\<not> py_in ''#/list/share/'' url \<longrightarrow> d = ''/''))
   \<and> (\<exists>sid pc d. xunlei_extract_url url = Inr (sid, pc, d, [])
     \<and> leftmost (group_at [''pan.xunlei.com/s/''] is_idchar url) (length url) sid
     \<and> (\<exists>pw. leftmost (group_at [''pwd='', ''password=''] is_alnum url) (length url) pw
            \<and> pc = (case pw of Some g \<Rightarrow> g | None \<Rightarrow> ''''))
     \<and> (\<exists>fo. leftmost (group_at [''#/list/''] is_idchar url) (length url) fo
            \<and> d = (case fo of Some g \<Rightarrow> g | None \<Rightarrow> ''0''))
     \<and> (\<not> py_in ''pan.xunlei.com/s/'' url \<longrightarrow> sid = None)
     \<and> (\<not> py_in ''pwd='' url \<and> \<not> py_in ''password='' url \<longrightarrow> pc = '''')
     \<and> (\<not> py_in ''#/list/'' url \<longrightarrow> d = ''0''))"
  by (intro conjI aliyun_extract_url_fields baidu_extract_url_fields xunlei_extract_url_fields)

theorem extract_url_total_witness:
  "aliyun_extract_url ''https://example.org/readme.txt'' = Inr (None, '''', ''root'', [])
   \<and> baidu_extract_url ''https://example.org/readme.txt'' = Inr (None, '''', ''/'', [])
   \<and> xunlei_extract_url ''https://example.org/readme.txt'' = Inr (None, '''', ''0'', [])
   \<and> aliyun_extract_url ''https://www.alipan.com/s/AbC123/folder/64fe?pwd=9xYz''
       = Inr (Some ''AbC123'', ''9xYz'', ''64fe'', [])
   \<and> leftmost (group_at [''aliyundrive.com/s/'', ''alipan.com/s/''] is_alnum
                 ''https://www.alipan.com/s/AbC123/folder/64fe?pwd=9xYz'')
        (length ''https://www.alipan.com/s/AbC123/folder/64fe?pwd=9xYz'') (Some ''AbC123'')
   \<and> aliyun_extract_url ''https://pan.baidu.com/s/1abc?pwd=1234'' = Inr (None, ''1234'', ''root'', [])
   \<and> leftmost (group_at [''pwd='', ''password='', ''code=''] is_alnum
                 ''https://pan.baidu.com/s/1abc?pwd=1234'')
        (length ''https://pan.baidu.com/s/1abc?pwd=1234'') (Some ''1234'')
   \<and> baidu_extract_url ''https://pan.baidu.com/share/init?pwd=ab12#/list/share/77''
       = Inr (None, ''ab12'', ''77'', [])
   \<and> (\<exists>pre raw. ''https://pan.baidu.com/share/init?pwd=ab12#/list/share/77''
                    = pre @ ''#/list/share/'' @ raw
          \<and> \<not> py_in ''#/list/share/'' raw
          \<and> ''77'' = (if takeWhile re_w raw = [] then ''/'' else takeWhile re_w raw))
   \<and> baidu_extract_url ''https://pan.baidu.com/share/init?surl=AbC-d_E&pwd=ab12''
       = Inr (Some ''1AbC-d_E'', ''ab12'', ''/'', [])
   \<and> xunlei_extract_url ''https://pan.xunlei.com/s/VNab_-1?pwd=ab12#/list/55''
       = Inr (Some ''VNab_-1'', ''ab12'', ''55'', [])"
proof -
  let ?u0 = "''https://example.org/readme.txt''"
  let ?u1 = "''https://www.alipan.com/s/AbC123/folder/64fe?pwd=9xYz''"
  let ?u3 = "''https://pan.baidu.com/s/1abc?pwd=1234''"
  let ?u4 = "''https://pan.baidu.com/share/init?pwd=ab12#/list/share/77''"
  have n0: "\<not> py_in ''aliyundrive.com/s/'' ?u0" "\<not> py_in ''alipan.com/s/'' ?u0"
    "\<not> py_in ''pwd='' ?u0" "\<not> py_in ''password='' ?u0" "\<not> py_in ''code='' ?u0"
    "\<not> py_in ''/folder/'' ?u0" "\<not> py_in ''/s/'' ?u0" "\<not> py_in ''surl='' ?u0"
    "\<not> py_in ''#'' ?u0" "\<not> py_in ''#/list/share/'' ?u0" "\<not> py_in ''pan.xunlei.com/s/'' ?u0"
    "\<not> py_in ''#/list/'' ?u0"
    by code_simp+
  from extract_url_total [of ?u0, THEN conjunct1]
  obtain sa pa da where "aliyun_extract_url ?u0 = Inr (sa, pa, da, [])"
    "\<not> py_in ''aliyundrive.com/s/'' ?u0 \<and> \<not> py_in ''alipan.com/s/'' ?u0 \<longrightarrow> sa = None"
    "\<not> py_in ''pwd='' ?u0 \<and> \<not> py_in ''password='' ?u0 \<and> \<not> py_in ''code='' ?u0 \<longrightarrow> pa = []"
    "\<not> py_in ''/folder/'' ?u0 \<longrightarrow> da = ''root''"
    by (elim exE conjE)
  with n0 have a0: "aliyun_extract_url ?u0 = Inr (None, [], ''root'', [])" by simp
  from extract_url_total [of ?u0, THEN conjunct2, THEN conjunct1]
  obtain sb pb db where "baidu_extract_url ?u0 = Inr (sb, pb, db, [])"
    "\<not> py_in ''/s/'' ?u0 \<and> \<not> py_in ''surl='' ?u0 \<longrightarrow> sb = None"
    "\<not> py_in ''pwd='' ?u0 \<and> \<not> py_in ''password='' ?u0 \<and> \<not> py_in ''#'' ?u0 \<longrightarrow> pb = []"
    "\<not> py_in ''#/list/share/'' ?u0 \<longrightarrow> db = ''/''"
    by (elim exE conjE)
  with n0 have b0: "baidu_extract_url ?u0 = Inr (None, [], ''/'', [])" by simp
  from extract_url_total [of ?u0, THEN conjunct2, THEN conjunct2]
  obtain sx px dx where "xunlei_extract_url ?u0 = Inr (sx, px, dx, [])"
    "\<not> py_in ''pan.xunlei.com/s/'' ?u0 \<longrightarrow> sx = None"
    "\<not> py_in ''pwd='' ?u0 \<and> \<not> py_in ''password='' ?u0 \<longrightarrow> px = []"
    "\<not> py_in ''#/list/'' ?u0 \<longrightarrow> dx = ''0''"
    by (elim exE conjE)
  with n0 have x0: "xunlei_extract_url ?u0 = Inr (None, [], ''0'', [])" by simp
  have e1: "aliyun_extract_url ?u1 = Inr (Some ''AbC123'', ''9xYz'', ''64fe'', [])"
    by code_simp
  from extract_url_total [of ?u1, THEN conjunct1]
  obtain sid pc d where "aliyun_extract_url ?u1 = Inr (sid, pc, d, [])"
    and l1: "leftmost (group_at [''aliyundrive.com/s/'', ''alipan.com/s/''] is_alnum ?u1)
               (length ?u1) sid"
    by (elim exE conjE)
  with e1 have "sid = Some ''AbC123''" by simp
  with l1 have w1: "leftmost (group_at [''aliyundrive.com/s/'', ''alipan.com/s/''] is_alnum ?u1)
               (length ?u1) (Some ''AbC123'')"
    by simp
  have e3: "aliyun_extract_url ?u3 = Inr (None, ''1234'', ''root'', [])"
    by code_simp
  from extract_url_total [of ?u3, THEN conjunct1]
  obtain sid' pc' d' pw where "aliyun_extract_url ?u3 = Inr (sid', pc', d', [])"
    and l3: "leftmost (group_at [''pwd='', ''password='', ''code=''] is_alnum ?u3) (length ?u3) pw"
    and p3: "pc' = (case pw of Some g \<Rightarrow> g | None \<Rightarrow> [])"
    by (elim exE conjE)
  with e3 have "(case pw of Some g \<Rightarrow> g | None \<Rightarrow> []) = ''1234''" by simp
  then have "pw = Some ''1234''" by (cases pw) simp_all
  with l3 have w3: "leftmost (group_at [''pwd='', ''password='', ''code=''] is_alnum ?u3)
               (length ?u3) (Some ''1234'')"
    by simp
  have e4: "baidu_extract_url ?u4 = Inr (None, ''ab12'', ''77'', [])"
    by code_simp
  have in4: "py_in ''#/list/share/'' ?u4" by code_simp
  from extract_url_total [of ?u4, THEN conjunct2, THEN conjunct1]
  obtain sid'' pc'' d'' where "baidu_extract_url ?u4 = Inr (sid'', pc'', d'', [])"
    and f4: "if py_in ''#/list/share/'' ?u4
         then \<exists>pre raw. ?u4 = pre @ ''#/list/share/'' @ raw \<and> \<not> py_in ''#/list/share/'' raw
                \<and> d'' = (if takeWhile re_w raw = [] then ''/'' else takeWhile re_w raw)
         else d'' = ''/''"
    by (elim exE conjE)
  with e4 have "d'' = ''77''" by simp
  with f4 in4 have w4: "\<exists>pre raw. ?u4 = pre @ ''#/list/share/'' @ raw
          \<and> \<not> py_in ''#/list/share/'' raw
          \<and> ''77'' = (if takeWhile re_w raw = [] then ''/'' else takeWhile re_w raw)"
    by simp
  have e5: "baidu_extract_url ''https://pan.baidu.com/share/init?surl=AbC-d_E&pwd=ab12''
       = Inr (Some ''1AbC-d_E'', ''ab12'', ''/'', [])"
    by code_simp
  have e6: "xunlei_extract_url ''https://pan.xunlei.com/s/VNab_-1?pwd=ab12#/list/55''
       = Inr (Some ''VNab_-1'', ''ab12'', ''55'', [])"
    by code_simp
  show ?thesis
    by (intro conjI a0 b0 x0 e1 w1 e3 w3 e4 w4 e5 e6)
qed

text \<open>
  Claim C2 as stated fails: a Baidu share link is no Aliyun link, and the Aliyun parser
  answers it with share id None but with the passcode of the link, not the empty one.
\<close>
theorem extract_url_unrecognized_counterexample:
  "aliyun_extract_url ''https://pan.baidu.com/s/1abc?pwd=1234'' = Inr (None, ''1234'', ''root'', [])
   \<and> aliyun_extract_url ''https://pan.baidu.com/s/1abc?pwd=1234'' \<noteq> Inr (None, '''', ''root'', [])"
  by code_simp

subsection \<open>The skeleton adapter\<close>

lemma idchar_not_special:
  "is_idchar c \<Longrightarrow> c \<noteq> CHR ''='' \<and> c \<noteq> CHR ''#''"
  by (auto simp: is_idchar_def is_alnum_def is_digit_def code_in_def)

lemma xunlei_share_url:
  assumes "sid \<noteq> []" and "\<forall>c\<in>set sid. is_idchar c"
  shows "xunlei_extract_url (''https://pan.xunlei.com/s/'' @ sid) = Inr (Some sid, '''', ''0'', [])"
proof -
  let ?url = "''https://pan.xunlei.com/s/'' @ sid"
  have nospecial: "CHR ''='' \<notin> set ?url" "CHR ''#'' \<notin> set ?url"
    using assms(2) idchar_not_special by auto
  have "\<not> py_in ''pwd='' ?url" "\<not> py_in ''password='' ?url"
    using nospecial(1) py_in_set by fastforce+
  then have pc: "re_search (match_lits [''pwd='', ''password=''] is_alnum) ?url = None"
    by (simp add: re_search_lits_None)
  have "\<not> py_in ''#/list/'' ?url"
    using nospecial(2) py_in_set by fastforce
  then have d: "re_search (match_lits [''#/list/''] is_idchar) ?url = None"
    by (simp add: re_search_lits_None)
  have tw: "takeWhile is_idchar sid = sid"
    using assms(2) by simp
  have sid: "re_search (match_lits [''pan.xunlei.com/s/''] is_idchar) ?url = Some sid"
    using assms(1) by (simp add: startswith_def tw)
  show ?thesis
    unfolding xunlei_extract_url_def Let_def pc d sid by simp
qed

text \<open>
  Claim C6, as the code has it. \<open>get_stoken\<close>, \<open>get_detail\<close>, \<open>ls_dir\<close>, \<open>save_file\<close>,
  \<open>query_task\<close>, \<open>mkdir\<close>, \<open>rename\<close> and \<open>delete\<close> of the Xunlei skeleton return an envelope
  whose code is -999. \<open>get_fids\<close> returns the empty list, and \<open>init\<close> and
  \<open>get_account_info\<close> return False: these three carry no code. \<open>extract_url\<close> parses for
  real: a link that ends in \<open>pan.xunlei.com/s/\<close> and an id gives the id, an empty passcode
  and the root directory \<open>0\<close>, and a link with a list fragment and a passcode gives all three.
\<close>
theorem xunlei_stub_results:
  "dict_get (xunlei_get_stoken pwd_id passcode) ''code'' = PInt (- 999)
   \<and> dict_get (xunlei_get_detail pwd_id stoken pdir_fid fs fp) ''code'' = PInt (- 999)
   \<and> dict_get (xunlei_ls_dir pdir_fid) ''code'' = PInt (- 999)
   \<and> dict_get (xunlei_save_file fid_list fid_token_list to_pdir_fid pwd_id stoken) ''code'' = PInt (- 999)
   \<and> dict_get (xunlei_query_task task_id) ''code'' = PInt (- 999)
   \<and> dict_get (xunlei_mkdir dir_path) ''code'' = PInt (- 999)
   \<and> dict_get (xunlei_rename fid file_name) ''code'' = PInt (- 999)
   \<and> dict_get (xunlei_delete filelist) ''code'' = PInt (- 999)
   \<and> xunlei_get_fids file_paths = PList []
   \<and> xunlei_get_account_info self = PBool False
   \<and> fst (xunlei_init self lg) = PBool False
   \<and> (sid \<noteq> [] \<and> (\<forall>c\<in>set sid. is_idchar c) \<longrightarrow>
        xunlei_extract_url (''https://pan.xunlei.com/s/'' @ sid) = Inr (Some sid, '''', ''0'', []))
   \<and> xunlei_extract_url ''https://pan.xunlei.com/s/VNabc-_1#/list/Vx12?pwd=a1b2''
        = Inr (Some ''VNabc-_1'', ''a1b2'', ''Vx12'', [])"
proof -
  have stubs: "dict_get (xunlei_get_stoken pwd_id passcode) ''code'' = PInt (- 999)"
    "dict_get (xunlei_get_detail pwd_id stoken pdir_fid fs fp) ''code'' = PInt (- 999)"
    "dict_get (xunlei_ls_dir pdir_fid) ''code'' = PInt (- 999)"
    "dict_get (xunlei_save_file fid_list fid_token_list to_pdir_fid pwd_id stoken) ''code'' = PInt (- 999)"
    "dict_get (xunlei_query_task task_id) ''code'' = PInt (- 999)"
    "dict_get (xunlei_mkdir dir_path) ''code'' = PInt (- 999)"
    "dict_get (xunlei_rename fid file_name) ''code'' = PInt (- 999)"
    "dict_get (xunlei_delete filelist) ''code'' = PInt (- 999)"
    by (simp_all add: xunlei_get_stoken_def xunlei_get_detail_def xunlei_ls_dir_def
        xunlei_save_file_def xunlei_query_task_def xunlei_mkdir_def xunlei_rename_def
        xunlei_delete_def NOT_IMPLEMENTED_CODE_def)
  have others: "xunlei_get_fids file_paths = PList []"
    "xunlei_get_account_info self = PBool False"
    "fst (xunlei_init self lg) = PBool False"
    by (simp_all add: xunlei_get_fids_def xunlei_get_account_info_def xunlei_init_def Let_def)
  have ex: "xunlei_extract_url ''https://pan.xunlei.com/s/VNabc-_1#/list/Vx12?pwd=a1b2''
        = Inr (Some ''VNabc-_1'', ''a1b2'', ''Vx12'', [])"
    by code_simp
  show ?thesis using stubs others ex xunlei_share_url by blast
qed

theorem xunlei_stub_results_witness:
  "xunlei_extract_url ''https://pan.xunlei.com/s/VNx7'' = Inr (Some ''VNx7'', '''', ''0'', [])"
proof -
  have "\<forall>c\<in>set ''VNx7''. is_idchar c"
    by (simp add: is_idchar_def is_alnum_def is_digit_def code_in_def)
  then show ?thesis
    using xunlei_stub_results [where sid = "''VNx7''"] by simp
qed

text \<open>
  Claim C6 as stated fails for \<open>get_fids\<close> and \<open>get_account_info\<close>: what they return has no
  code -999.
\<close>
theorem xunlei_get_fids_counterexample:
  "dict_get (xunlei_get_fids [''/a'']) ''code'' \<noteq> PInt (- 999)
   \<and> dict_get (xunlei_get_account_info
        \<lparr>x_cookies_dict = [], x_index = 0, x_is_active = False, x_nickname = ''''\<rparr>) ''code''
       \<noteq> PInt (- 999)"
  by (simp add: xunlei_get_fids_def xunlei_get_account_info_def)
subsection \<open>The bounded searches return\<close>

lemma search_level_returns:
  "\<exists>r w'. search_level cl fid dirs nd w = (Inr r, w')"
proof (induction dirs arbitrary: nd w)
  case Nil
  show ?case by simp
next
  case (Cons d dirs)
  show ?case
  proof (cases "call (c_list cl d) w")
    case (Pair r w1)
    show ?thesis
    proof (cases r)
      case (Inl e)
      with Pair Cons show ?thesis by simp
    next
      case (Inr items)
      show ?thesis
      proof (cases "scan_items fid items nd")
        case (Pair found nd')
        with \<open>call (c_list cl d) w = (r, w1)\<close> Inr Cons show ?thesis
          by (cases found) auto
      qed
    qed
  qed
qed

lemma bfs_levels_returns:
  "\<exists>found searched w'. bfs_levels n cl fid dirs w = (Inr (found, searched), w')
      \<and> length searched \<le> n"
proof (induction n arbitrary: dirs w)
  case 0
  show ?case by simp
next
  case (Suc n)
  obtain found nd w1 where lvl: "search_level cl fid dirs [] w = (Inr (found, nd), w1)"
    using search_level_returns by (metis surj_pair)
  show ?case
  proof (cases found)
    case (Some p)
    with lvl show ?thesis by simp
  next
    case None
    show ?thesis
    proof (cases "nd = []")
      case True
      with lvl None show ?thesis by simp
    next
      case False
      obtain f s w2 where "bfs_levels n cl fid nd w1 = (Inr (f, s), w2)" "length s \<le> n"
        using Suc.IH by blast
      with lvl None False show ?thesis by simp
    qed
  qed
qed

lemma search_shared_level_returns:
  "\<exists>r w'. search_shared_level cl u sid tok target queue nq w = (Inr r, w')"
proof (induction queue arbitrary: nq w)
  case Nil
  show ?case by simp
next
  case (Cons q queue)
  obtain cp cb where q: "q = (cp, cb)" by (cases q)
  show ?case
  proof (cases "call (c_list_shared_paths cl cp u sid tok) w")
    case (Pair r w1)
    show ?thesis
    proof (cases r)
      case (Inl e)
      with Pair Cons q show ?thesis by simp
    next
      case (Inr items)
      show ?thesis
      proof (cases "scan_shared target cb items nq")
        case (Pair found nq')
        with \<open>call (c_list_shared_paths cl cp u sid tok) w = (r, w1)\<close> Inr Cons q show ?thesis
          by (cases found) auto
      qed
    qed
  qed
qed

lemma bfs_shared_levels_returns:
  "\<exists>found searched w'. bfs_shared_levels n cl u sid tok target queue w = (Inr (found, searched), w')
      \<and> length searched \<le> n"
proof (induction n arbitrary: queue w)
  case 0
  show ?case by simp
next
  case (Suc n)
  obtain found nq w1 where
    lvl: "search_shared_level cl u sid tok target queue [] w = (Inr (found, nq), w1)"
    using search_shared_level_returns by (metis surj_pair)
  show ?case
  proof (cases found)
    case (Some p)
    with lvl show ?thesis by simp
  next
    case None
    show ?thesis
    proof (cases "nq = []")
      case True
      with lvl None show ?thesis by simp
    next
      case False
      obtain f s w2 where
        "bfs_shared_levels n cl u sid tok target nq w1 = (Inr (f, s), w2)" "length s \<le> n"
        using Suc.IH by blast
      with lvl None False show ?thesis by simp
    qed
  qed
qed

lemma isdigit_not_path: "isdigit fid \<Longrightarrow> fid \<noteq> [] \<and> \<not> startswith fid ''/''"
  by (cases fid) (auto simp: isdigit_def startswith_def is_digit_def code_in_def)

lemma resolve_fid_to_path_not_found:
  assumes "resolve_search cl fid w = (Inr (None, searched), w')"
    and "isdigit fid" and "fid \<noteq> ''0''" and "client self = Some cl"
  shows "fst (resolve_fid_to_path self fid w) = Inr ''/''"
  using assms isdigit_not_path [OF assms(2)]
  by (simp add: resolve_fid_to_path_def andthen_def ret_def log_def)

lemma scan_shared_crumbs:
  "scan_shared target cb items nq = (Some (p, crumbs), nq') \<Longrightarrow> crumbs \<noteq> []"
  by (induction target cb items nq rule: scan_shared.induct) (auto simp: Let_def split: if_splits)

lemma search_shared_level_crumbs:
  "search_shared_level cl u sid tok target queue nq w = (Inr (Some (p, crumbs), nq'), w')
   \<Longrightarrow> crumbs \<noteq> []"
proof (induction queue arbitrary: nq w)
  case Nil
  then show ?case by simp
next
  case (Cons q queue)
  obtain cp cb where q: "q = (cp, cb)" by (cases q)
  show ?case
    using Cons q
    by (auto split: prod.splits sum.splits option.splits dest: scan_shared_crumbs)
qed

lemma bfs_shared_levels_crumbs:
  "bfs_shared_levels n cl u sid tok target queue w = (Inr (Some (p, crumbs), searched), w')
   \<Longrightarrow> crumbs \<noteq> []"
proof (induction n arbitrary: queue w searched)
  case 0
  then show ?case by simp
next
  case (Suc n)
  then show ?case
    by (auto split: prod.splits sum.splits option.splits if_splits
        dest: search_shared_level_crumbs)
qed

lemma bfs_share_tree_searched_returns:
  "\<exists>r searched w'.
     bfs_share_tree_searched cl sp u sid tok target n w = (Inr (r, searched), w')
     \<and> length searched \<le> n \<and> (snd r = [] \<longrightarrow> r = ('''', []))"
proof (cases "find_root target sp")
  case (Some item)
  then show ?thesis
    by (simp add: bfs_share_tree_searched_def ret_def crumb_def)
next
  case None
  obtain found searched w1 where
    b: "bfs_shared_levels n cl u sid tok target (root_queue sp) w = (Inr (found, searched), w1)"
       "length searched \<le> n"
    using bfs_shared_levels_returns by blast
  show ?thesis
  proof (cases found)
    case None
    with b \<open>find_root target sp = None\<close> show ?thesis
      by (simp add: bfs_share_tree_searched_def andthen_def ret_def log_def)
  next
    case (Some r)
    obtain p crumbs where r: "r = (p, crumbs)" by (cases r)
    with b Some have "crumbs \<noteq> []" using bfs_shared_levels_crumbs by blast
    with b Some r \<open>find_root target sp = None\<close> show ?thesis
      by (simp add: bfs_share_tree_searched_def andthen_def ret_def)
  qed
qed

text \<open>
  Claim C3. For every client (every directory tree, of any depth), every target and every
  world, the search of \<open>_resolve_fid_to_path\<close> returns after at most 10 rounds of listing a
  frontier and raises nothing; when it has found nothing, \<open>_resolve_fid_to_path\<close> answers
  with the root \<open>/\<close>. The search of \<open>_bfs_share_tree\<close> returns after at most 5 rounds, and
  its result without a breadcrumb is the empty path with the empty breadcrumb.
\<close>
theorem bfs_depth_bounded:
  "(\<exists>found searched w'.
      resolve_search cl fid w = (Inr (found, searched), w') \<and> length searched \<le> 10
      \<and> (found = None \<and> isdigit fid \<and> fid \<noteq> ''0'' \<and> client self = Some cl
           \<longrightarrow> fst (resolve_fid_to_path self fid w) = Inr ''/''))
   \<and> (\<exists>r searched w'.
      bfs_share_tree_searched cl shared_paths u sid tok target 5 w = (Inr (r, searched), w')
      \<and> bfs_share_tree cl shared_paths u sid tok target w = (Inr r, w')
      \<and> length searched \<le> 5
      \<and> (snd r = [] \<longrightarrow> r = ('''', [])))"
proof -
  obtain found searched w' where
    own: "resolve_search cl fid w = (Inr (found, searched), w')" "length searched \<le> 10"
    unfolding resolve_search_def using bfs_levels_returns by blast
  have fallback: "found = None \<and> isdigit fid \<and> fid \<noteq> ''0'' \<and> client self = Some cl
           \<longrightarrow> fst (resolve_fid_to_path self fid w) = Inr ''/''"
    using own(1) resolve_fid_to_path_not_found by blast
  obtain r s w2 where
    sh: "bfs_share_tree_searched cl shared_paths u sid tok target 5 w = (Inr (r, s), w2)"
        "length s \<le> 5" "snd r = [] \<longrightarrow> r = ('''', [])"
    using bfs_share_tree_searched_returns by blast
  have "bfs_share_tree cl shared_paths u sid tok target w = (Inr r, w2)"
    using sh(1) by (simp add: bfs_share_tree_def andthen_def ret_def)
  with own fallback sh show ?thesis by blast
qed

theorem bfs_depth_bounded_witness:
  "fst (resolve_fid_to_path (baidu_with (tree_client chain_tree)) ''42'' w0) = Inr ''/''
   \<and> (\<exists>searched. fst (resolve_search (tree_client chain_tree) ''42'' w0) = Inr (None, searched)
        \<and> length searched \<le> 10)
   \<and> fst (bfs_share_tree (tree_client chain_tree) [mk_item 1 ''/d'' True] 7 8 ''tok'' ''42'' w0)
       = Inr ('''', [])"
proof -
  have own: "fst (projr (fst (resolve_search (tree_client chain_tree) ''42'' w0))) = None"
    by code_simp
  have pre: "isdigit ''42'' \<and> ''42'' \<noteq> ''0''
             \<and> client (baidu_with (tree_client chain_tree)) = Some (tree_client chain_tree)"
    by (simp add: isdigit_def is_digit_def code_in_def baidu_with_def)
  have sh: "snd (projr (fst
      (bfs_share_tree (tree_client chain_tree) [mk_item 1 ''/d'' True] 7 8 ''tok'' ''42'' w0))) = []"
    by code_simp
  from bfs_depth_bounded [of "tree_client chain_tree" "''42''" w0
        "baidu_with (tree_client chain_tree)" "[mk_item 1 ''/d'' True]" 7 8 "''tok''" "''42''"]
  obtain found searched w1 r w2 where
    a: "resolve_search (tree_client chain_tree) ''42'' w0 = (Inr (found, searched), w1)"
       "length searched \<le> 10"
       "found = None \<and> isdigit ''42'' \<and> ''42'' \<noteq> ''0''
          \<and> client (baidu_with (tree_client chain_tree)) = Some (tree_client chain_tree)
        \<longrightarrow> fst (resolve_fid_to_path (baidu_with (tree_client chain_tree)) ''42'' w0) = Inr ''/''"
    and b: "bfs_share_tree (tree_client chain_tree) [mk_item 1 ''/d'' True] 7 8 ''tok'' ''42'' w0
              = (Inr r, w2)"
       "snd r = [] \<longrightarrow> r = ('''', [])"
    by blast
  from a(1) own have none: "found = None" by simp
  from b(1) sh have "snd r = []" by simp
  with b have share: "fst (bfs_share_tree (tree_client chain_tree) [mk_item 1 ''/d'' True] 7 8
      ''tok'' ''42'' w0) = Inr ('''', [])"
    by simp
  from a(3) none pre have
    "fst (resolve_fid_to_path (baidu_with (tree_client chain_tree)) ''42'' w0) = Inr ''/''"
    by blast
  moreover from a(1,2) none have
    "\<exists>searched. fst (resolve_search (tree_client chain_tree) ''42'' w0) = Inr (None, searched)
        \<and> length searched \<le> 10"
    by simp
  ultimately show ?thesis using share by blast
qed

subsection \<open>Breadcrumbs are chains from the root\<close>

lemma scan_shared_inv:
  assumes "share_chain cl sp u sid tok chain" "chain \<noteq> []"
    and "\<forall>item\<in>set items. share_chain cl sp u sid tok (chain @ [item])"
    and "\<forall>e\<in>set nq. queued cl sp u sid tok e"
    and "scan_shared target (map crumb chain) items nq = (found, nq')"
  shows "(\<forall>e\<in>set nq'. queued cl sp u sid tok e)
         \<and> (\<forall>r. found = Some r \<longrightarrow> reached cl sp u sid tok target r)"
  using assms(3-5)
proof (induction items arbitrary: nq)
  case Nil
  then show ?case by simp
next
  case (Cons item items)
  have ext: "share_chain cl sp u sid tok (chain @ [item])" using Cons.prems(1) by simp
  show ?case
  proof (cases "str_int (fs_id item) = target")
    case True
    with Cons.prems have "found = Some (path item, map crumb chain @ [crumb item])" "nq' = nq"
      by (simp_all add: Let_def)
    moreover have "reached cl sp u sid tok target (path item, map crumb chain @ [crumb item])"
      unfolding reached_def using ext True by (intro exI [of _ "chain @ [item]"]) simp
    ultimately show ?thesis using Cons.prems(2) by simp
  next
    case False
    let ?nq = "if is_dir item then nq @ [(path item, map crumb chain @ [crumb item])] else nq"
    have nqok: "\<forall>e\<in>set ?nq. queued cl sp u sid tok e"
    proof (cases "is_dir item")
      case True
      have "queued cl sp u sid tok (path item, map crumb chain @ [crumb item])"
        unfolding queued_def using ext True by (intro exI [of _ "chain @ [item]"]) simp
      with True Cons.prems(2) show ?thesis by simp
    next
      case False
      with Cons.prems(2) show ?thesis by simp
    qed
    have scan: "scan_shared target (map crumb chain) items ?nq = (found, nq')"
      using Cons.prems(3) False by (simp add: Let_def)
    have tl: "\<forall>item\<in>set items. share_chain cl sp u sid tok (chain @ [item])"
      using Cons.prems(1) by simp
    show ?thesis by (rule Cons.IH [OF tl nqok scan])
  qed
qed

lemma search_shared_level_inv:
  assumes "\<forall>e\<in>set queue. queued cl sp u sid tok e"
    and "\<forall>e\<in>set nq. queued cl sp u sid tok e"
    and "search_shared_level cl u sid tok target queue nq w = (Inr (found, nq'), w')"
  shows "(\<forall>e\<in>set nq'. queued cl sp u sid tok e)
         \<and> (\<forall>r. found = Some r \<longrightarrow> reached cl sp u sid tok target r)"
  using assms
proof (induction queue arbitrary: nq w)
  case Nil
  then show ?case by simp
next
  case (Cons q queue)
  obtain cp cb where q: "q = (cp, cb)" by (cases q)
  from Cons.prems(1) q obtain chain where
    chain: "share_chain cl sp u sid tok chain" "chain \<noteq> []" "is_dir (last chain)"
           "cp = path (last chain)" "cb = map crumb chain"
    unfolding queued_def by auto
  obtain r w1 where c: "call (c_list_shared_paths cl cp u sid tok) w = (r, w1)"
    by (cases "call (c_list_shared_paths cl cp u sid tok) w")
  have rest: "\<forall>e\<in>set queue. queued cl sp u sid tok e" using Cons.prems(1) by simp
  show ?case
  proof (cases r)
    case (Inl e)
    with c q Cons.prems(3) have
      "search_shared_level cl u sid tok target queue nq
         (add_log DEBUG (''[Baidu] listing shared directory '' @ cp @ '' failed: '' @ exn_str e) w1)
       = (Inr (found, nq'), w')"
      by simp
    then show ?thesis using Cons.IH rest Cons.prems(2) by blast
  next
    case (Inr items)
    with c obtain s' where "c_list_shared_paths cl cp u sid tok (remote w) = (Inr items, s')"
      by (auto simp: call_def split: prod.splits)
    then have ext: "\<forall>item\<in>set items. share_chain cl sp u sid tok (chain @ [item])"
      using chain share_chain.child [of cl sp u sid tok chain "remote w" items s'] by blast
    obtain f nq1 where sc: "scan_shared target (map crumb chain) items nq = (f, nq1)"
      by (cases "scan_shared target (map crumb chain) items nq")
    have inv: "(\<forall>e\<in>set nq1. queued cl sp u sid tok e)
         \<and> (\<forall>r. f = Some r \<longrightarrow> reached cl sp u sid tok target r)"
      using scan_shared_inv [OF chain(1,2) ext Cons.prems(2) sc] .
    show ?thesis
    proof (cases f)
      case None
      with c q Inr sc chain(5) Cons.prems(3) have
        "search_shared_level cl u sid tok target queue nq1 w1 = (Inr (found, nq'), w')"
        by simp
      then show ?thesis using Cons.IH rest inv by blast
    next
      case (Some r)
      with c q Inr sc chain(5) Cons.prems(3) have "found = Some r" "nq' = nq1"
        by simp_all
      with inv Some show ?thesis by simp
    qed
  qed
qed

lemma bfs_shared_levels_inv:
  assumes "\<forall>e\<in>set queue. queued cl sp u sid tok e"
    and "bfs_shared_levels n cl u sid tok target queue w = (Inr (Some r, searched), w')"
  shows "reached cl sp u sid tok target r"
  using assms
proof (induction n arbitrary: queue w searched)
  case 0
  then show ?case by simp
next
  case (Suc n)
  obtain res w1 where l: "search_shared_level cl u sid tok target queue [] w = (res, w1)"
    by (cases "search_shared_level cl u sid tok target queue [] w")
  show ?case
  proof (cases res)
    case (Inl e)
    with l Suc.prems(2) show ?thesis by simp
  next
    case (Inr fr)
    obtain found nq where fr: "fr = (found, nq)" by (cases fr)
    have inv: "(\<forall>e\<in>set nq. queued cl sp u sid tok e)
         \<and> (\<forall>r. found = Some r \<longrightarrow> reached cl sp u sid tok target r)"
      using search_shared_level_inv [of queue cl sp u sid tok "[]" target w found nq w1]
        Suc.prems(1) l Inr fr by simp
    show ?thesis
    proof (cases found)
      case (Some r')
      with l Inr fr Suc.prems(2) have "r' = r" by simp
      with inv Some show ?thesis by simp
    next
      case None
      with l Inr fr Suc.prems(2) have ne: "nq \<noteq> []" by (auto split: if_splits)
      with l Inr fr None Suc.prems(2) obtain s2 where
        "bfs_shared_levels n cl u sid tok target nq w1 = (Inr (Some r, s2), w')"
        by (auto split: prod.splits sum.splits)
      then show ?thesis using Suc.IH inv by blast
    qed
  qed
qed

lemma find_root_Some:
  "find_root target sp = Some item \<Longrightarrow> item \<in> set sp \<and> str_int (fs_id item) = target"
  by (induction sp) (auto split: if_splits)

lemma root_queue_queued: "\<forall>e\<in>set (root_queue sp'). \<exists>item\<in>set sp'. is_dir item \<and> e = (path item, [crumb item])"
  by (induction sp') auto

lemma root_queue_ok: "\<forall>e\<in>set (root_queue sp). queued cl sp u sid tok e"
proof
  fix e assume "e \<in> set (root_queue sp)"
  then obtain item where i: "item \<in> set sp" "is_dir item" "e = (path item, [crumb item])"
    using root_queue_queued by blast
  then show "queued cl sp u sid tok e"
    unfolding queued_def by (intro exI [of _ "[item]"]) (simp add: share_chain.top)
qed

lemma bfs_share_tree_found:
  assumes "bfs_share_tree cl sp u sid tok target w = (Inr (p, crumbs), w')" and "crumbs \<noteq> []"
  shows "reached cl sp u sid tok target (p, crumbs)"
proof (cases "find_root target sp")
  case (Some item)
  with assms(1) have "p = path item" "crumbs = [crumb item]"
    by (simp_all add: bfs_share_tree_def bfs_share_tree_searched_def andthen_def ret_def)
  moreover have "item \<in> set sp" "str_int (fs_id item) = target"
    using find_root_Some [OF Some] by simp_all
  ultimately show ?thesis
    unfolding reached_def by (intro exI [of _ "[item]"]) (simp add: share_chain.top)
next
  case None
  obtain res w1 where b: "bfs_shared_levels 5 cl u sid tok target (root_queue sp) w = (res, w1)"
    by (cases "bfs_shared_levels 5 cl u sid tok target (root_queue sp) w")
  with assms None obtain searched where
    "res = Inr (Some (p, crumbs), searched)"
    by (auto simp: bfs_share_tree_def bfs_share_tree_searched_def andthen_def ret_def log_def
        split: sum.splits prod.splits option.splits)
  with b show ?thesis using bfs_shared_levels_inv root_queue_ok by blast
qed

lemma share_chain_steps:
  "share_chain cl sp u sid tok chain \<Longrightarrow>
   chain \<noteq> [] \<and> hd chain \<in> set sp
   \<and> (\<forall>i. Suc i < length chain \<longrightarrow>
         is_dir (chain ! i)
         \<and> (\<exists>s items s'. c_list_shared_paths cl (path (chain ! i)) u sid tok s = (Inr items, s')
               \<and> chain ! Suc i \<in> set items))"
proof (induction rule: share_chain.induct)
  case (top item)
  then show ?case by simp
next
  case (child chain s items s' item)
  have len: "length (chain @ [item]) = Suc (length chain)" by simp
  have last: "chain ! (length chain - 1) = last chain"
    using child.hyps(2) by (simp add: last_conv_nth)
  show ?case
  proof (intro conjI allI impI)
    show "chain @ [item] \<noteq> []" by simp
    show "hd (chain @ [item]) \<in> set sp" using child.IH child.hyps(2) by simp
  next
    fix i assume i: "Suc i < length (chain @ [item])"
    show "is_dir ((chain @ [item]) ! i)"
    proof (cases "Suc i < length chain")
      case True
      then show ?thesis using child.IH by (simp add: nth_append)
    next
      case False
      with i have "i = length chain - 1" "i < length chain" using child.hyps(2) by auto
      then show ?thesis using last child.hyps(3) by (simp add: nth_append)
    qed
    show "\<exists>s items s'. c_list_shared_paths cl (path ((chain @ [item]) ! i)) u sid tok s
             = (Inr items, s') \<and> (chain @ [item]) ! Suc i \<in> set items"
    proof (cases "Suc i < length chain")
      case True
      then show ?thesis using child.IH by (simp add: nth_append)
    next
      case False
      with i have eq: "i = length chain - 1" "i < length chain" "Suc i = length chain"
        using child.hyps(2) by auto
      have "(chain @ [item]) ! i = last chain" using eq last by (simp add: nth_append)
      moreover have "(chain @ [item]) ! Suc i = item" using eq by (simp add: nth_append)
      ultimately show ?thesis using child.hyps(4,5) by auto
    qed
  qed
qed

text \<open>
  Claim C9. Whenever \<open>_bfs_share_tree\<close> finds the target, that is, returns a breadcrumb that
  is not empty, the breadcrumb is the list of \<open>{fid, file_name}\<close> of a chain of entries: the
  first is a root-level entry of the share, every entry but the last is a directory whose
  listing returned the next one, and the last is the target, whose path is the path
  returned. This holds for every client, whatever the order of its listings.
\<close>
theorem bfs_share_tree_breadcrumb:
  "bfs_share_tree cl sp u sid tok target w = (Inr (p, crumbs), w') \<Longrightarrow> crumbs \<noteq> [] \<Longrightarrow>
   \<exists>chain. chain \<noteq> [] \<and> crumbs = map crumb chain
     \<and> hd chain \<in> set sp
     \<and> (\<forall>i. Suc i < length chain \<longrightarrow>
           is_dir (chain ! i)
           \<and> (\<exists>s items s'. c_list_shared_paths cl (path (chain ! i)) u sid tok s = (Inr items, s')
                 \<and> chain ! Suc i \<in> set items))
     \<and> str_int (fs_id (last chain)) = target \<and> p = path (last chain)"
proof -
  assume "bfs_share_tree cl sp u sid tok target w = (Inr (p, crumbs), w')" "crumbs \<noteq> []"
  then have "reached cl sp u sid tok target (p, crumbs)" by (rule bfs_share_tree_found)
  then obtain chain where
    c: "share_chain cl sp u sid tok chain" "str_int (fs_id (last chain)) = target"
       "p = path (last chain)" "crumbs = map crumb chain"
    unfolding reached_def by auto
  show ?thesis
    using share_chain_steps [OF c(1)] c(2-4) by (intro exI [of _ chain]) simp
qed

theorem bfs_share_tree_breadcrumb_witness:
  "bfs_share_tree (tree_client share_tree) share_roots 7 8 ''tok'' ''30'' w0
     = (Inr (''/s/B/C/t.mp4'',
             [PDict [(''fid'', PStr ''11''), (''file_name'', PStr ''B'')],
              PDict [(''fid'', PStr ''21''), (''file_name'', PStr ''C'')],
              PDict [(''fid'', PStr ''30''), (''file_name'', PStr ''t.mp4'')]]),
        add_log DEBUG
          ''[Baidu] listing shared directory /s/E failed: errno: 31066, no such directory''
          w0)
   \<and> (\<exists>chain. length chain = 3 \<and> hd chain \<in> set share_roots
        \<and> str_int (fs_id (last chain)) = ''30'' \<and> path (last chain) = ''/s/B/C/t.mp4'')"
proof -
  have run: "bfs_share_tree (tree_client share_tree) share_roots 7 8 ''tok'' ''30'' w0
     = (Inr (''/s/B/C/t.mp4'',
             [PDict [(''fid'', PStr ''11''), (''file_name'', PStr ''B'')],
              PDict [(''fid'', PStr ''21''), (''file_name'', PStr ''C'')],
              PDict [(''fid'', PStr ''30''), (''file_name'', PStr ''t.mp4'')]]),
        add_log DEBUG
          ''[Baidu] listing shared directory /s/E failed: errno: 31066, no such directory''
          w0)"
    by code_simp
  have ne: "[PDict [(''fid'', PStr ''11''), (''file_name'', PStr ''B'')],
             PDict [(''fid'', PStr ''21''), (''file_name'', PStr ''C'')],
             PDict [(''fid'', PStr ''30''), (''file_name'', PStr ''t.mp4'')]] \<noteq> []"
    by simp
  from bfs_share_tree_breadcrumb [OF run ne] obtain chain where
    c: "chain \<noteq> []"
       "[PDict [(''fid'', PStr ''11''), (''file_name'', PStr ''B'')],
         PDict [(''fid'', PStr ''21''), (''file_name'', PStr ''C'')],
         PDict [(''fid'', PStr ''30''), (''file_name'', PStr ''t.mp4'')]] = map crumb chain"
       "hd chain \<in> set share_roots" "str_int (fs_id (last chain)) = ''30''"
       "''/s/B/C/t.mp4'' = path (last chain)"
    by (elim exE conjE)
  have "length chain = length (map crumb chain)" by simp
  also have "\<dots> = 3" unfolding c(2) [symmetric] by simp
  finally have len: "length chain = 3" .
  have "\<exists>chain. length chain = 3 \<and> hd chain \<in> set share_roots
        \<and> str_int (fs_id (last chain)) = ''30'' \<and> path (last chain) = ''/s/B/C/t.mp4''"
    using len c(3,4) c(5) [symmetric] by (intro exI [of _ chain]) (intro conjI)
  with run show ?thesis by (rule conjI)
qed

subsection \<open>Edge cases of the resolvers\<close>


text \<open>
  Claim C4. For both resolvers and every fid: a fid that begins with \<open>/\<close> is returned as it
  is, and an empty fid or the fid \<open>0\<close> gives the root \<open>/\<close>, in both cases with the world
  unchanged: no client call, nothing logged. A fid that is not empty, does not begin with
  \<open>/\<close> and is no digit string gives the root \<open>/\<close>, and the only thing done is one warning
  logged. None of the three raises.
\<close>
theorem resolve_edge_cases:
  "(startswith fid ''/'' \<longrightarrow>
      resolve_fid_to_path self fid w = (Inr fid, w)
      \<and> resolve_share_fid_to_path self share_url passcode fid w = (Inr fid, w))
   \<and> (fid = [] \<or> fid = ''0'' \<longrightarrow>
      resolve_fid_to_path self fid w = (Inr ''/'', w)
      \<and> resolve_share_fid_to_path self share_url passcode fid w = (Inr ''/'', w))
   \<and> (fid \<noteq> [] \<and> \<not> isdigit fid \<and> \<not> startswith fid ''/'' \<longrightarrow>
      resolve_fid_to_path self fid w
        = (Inr ''/'', add_log WARNING (''[Baidu] fid='' @ fid @ '' has an unrecognized format'') w)
      \<and> resolve_share_fid_to_path self share_url passcode fid w
        = (Inr ''/'', add_log WARNING (''[Baidu] share fid='' @ fid @ '' has an unrecognized format'') w))"
proof -
  have zero: "isdigit ''0''" by (simp add: isdigit_def is_digit_def code_in_def)
  have a: "startswith fid ''/'' \<Longrightarrow> fid \<noteq> [] \<and> fid \<noteq> ''0''"
    by (auto simp: startswith_def)
  have b: "startswith ''/'' ''/''" by (simp add: startswith_def)
  show ?thesis
    using a b zero
    by (auto simp: resolve_fid_to_path_def resolve_share_fid_to_path_def ret_def andthen_def
        log_def)
qed

theorem resolve_edge_cases_witness:
  "resolve_fid_to_path (baidu_with (tree_client chain_tree)) ''/videos/2024'' w0
     = (Inr ''/videos/2024'', w0)
   \<and> resolve_share_fid_to_path (baidu_with (tree_client chain_tree)) ''u'' ''p'' ''0'' w0
     = (Inr ''/'', w0)
   \<and> fst (resolve_fid_to_path (baidu_with (tree_client chain_tree)) ''abc'' w0) = Inr ''/''
   \<and> logs (snd (resolve_fid_to_path (baidu_with (tree_client chain_tree)) ''abc'' w0))
       = [(WARNING, ''[Baidu] fid=abc has an unrecognized format'')]"
proof -
  have 1: "startswith ''/videos/2024'' ''/''" by (simp add: startswith_def)
  have 2: "''abc'' \<noteq> [] \<and> \<not> isdigit ''abc'' \<and> \<not> startswith ''abc'' ''/''"
    by (simp add: startswith_def isdigit_def is_digit_def code_in_def)
  show ?thesis
    using resolve_edge_cases [of "''/videos/2024''" "baidu_with (tree_client chain_tree)" w0 "''u''" "''p''"]
      resolve_edge_cases [of "''0''" "baidu_with (tree_client chain_tree)" w0 "''u''" "''p''"]
      resolve_edge_cases [of "''abc''" "baidu_with (tree_client chain_tree)" w0 "''u''" "''p''"]
      1 2
    by (simp add: add_log_def w0_def)
qed
subsection \<open>Reconciliation after a transfer\<close>

lemma map_of_dict_set: "map_of (dict_set k v m) = (map_of m)(k \<mapsto> v)"
  by (induction k v m rule: dict_set.induct) (auto simp: fun_upd_twist)

lemma set_dict_set: "set (dict_set k v m) \<subseteq> insert (k, v) (set m)"
  by (induction k v m rule: dict_set.induct) auto

lemma keys_dict_set: "fst ` set (dict_set k v m) = insert k (fst ` set m)"
  by (induction k v m rule: dict_set.induct) auto

lemma record_new_sound:
  "(k, v) \<in> set (record_new before_items after_list m) \<Longrightarrow>
   (k, v) \<in> set m \<or> (\<exists>e\<in>set after_list. is_new (map fst before_items) e
        \<and> k = get_str e ''file_name'' \<and> v = get_str e ''fid'')"
proof (induction after_list arbitrary: m)
  case Nil
  then show ?case by simp
next
  case (Cons e es)
  let ?m = "if get_str e ''fid'' \<noteq> [] \<and> map_of before_items (get_str e ''fid'') = None
            then dict_set (get_str e ''file_name'') (get_str e ''fid'') m else m"
  from Cons.prems have "(k, v) \<in> set (record_new before_items es ?m)" by (simp add: Let_def)
  then have "(k, v) \<in> set ?m \<or> (\<exists>e\<in>set es. is_new (map fst before_items) e
        \<and> k = get_str e ''file_name'' \<and> v = get_str e ''fid'')"
    by (rule Cons.IH)
  moreover have "(k, v) \<in> set ?m \<Longrightarrow> (k, v) \<in> set m \<or>
      (is_new (map fst before_items) e \<and> k = get_str e ''file_name'' \<and> v = get_str e ''fid'')"
    using set_dict_set [of "get_str e ''file_name''" "get_str e ''fid''" m]
    by (auto simp: is_new_def map_of_eq_None_iff split: if_splits)
  ultimately show ?case by auto
qed

lemma record_new_keys_mono:
  "fst ` set m \<subseteq> fst ` set (record_new before_items after_list m)"
proof (induction after_list arbitrary: m)
  case Nil
  show ?case by simp
next
  case (Cons e es)
  let ?m = "if get_str e ''fid'' \<noteq> [] \<and> map_of before_items (get_str e ''fid'') = None
            then dict_set (get_str e ''file_name'') (get_str e ''fid'') m else m"
  have "fst ` set m \<subseteq> fst ` set ?m" by (auto simp: keys_dict_set)
  also have "\<dots> \<subseteq> fst ` set (record_new before_items es ?m)" by (rule Cons.IH)
  finally show ?case by (simp add: Let_def)
qed

lemma record_new_complete:
  "e \<in> set after_list \<Longrightarrow> is_new (map fst before_items) e \<Longrightarrow>
   get_str e ''file_name'' \<in> fst ` set (record_new before_items after_list m)"
proof (induction after_list arbitrary: m)
  case Nil
  then show ?case by simp
next
  case (Cons x xs)
  let ?m = "if get_str x ''fid'' \<noteq> [] \<and> map_of before_items (get_str x ''fid'') = None
            then dict_set (get_str x ''file_name'') (get_str x ''fid'') m else m"
  show ?case
  proof (cases "e = x")
    case True
    with Cons.prems(2) have "get_str e ''file_name'' \<in> fst ` set ?m"
      by (simp add: is_new_def map_of_eq_None_iff keys_dict_set)
    then have "get_str e ''file_name'' \<in> fst ` set (record_new before_items xs ?m)"
      using record_new_keys_mono [of ?m before_items xs] by blast
    then show ?thesis by (simp add: Let_def)
  next
    case False
    with Cons.prems have "e \<in> set xs" by simp
    then show ?thesis using Cons.IH Cons.prems(2) by (simp add: Let_def)
  qed
qed

lemma fuzzy_match_Some:
  "fuzzy_match c m = Some v \<Longrightarrow> \<exists>k. (k, v) \<in> set m \<and> c = clean_name k"
  by (induction c m rule: fuzzy_match.induct) (auto split: if_splits)

lemma fuzzy_match_None:
  "fuzzy_match c m = None \<Longrightarrow> (k, v) \<in> set m \<Longrightarrow> c \<noteq> clean_name k"
  by (induction c m rule: fuzzy_match.induct) (auto split: if_splits)

text \<open>What one round of the loop over the requested names appends.\<close>
lemma slot_of_name:
  assumes m: "m = record_new before_items after_list []"
    and slot: "slot = (let new_fid = (case map_of m fname of Some v \<Rightarrow> v | None \<Rightarrow> '''')
                in if new_fid \<noteq> [] then new_fid
                   else case fuzzy_match (clean_name fname) m of Some v \<Rightarrow> v | None \<Rightarrow> '''')"
  shows "slot_ok (map fst before_items) after_list fname slot"
proof -
  have sound: "\<And>k v. (k, v) \<in> set m \<Longrightarrow> \<exists>e\<in>set after_list. is_new (map fst before_items) e
        \<and> k = get_str e ''file_name'' \<and> v = get_str e ''fid''"
    using record_new_sound [of _ _ before_items after_list "[]"] m by simp
  have nonempty: "\<And>k v. (k, v) \<in> set m \<Longrightarrow> v \<noteq> []"
  proof -
    fix k v assume "(k, v) \<in> set m"
    then obtain e where "is_new (map fst before_items) e" "v = get_str e ''fid''"
      using sound by blast
    then show "v \<noteq> []" by (simp add: is_new_def map_of_eq_None_iff)
  qed
  show ?thesis
  proof (cases "map_of m fname")
    case (Some v)
    then have in_m: "(fname, v) \<in> set m" by (rule map_of_SomeD)
    then have "v \<noteq> []" by (rule nonempty)
    with Some slot have "slot = v" by simp
    moreover obtain e where "e \<in> set after_list" "is_new (map fst before_items) e"
      "fname = get_str e ''file_name''" "v = get_str e ''fid''"
      using sound [OF in_m] by blast
    ultimately show ?thesis using \<open>v \<noteq> []\<close>
      by (auto simp: slot_ok_def list_ex_iff)
  next
    case None
    show ?thesis
    proof (cases "fuzzy_match (clean_name fname) m")
      case (Some v)
      then obtain k where k: "(k, v) \<in> set m" "clean_name fname = clean_name k"
        using fuzzy_match_Some by blast
      then have "v \<noteq> []" using nonempty by blast
      moreover from None Some slot have "slot = v" by simp
      moreover obtain e where "e \<in> set after_list" "is_new (map fst before_items) e"
        "k = get_str e ''file_name''" "v = get_str e ''fid''"
        using sound [OF k(1)] by blast
      ultimately show ?thesis using k(2)
        by (auto simp: slot_ok_def list_ex_iff)
    next
      case no: None
      with None slot have "slot = []" by simp
      moreover have "\<forall>e\<in>set after_list. is_new (map fst before_items) e \<longrightarrow>
          clean_name (get_str e ''file_name'') \<noteq> clean_name fname"
      proof (intro ballI impI)
        fix e assume "e \<in> set after_list" "is_new (map fst before_items) e"
        then have "get_str e ''file_name'' \<in> fst ` set m"
          using record_new_complete m by blast
        then obtain v where "(get_str e ''file_name'', v) \<in> set m" by auto
        then show "clean_name (get_str e ''file_name'') \<noteq> clean_name fname"
          using fuzzy_match_None [OF no] by metis
      qed
      ultimately show ?thesis by (simp add: slot_ok_def list_all_iff)
    qed
  qed
qed

lemma assemble_saved_fids_slots:
  assumes "m = record_new before_items after_list []"
  shows "\<exists>saved w'. assemble_saved_fids m names saved0 w = (Inr (saved0 @ saved), w')
           \<and> length saved = length names
           \<and> (\<forall>i<length names. slot_ok (map fst before_items) after_list (names ! i) (saved ! i))"
proof (induction names arbitrary: saved0 w)
  case Nil
  show ?case by simp
next
  case (Cons fname names)
  define slot where "slot = (let new_fid = (case map_of m fname of Some v \<Rightarrow> v | None \<Rightarrow> '''')
                in if new_fid \<noteq> [] then new_fid
                   else case fuzzy_match (clean_name fname) m of Some v \<Rightarrow> v | None \<Rightarrow> '''')"
  have ok: "slot_ok (map fst before_items) after_list fname slot"
    using slot_of_name [OF assms slot_def] .
  have "\<exists>w1. assemble_saved_fids m (fname # names) saved0 w
      = assemble_saved_fids m names (saved0 @ [slot]) w1"
  proof (cases "(case map_of m fname of Some v \<Rightarrow> v | None \<Rightarrow> '''') \<noteq> []")
    case True
    then show ?thesis by (auto simp: slot_def Let_def)
  next
    case False
    then show ?thesis
      by (cases "fuzzy_match (clean_name fname) m") (auto simp: slot_def Let_def)
  qed
  then obtain w1 where step: "assemble_saved_fids m (fname # names) saved0 w
      = assemble_saved_fids m names (saved0 @ [slot]) w1"
    by blast
  obtain saved w' where rest:
    "assemble_saved_fids m names (saved0 @ [slot]) w1 = (Inr ((saved0 @ [slot]) @ saved), w')"
    "length saved = length names"
    "\<forall>i<length names. slot_ok (map fst before_items) after_list (names ! i) (saved ! i)"
    using Cons.IH by blast
  have "\<forall>i<length (fname # names).
          slot_ok (map fst before_items) after_list ((fname # names) ! i) ((slot # saved) ! i)"
    using ok rest(3) by (auto simp: nth_Cons split: nat.splits)
  with step rest show ?case
    by (intro exI [of _ "slot # saved"] exI [of _ w']) simp
qed

lemma clean_name_y: "clean_name ''y.mp4'' = ''y.mp4''"
  by code_simp

lemma clean_name_z: "clean_name ''z.mp4'' = ''z.mp4''"
  by code_simp

lemma clean_name_z1: "clean_name ''z (1).mp4'' = ''z 1.mp4''"
  by code_simp

lemma get_str_ent: "get_str (ent f n) ''fid'' = f" "get_str (ent f n) ''file_name'' = n"
  by (simp_all add: get_str_def ent_def)

text \<open>
  Claim C1, as the code has it. With the snapshot \<open>{A: x.mp4}\<close>, the request
  \<open>[y.mp4, z.mp4]\<close> and the listing \<open>x.mp4\<close> (A), \<open>y.mp4\<close> (new id B), \<open>z (1).mp4\<close> (new id
  C) after the transfer, the reconciliation returns \<open>[B, ""]\<close>: \<open>y.mp4\<close> is matched
  exactly, and \<open>z.mp4\<close> is left unresolved, since cleaning removes the parentheses of
  \<open>z (1).mp4\<close> but keeps its blank and its digit. The fallback does pair \<open>z.mp4\<close> with C
  when the name of the new entry is \<open>z.mp4\<close> once cleaned, and the result is then \<open>[B, C]\<close>.
\<close>
theorem reconcile_scenario:
  assumes "B \<noteq> []" and "C \<noteq> []" and "A \<noteq> B" and "A \<noteq> C"
  shows "fst (reconcile (record_before [ent A ''x.mp4''] [])
               [ent A ''x.mp4'', ent B ''y.mp4'', ent C ''z (1).mp4'']
               (Some [''y.mp4'', ''z.mp4'']) w) = Inr [B, '''']
         \<and> (clean_name n = ''z.mp4'' \<and> n \<noteq> ''y.mp4'' \<longrightarrow>
              fst (reconcile (record_before [ent A ''x.mp4''] [])
                     [ent A ''x.mp4'', ent B ''y.mp4'', ent C n]
                     (Some [''y.mp4'', ''z.mp4'']) w) = Inr [B, C])"
  using assms
  by (simp add: reconcile_def get_str_ent Let_def clean_name_y clean_name_z clean_name_z1)

theorem reconcile_scenario_witness:
  "fst (reconcile (record_before [ent ''/dest/x.mp4'' ''x.mp4''] [])
         [ent ''/dest/x.mp4'' ''x.mp4'', ent ''/dest/y.mp4'' ''y.mp4'',
          ent ''/dest/z (1).mp4'' ''z (1).mp4'']
         (Some [''y.mp4'', ''z.mp4'']) w0) = Inr [''/dest/y.mp4'', '''']
   \<and> fst (reconcile (record_before [ent ''/dest/x.mp4'' ''x.mp4''] [])
         [ent ''/dest/x.mp4'' ''x.mp4'', ent ''/dest/y.mp4'' ''y.mp4'',
          ent ''/dest/z!.mp4'' ''z!.mp4'']
         (Some [''y.mp4'', ''z.mp4'']) w0) = Inr [''/dest/y.mp4'', ''/dest/z!.mp4'']"
proof -
  have c: "clean_name ''z!.mp4'' = ''z.mp4''" by code_simp
  show ?thesis
    using reconcile_scenario [where B = "''/dest/y.mp4''" and C = "''/dest/z (1).mp4''"
        and A = "''/dest/x.mp4''" and n = "''z!.mp4''" and w = w0]
      reconcile_scenario [where B = "''/dest/y.mp4''" and C = "''/dest/z!.mp4''"
        and A = "''/dest/x.mp4''" and n = "''z!.mp4''" and w = w0] c
    by simp
qed

text \<open>
  Claim C1 as stated fails: the reconciliation of the scenario does not return \<open>[B, C]\<close>,
  and \<open>save_file\<close> on a drive that behaves as in the scenario returns the fid of \<open>y.mp4\<close>
  and an empty slot.
\<close>
theorem reconcile_scenario_counterexample:
  "fst (reconcile (record_before [ent ''A'' ''x.mp4''] [])
         [ent ''A'' ''x.mp4'', ent ''B'' ''y.mp4'', ent ''C'' ''z (1).mp4'']
         (Some [''y.mp4'', ''z.mp4'']) w0) \<noteq> Inr [''B'', ''C'']
   \<and> dict_get (dict_get (projr (fst
        (baidu_save_file
           (baidu_with (dest_client [mk_item 2 ''/dest/y.mp4'' False,
                                     mk_item 3 ''/dest/z (1).mp4'' False]))
           [''f1'', ''f2''] [''101'', ''102''] ''/dest'' ''1abc'' ''1abc:pw''
           (Some [''y.mp4'', ''z.mp4''])
           \<lparr>remote = [mk_item 1 ''/dest/x.mp4'' False], logs = []\<rparr>))) ''data'')
        ''save_as_top_fids''
       = PList [PStr ''/dest/y.mp4'', PStr '''']"
  by code_simp

lemma reconcile_slots:
  assumes "names \<noteq> []"
  shows "\<exists>saved w'. reconcile before_items after_list (Some names) w = (Inr saved, w')
           \<and> length saved = length names
           \<and> (\<forall>i<length names. slot_ok (map fst before_items) after_list (names ! i) (saved ! i))"
  using assms
    assemble_saved_fids_slots [of "record_new before_items after_list []" before_items after_list
      names "[]" w]
  by (simp add: reconcile_def Let_def)

text \<open>The keys of the snapshot are the fids of the entries listed before the transfer.\<close>
lemma record_before_keys:
  "fst ` set (record_before before_list acc)
     = fst ` set acc \<union> (\<lambda>b. get_str b ''fid'') ` set before_list"
  by (induction before_list arbitrary: acc) (auto simp: keys_dict_set)

lemma slot_ok_cong:
  assumes "set a = set b"
  shows "slot_ok a after_list fname slot = slot_ok b after_list fname slot"
  using assms by (simp add: slot_ok_def is_new_def)

lemma slot_ok_snapshot:
  "slot_ok (map fst (record_before before_list [])) after_list fname slot
     = slot_ok (map (\<lambda>b. get_str b ''fid'') before_list) after_list fname slot"
  by (rule slot_ok_cong) (simp add: record_before_keys)

text \<open>
  The run of the body of \<open>save_file\<close> that ends with the reconciled fids: the calls it made,
  in their order, with the world each left.
\<close>
lemma save_file_body_run:
  fixes w :: "('r, 'z) world_scheme"
  assumes "save_file_body self cl fid_list fid_token_list to_pdir_fid pwd_id stoken file_names w
             = (Inr (Some env), w')"
    and "dict_get env ''data'' \<noteq> PDict []"
  shows "\<exists>sid pc remote_dir (w1 :: ('r, 'z) world_scheme) before_list w2 wt first rest w3 fs_ids
            w4 after_list w5 saved.
           stoken_parts stoken pwd_id = Inr (sid, pc)
         \<and> resolve_fid_to_path self (if to_pdir_fid \<noteq> [] then to_pdir_fid else ''0'') w
             = (Inr remote_dir, w1)
         \<and> snapshot_before self to_pdir_fid w1 = (Inr before_list, w2)
         \<and> (if sid \<in> set (share_info self) then wt = w2
             else \<exists>tr. baidu_get_stoken self sid pc w2 = (Inr tr, wt)
                       \<and> dict_get tr ''code'' = PInt 0)
         \<and> call (c_shared_paths cl (''https://pan.baidu.com/s/'' @ sid)) wt
             = (Inr (first # rest), w3)
         \<and> int_tokens fid_token_list = Inr fs_ids
         \<and> call (c_transfer_shared_paths cl remote_dir fs_ids (uk first) (share_id first)
                    (bdstoken first) (''https://pan.baidu.com/s/'' @ sid)) w3 = (Inr False, w4)
         \<and> listing_after self to_pdir_fid w4 = (Inr after_list, w5)
         \<and> reconcile (record_before before_list []) after_list file_names w5 = (Inr saved, w')
         \<and> dict_get (dict_get env ''data'') ''save_as_top_fids'' = PList (map PStr saved)"
  using assms
  unfolding save_file_body_def andthen_def ret_def lift_def Let_def
  by (auto split: prod.splits sum.splits option.splits list.splits if_splits)

lemma errno_envelope_data:
  "errno_envelope (\<lambda>errno m. PDict [(''code'', PInt errno), (''message'', PStr m),
                                     (''data'', PDict [])]) msg w = (Inr (Some env), w')
   \<Longrightarrow> dict_get env ''data'' = PDict []"
  by (auto simp: errno_envelope_def andthen_def ret_def lift_def
      split: option.splits sum.splits prod.splits)

text \<open>An envelope of \<open>save_file\<close> that carries data was returned by the body of its \<open>try\<close>.\<close>
lemma baidu_save_file_body:
  fixes w :: "('r, 'z) world_scheme"
  assumes "baidu_save_file self fid_list fid_token_list to_pdir_fid pwd_id stoken file_names w
             = (Inr env, w')"
    and "dict_get env ''data'' \<noteq> PDict []"
  shows "\<exists>cl. usable_client self = Some cl
           \<and> save_file_body self cl fid_list fid_token_list to_pdir_fid pwd_id stoken file_names w
               = (Inr (Some env), w')"
proof -
  obtain cl where cl: "usable_client self = Some cl"
    using assms by (cases "usable_client self") (auto simp: baidu_save_file_def ret_def)
  obtain r w1 where body:
    "save_file_body self cl fid_list fid_token_list to_pdir_fid pwd_id stoken file_names w
       = (r, w1)"
    by (cases "save_file_body self cl fid_list fid_token_list to_pdir_fid pwd_id stoken
                 file_names w")
  have "r = Inr (Some env) \<and> w1 = w'"
  proof (cases r)
    case (Inl e)
    with assms(1) cl body have "dict_get env ''data'' = PDict []"
      by (auto simp: baidu_save_file_def andthen_def try_except_def ret_def log_def
          split: prod.splits sum.splits option.splits dest: errno_envelope_data)
    with assms(2) show ?thesis by simp
  next
    case (Inr returned)
    show ?thesis
    proof (cases returned)
      case None
      with assms(1) cl body Inr have "dict_get env ''data'' = PDict []"
        by (auto simp: baidu_save_file_def andthen_def try_except_def ret_def)
      with assms(2) show ?thesis by simp
    next
      case (Some env')
      with assms(1) cl body Inr have "env' = env \<and> w1 = w'"
        by (auto simp: baidu_save_file_def andthen_def try_except_def ret_def)
      with Inr Some show ?thesis by simp
    qed
  qed
  with body cl show ?thesis by simp
qed

text \<open>
  Claim C5. Let \<open>save_file\<close> be called with a list of names that is not empty and return an
  envelope that carries \<open>save_as_top_fids\<close>. Then the run resolved the target directory,
  listed it (the snapshot, \<open>before_list\<close>), opened the share, made the transfer call, which
  answered with a falsy value, and listed the target directory again (\<open>after_list\<close>), each
  call in the world that the call before it left. The list returned has one slot per
  requested name, and slot \<open>i\<close> belongs to name \<open>i\<close>: a slot that is not empty is the fid
  of an entry of \<open>after_list\<close> that is new (its fid is not empty and is no fid of
  \<open>before_list\<close>) and whose name is the requested one once both are cleaned, and a slot is
  the empty string exactly where \<open>after_list\<close> holds no such entry. No requested name is
  dropped.
\<close>
theorem save_file_slots_aligned:
  fixes w :: "('r, 'z) world_scheme"
  assumes "baidu_save_file self fid_list fid_token_list to_pdir_fid pwd_id stoken (Some names) w
             = (Inr env, w')"
    and "names \<noteq> []"
    and "dict_get (dict_get env ''data'') ''save_as_top_fids'' \<noteq> PNone"
  shows "\<exists>cl sid pc remote_dir (w1 :: ('r, 'z) world_scheme) before_list w2 wt first rest w3
            fs_ids w4 after_list w5 saved.
           usable_client self = Some cl
         \<and> stoken_parts stoken pwd_id = Inr (sid, pc)
         \<and> resolve_fid_to_path self (if to_pdir_fid \<noteq> [] then to_pdir_fid else ''0'') w
             = (Inr remote_dir, w1)
         \<and> snapshot_before self to_pdir_fid w1 = (Inr before_list, w2)
         \<and> (if sid \<in> set (share_info self) then wt = w2
             else \<exists>tr. baidu_get_stoken self sid pc w2 = (Inr tr, wt)
                       \<and> dict_get tr ''code'' = PInt 0)
         \<and> call (c_shared_paths cl (''https://pan.baidu.com/s/'' @ sid)) wt
             = (Inr (first # rest), w3)
         \<and> int_tokens fid_token_list = Inr fs_ids
         \<and> call (c_transfer_shared_paths cl remote_dir fs_ids (uk first) (share_id first)
                    (bdstoken first) (''https://pan.baidu.com/s/'' @ sid)) w3 = (Inr False, w4)
         \<and> listing_after self to_pdir_fid w4 = (Inr after_list, w5)
         \<and> dict_get (dict_get env ''data'') ''save_as_top_fids'' = PList (map PStr saved)
         \<and> length saved = length names
         \<and> (\<forall>i<length names.
               slot_ok (map (\<lambda>b. get_str b ''fid'') before_list) after_list
                 (names ! i) (saved ! i))"
proof -
  from assms(3) have data: "dict_get env ''data'' \<noteq> PDict []" by auto
  from baidu_save_file_body [OF assms(1) data]
  obtain cl where cl: "usable_client self = Some cl"
    and body: "save_file_body self cl fid_list fid_token_list to_pdir_fid pwd_id stoken
                 (Some names) w = (Inr (Some env), w')"
    by blast
  from save_file_body_run [OF body data]
  obtain sid pc remote_dir and w1 :: "('r, 'z) world_scheme" and before_list w2 wt first rest
      w3 fs_ids w4 after_list w5 saved where
    run: "stoken_parts stoken pwd_id = Inr (sid, pc)"
      "resolve_fid_to_path self (if to_pdir_fid \<noteq> [] then to_pdir_fid else ''0'') w
         = (Inr remote_dir, w1)"
      "snapshot_before self to_pdir_fid w1 = (Inr before_list, w2)"
      "if sid \<in> set (share_info self) then wt = w2
       else \<exists>tr. baidu_get_stoken self sid pc w2 = (Inr tr, wt) \<and> dict_get tr ''code'' = PInt 0"
      "call (c_shared_paths cl (''https://pan.baidu.com/s/'' @ sid)) wt = (Inr (first # rest), w3)"
      "int_tokens fid_token_list = Inr fs_ids"
      "call (c_transfer_shared_paths cl remote_dir fs_ids (uk first) (share_id first)
              (bdstoken first) (''https://pan.baidu.com/s/'' @ sid)) w3 = (Inr False, w4)"
      "listing_after self to_pdir_fid w4 = (Inr after_list, w5)"
    and rec: "reconcile (record_before before_list []) after_list (Some names) w5
                = (Inr saved, w')"
    and fids: "dict_get (dict_get env ''data'') ''save_as_top_fids'' = PList (map PStr saved)"
    by (elim exE conjE)
  obtain saved' wc where
    sl: "reconcile (record_before before_list []) after_list (Some names) w5 = (Inr saved', wc)"
        "length saved' = length names"
        "\<forall>i<length names. slot_ok (map fst (record_before before_list [])) after_list
                              (names ! i) (saved' ! i)"
    using reconcile_slots [OF assms(2)] by blast
  from rec sl(1) have same: "saved' = saved" by simp
  have len: "length saved = length names" using sl(2) same by simp
  have slots: "\<forall>i<length names. slot_ok (map (\<lambda>b. get_str b ''fid'') before_list) after_list
                                   (names ! i) (saved ! i)"
    using sl(3) same by (simp add: slot_ok_snapshot)
  show ?thesis
    using cl run fids len slots by blast
qed

theorem save_file_slots_aligned_witness:
  "\<exists>cl sid pc remote_dir (w1 :: pcs_item list world) before_list w2 wt first rest w3
      fs_ids w4 after_list w5 saved.
     usable_client (baidu_with (dest_client [mk_item 2 ''/dest/y.mp4'' False,
                                            mk_item 3 ''/dest/z (1).mp4'' False])) = Some cl
   \<and> stoken_parts ''1abc:pw'' ''1abc'' = Inr (sid, pc)
   \<and> resolve_fid_to_path (baidu_with (dest_client [mk_item 2 ''/dest/y.mp4'' False,
                                                  mk_item 3 ''/dest/z (1).mp4'' False]))
        (if ''/dest'' \<noteq> [] then ''/dest'' else ''0'')
        \<lparr>remote = [mk_item 1 ''/dest/x.mp4'' False], logs = []\<rparr> = (Inr remote_dir, w1)
   \<and> snapshot_before (baidu_with (dest_client [mk_item 2 ''/dest/y.mp4'' False,
                                              mk_item 3 ''/dest/z (1).mp4'' False]))
        ''/dest'' w1 = (Inr before_list, w2)
   \<and> (if sid \<in> set (share_info (baidu_with (dest_client [mk_item 2 ''/dest/y.mp4'' False,
                                                         mk_item 3 ''/dest/z (1).mp4'' False])))
       then wt = w2
       else \<exists>tr. baidu_get_stoken (baidu_with (dest_client [mk_item 2 ''/dest/y.mp4'' False,
                                                            mk_item 3 ''/dest/z (1).mp4'' False]))
                    sid pc w2 = (Inr tr, wt)
                 \<and> dict_get tr ''code'' = PInt 0)
   \<and> call (c_shared_paths cl (''https://pan.baidu.com/s/'' @ sid)) wt = (Inr (first # rest), w3)
   \<and> int_tokens [''101'', ''102''] = Inr fs_ids
   \<and> call (c_transfer_shared_paths cl remote_dir fs_ids (uk first) (share_id first)
              (bdstoken first) (''https://pan.baidu.com/s/'' @ sid)) w3 = (Inr False, w4)
   \<and> listing_after (baidu_with (dest_client [mk_item 2 ''/dest/y.mp4'' False,
                                            mk_item 3 ''/dest/z (1).mp4'' False]))
        ''/dest'' w4 = (Inr after_list, w5)
   \<and> PList [PStr ''/dest/y.mp4'', PStr ''''] = PList (map PStr saved)
   \<and> length saved = length [''y.mp4'', ''z.mp4'']
   \<and> (\<forall>i<length [''y.mp4'', ''z.mp4''].
         slot_ok (map (\<lambda>b. get_str b ''fid'') before_list) after_list
           ([''y.mp4'', ''z.mp4''] ! i) (saved ! i))"
proof -
  let ?run = "baidu_save_file
           (baidu_with (dest_client [mk_item 2 ''/dest/y.mp4'' False,
                                     mk_item 3 ''/dest/z (1).mp4'' False]))
           [''f1'', ''f2''] [''101'', ''102''] ''/dest'' ''1abc'' ''1abc:pw''
           (Some [''y.mp4'', ''z.mp4''])
           \<lparr>remote = [mk_item 1 ''/dest/x.mp4'' False], logs = []\<rparr>"
  let ?env = "PDict [(''code'', PInt 0), (''message'', PStr ''success''),
         (''data'', PDict [(''task_id'', PStr ''baidu_sync_1abc''),
                          (''save_as_top_fids'', PList [PStr ''/dest/y.mp4'', PStr '''']),
                          (''_sync'', PBool True)])]"
  have "fst ?run = Inr ?env" by code_simp
  then obtain w' where run: "?run = (Inr ?env, w')" by (cases ?run) simp
  have names: "[''y.mp4'', ''z.mp4''] \<noteq> []" by simp
  have key: "dict_get (dict_get ?env ''data'') ''save_as_top_fids'' \<noteq> PNone" by simp
  have val: "dict_get (dict_get ?env ''data'') ''save_as_top_fids''
               = PList [PStr ''/dest/y.mp4'', PStr '''']" by simp
  show ?thesis
    using save_file_slots_aligned [OF run names key] unfolding val .
qed

subsection \<open>get_fids\<close>

lemma resolved_entries_append:
  "resolved_entries entry after (ps @ qs) s
     = resolved_entries entry after ps s @ resolved_entries entry after qs (foldl after s ps)"
  by (induction ps arbitrary: s) simp_all

lemma resolved_entries_length: "length (resolved_entries entry after ps s) \<le> length ps"
proof (induction ps arbitrary: s)
  case Nil
  show ?case by simp
next
  case (Cons p ps)
  have "length (resolved_entries entry after ps (after s p)) \<le> length ps" by (rule Cons.IH)
  then show ?case by (cases "entry s p") simp_all
qed

text \<open>On a drive that resolving leaves as it is, the entries are those of the resolved paths.\<close>
lemma resolved_entries_fixed:
  assumes "\<And>p. after s p = s"
  shows "resolved_entries entry after ps s = List.map_filter (entry s) ps"
proof (induction ps)
  case Nil
  show ?case by simp
next
  case (Cons p ps)
  then show ?case using assms by (cases "entry s p") simp_all
qed

lemma baidu_get_fid_eq:
  "baidu_get_fid cl p0 w
     = (Inr (baidu_entry cl (remote w) p0), w\<lparr>remote := baidu_after cl (remote w) p0\<rparr>)"
proof (cases "p0 = [] \<or> p0 = ''/''")
  case True
  then show ?thesis
    by (auto simp: baidu_get_fid_def baidu_entry_def baidu_resolved_def baidu_after_def
        baidu_file_path_def fid_entry_def ret_def)
next
  case False
  let ?p = "if startswith (strip p0) ''/'' then strip p0 else ''/'' @ strip p0"
  have fp: "baidu_file_path p0 = ?p" using False by (simp add: baidu_file_path_def)
  obtain r s' where l: "c_list cl (parent_of ?p) (remote w) = (r, s')"
    by (cases "c_list cl (parent_of ?p) (remote w)")
  show ?thesis
  proof (cases r)
    case (Inl e)
    with False l fp show ?thesis
      by (simp add: baidu_get_fid_def baidu_entry_def baidu_resolved_def baidu_after_def
          Let_def try_except_def andthen_def ret_def call_def)
  next
    case (Inr files)
    with False l fp show ?thesis
      by (simp add: baidu_get_fid_def baidu_entry_def baidu_resolved_def baidu_after_def
          fid_entry_def Let_def try_except_def andthen_def ret_def call_def)
  qed
qed

lemma baidu_get_fids_loop_eq:
  "baidu_get_fids_loop cl paths results w
     = (Inr (results @ resolved_entries (baidu_entry cl) (baidu_after cl) paths (remote w)),
        w\<lparr>remote := foldl (baidu_after cl) (remote w) paths\<rparr>)"
proof (induction paths arbitrary: results w)
  case Nil
  show ?case by simp
next
  case (Cons p paths)
  show ?case
    by (cases "baidu_entry cl (remote w) p") (simp_all add: baidu_get_fid_eq Cons.IH)
qed

lemma find_file_in_dir_eq:
  "find_file_in_dir cl parent_id nm w
     = (Inr (first_page_find cl parent_id nm (remote w)),
        w\<lparr>remote := snd (a_get_file_list cl parent_id None (remote w))\<rparr>)"
proof -
  obtain r s' where l: "a_get_file_list cl parent_id None (remote w) = (r, s')"
    by (cases "a_get_file_list cl parent_id None (remote w)")
  show ?thesis
  proof (cases r)
    case (Inl e)
    with l show ?thesis
      by (simp add: find_file_in_dir_def first_page_find_def try_except_def andthen_def ret_def
          call_def)
  next
    case (Inr page)
    with l show ?thesis
      by (cases page)
        (simp_all add: find_file_in_dir_def first_page_find_def try_except_def andthen_def
          ret_def call_def)
  qed
qed

lemma walk_parts_eq:
  "walk_parts cl parts current_id w
     = (Inr (fst (ali_walk cl parts current_id (remote w))),
        w\<lparr>remote := snd (ali_walk cl parts current_id (remote w))\<rparr>)"
proof (induction parts arbitrary: current_id w)
  case Nil
  show ?case by simp
next
  case (Cons part parts)
  show ?case
  proof (cases "part = []")
    case True
    then show ?thesis by (simp add: Cons.IH)
  next
    case False
    then show ?thesis
      by (cases "first_page_find cl current_id part (remote w)")
        (simp_all add: find_file_in_dir_eq Cons.IH)
  qed
qed

lemma aliyun_get_fid_eq:
  "aliyun_get_fid cl p0 w
     = (Inr (aliyun_entry cl (remote w) p0), w\<lparr>remote := aliyun_after cl (remote w) p0\<rparr>)"
proof (cases "p0 = [] \<or> p0 = ''/''")
  case True
  then show ?thesis
    by (auto simp: aliyun_get_fid_def aliyun_entry_def aliyun_after_def fid_entry_def ret_def)
next
  case False
  have "fid_entry (''/'' @ strip_slash p0)
          = (\<lambda>fid. PDict [(''file_path'', PStr (''/'' @ strip_slash p0)), (''fid'', PStr fid)])"
    by (rule ext) (simp add: fid_entry_def)
  with False show ?thesis
    by (simp add: aliyun_get_fid_def aliyun_entry_def aliyun_after_def aliyun_file_path_def
        andthen_def ret_def walk_parts_eq)
qed

lemma aliyun_get_fids_loop_eq:
  "aliyun_get_fids_loop cl paths results w
     = (Inr (results @ resolved_entries (aliyun_entry cl) (aliyun_after cl) paths (remote w)),
        w\<lparr>remote := foldl (aliyun_after cl) (remote w) paths\<rparr>)"
proof (induction paths arbitrary: results w)
  case Nil
  show ?case by simp
next
  case (Cons p paths)
  show ?case
    by (cases "aliyun_entry cl (remote w) p") (simp_all add: aliyun_get_fid_eq Cons.IH)
qed

lemma ali_walk_fixed:
  assumes "\<And>d. snd (a_get_file_list cl d None s) = s"
  shows "snd (ali_walk cl parts current_id s) = s"
proof (induction parts arbitrary: current_id)
  case Nil
  show ?case by simp
next
  case (Cons part parts)
  then show ?case using assms
    by (cases "first_page_find cl current_id part s") simp_all
qed

text \<open>
  Claim C10. \<open>get_fids\<close> of both adapters returns a list and raises nothing, whatever the
  client does. With a usable client the list is made of one entry per input path that is
  resolved, in the order of the input, and of nothing for a path that is not resolved; so it
  is never longer than the input, and shorter as soon as one path is left out. BaiduAdapter
  resolves a path when the listing of its parent holds an entry of its name and reports the
  path as fid; AliyunAdapter resolves a path when every segment is found by a lookup under
  the id reached before, and reports the id reached at the end. Without a usable client
  the list is empty. On a drive that listings leave as it is, the list is the list of the
  entries of the input paths resolved in the state in which \<open>get_fids\<close> is called.
\<close>
theorem get_fids_resolved:
  "(case usable_client bself of
      None \<Rightarrow> baidu_get_fids bself paths bw = (Inr [], bw)
    | Some cl \<Rightarrow>
        baidu_get_fids bself paths bw
          = (Inr (resolved_entries (baidu_entry cl) (baidu_after cl) paths (remote bw)),
             bw\<lparr>remote := foldl (baidu_after cl) (remote bw) paths\<rparr>)
        \<and> length (resolved_entries (baidu_entry cl) (baidu_after cl) paths (remote bw))
            \<le> length paths
        \<and> ((\<forall>d. snd (c_list cl d (remote bw)) = remote bw) \<longrightarrow>
             baidu_get_fids bself paths bw
               = (Inr (List.map_filter (baidu_entry cl (remote bw)) paths), bw)))
   \<and> (case ali_usable aself of
      None \<Rightarrow> aliyun_get_fids aself paths aw = (Inr [], aw)
    | Some cl \<Rightarrow>
        aliyun_get_fids aself paths aw
          = (Inr (resolved_entries (aliyun_entry cl) (aliyun_after cl) paths (remote aw)),
             aw\<lparr>remote := foldl (aliyun_after cl) (remote aw) paths\<rparr>)
        \<and> length (resolved_entries (aliyun_entry cl) (aliyun_after cl) paths (remote aw))
            \<le> length paths
        \<and> ((\<forall>d. snd (a_get_file_list cl d None (remote aw)) = remote aw) \<longrightarrow>
             aliyun_get_fids aself paths aw
               = (Inr (List.map_filter (aliyun_entry cl (remote aw)) paths), aw)))"
proof -
  have b: "baidu_get_fids bself paths bw
             = (Inr (List.map_filter (baidu_entry cl (remote bw)) paths), bw)"
    if u: "usable_client bself = Some cl" and fixed: "\<forall>d. snd (c_list cl d (remote bw)) = remote bw"
    for cl
  proof -
    have after: "\<And>p. baidu_after cl (remote bw) p = remote bw"
      using fixed by (simp add: baidu_after_def)
    have "foldl (baidu_after cl) (remote bw) paths = remote bw"
      by (induction paths) (simp_all add: after)
    with u show ?thesis
      by (simp add: baidu_get_fids_def baidu_get_fids_loop_eq
          resolved_entries_fixed [of "baidu_after cl" "remote bw", OF after])
  qed
  have a: "aliyun_get_fids aself paths aw
             = (Inr (List.map_filter (aliyun_entry cl (remote aw)) paths), aw)"
    if u: "ali_usable aself = Some cl"
      and fixed: "\<forall>d. snd (a_get_file_list cl d None (remote aw)) = remote aw"
    for cl
  proof -
    have after: "\<And>p. aliyun_after cl (remote aw) p = remote aw"
      using fixed by (simp add: aliyun_after_def ali_walk_fixed)
    have "foldl (aliyun_after cl) (remote aw) paths = remote aw"
      by (induction paths) (simp_all add: after)
    with u show ?thesis
      by (simp add: aliyun_get_fids_def aliyun_get_fids_loop_eq
          resolved_entries_fixed [of "aliyun_after cl" "remote aw", OF after])
  qed
  show ?thesis
  proof (intro conjI)
    show "case usable_client bself of
      None \<Rightarrow> baidu_get_fids bself paths bw = (Inr [], bw)
    | Some cl \<Rightarrow>
        baidu_get_fids bself paths bw
          = (Inr (resolved_entries (baidu_entry cl) (baidu_after cl) paths (remote bw)),
             bw\<lparr>remote := foldl (baidu_after cl) (remote bw) paths\<rparr>)
        \<and> length (resolved_entries (baidu_entry cl) (baidu_after cl) paths (remote bw))
            \<le> length paths
        \<and> ((\<forall>d. snd (c_list cl d (remote bw)) = remote bw) \<longrightarrow>
             baidu_get_fids bself paths bw
               = (Inr (List.map_filter (baidu_entry cl (remote bw)) paths), bw))"
    proof (cases "usable_client bself")
      case None
      then show ?thesis by (simp add: baidu_get_fids_def ret_def)
    next
      case (Some cl)
      have "baidu_get_fids bself paths bw
          = (Inr (resolved_entries (baidu_entry cl) (baidu_after cl) paths (remote bw)),
             bw\<lparr>remote := foldl (baidu_after cl) (remote bw) paths\<rparr>)"
        using Some by (simp add: baidu_get_fids_def baidu_get_fids_loop_eq)
      with Some b [OF Some] show ?thesis by (simp add: resolved_entries_length)
    qed
  next
    show "case ali_usable aself of
      None \<Rightarrow> aliyun_get_fids aself paths aw = (Inr [], aw)
    | Some cl \<Rightarrow>
        aliyun_get_fids aself paths aw
          = (Inr (resolved_entries (aliyun_entry cl) (aliyun_after cl) paths (remote aw)),
             aw\<lparr>remote := foldl (aliyun_after cl) (remote aw) paths\<rparr>)
        \<and> length (resolved_entries (aliyun_entry cl) (aliyun_after cl) paths (remote aw))
            \<le> length paths
        \<and> ((\<forall>d. snd (a_get_file_list cl d None (remote aw)) = remote aw) \<longrightarrow>
             aliyun_get_fids aself paths aw
               = (Inr (List.map_filter (aliyun_entry cl (remote aw)) paths), aw))"
    proof (cases "ali_usable aself")
      case None
      then show ?thesis by (simp add: aliyun_get_fids_def ret_def)
    next
      case (Some cl)
      have "aliyun_get_fids aself paths aw
          = (Inr (resolved_entries (aliyun_entry cl) (aliyun_after cl) paths (remote aw)),
             aw\<lparr>remote := foldl (aliyun_after cl) (remote aw) paths\<rparr>)"
        using Some by (simp add: aliyun_get_fids_def aliyun_get_fids_loop_eq)
      with Some a [OF Some] show ?thesis by (simp add: resolved_entries_length)
    qed
  qed
qed
theorem get_fids_resolved_witness:
  "baidu_get_fids (baidu_with (tree_client share_tree))
       [''/s/B/C'', ''/s/B/zzz'', ''/'', ''/q/r''] w0
     = (Inr [PDict [(''file_path'', PStr ''/s/B/C''), (''fid'', PStr ''/s/B/C'')],
             PDict [(''file_path'', PStr ''/''), (''fid'', PStr ''/'')]], w0)
   \<and> aliyun_get_fids (aliyun_with (mem_drive True))
       [''/s/B/C'', ''/s/B/zzz'', ''/'', ''/q/r'']
       (mem_world [(''root'', folder ''f0'' ''s''), (''f0'', folder ''f1'' ''B''),
                   (''f1'', folder ''f2'' ''C'')])
     = (Inr [PDict [(''file_path'', PStr ''/s/B/C''), (''fid'', PStr ''f2'')],
             PDict [(''file_path'', PStr ''/''), (''fid'', PStr ''root'')]],
        mem_world [(''root'', folder ''f0'' ''s''), (''f0'', folder ''f1'' ''B''),
                   (''f1'', folder ''f2'' ''C'')])"
proof -
  let ?paths = "[''/s/B/C'', ''/s/B/zzz'', ''/'', ''/q/r'']"
  let ?aw = "mem_world [(''root'', folder ''f0'' ''s''), (''f0'', folder ''f1'' ''B''),
                        (''f1'', folder ''f2'' ''C'')]"
  have bu: "usable_client (baidu_with (tree_client share_tree)) = Some (tree_client share_tree)"
    by (simp add: usable_client_def baidu_with_def)
  have au: "ali_usable (aliyun_with (mem_drive True)) = Some (mem_drive True)"
    by (simp add: ali_usable_def aliyun_with_def)
  have bf: "\<forall>d. snd (c_list (tree_client share_tree) d (remote w0)) = remote w0"
    by (simp add: tree_client_def)
  have af: "\<forall>d. snd (a_get_file_list (mem_drive True) d None (remote ?aw)) = remote ?aw"
    by (simp add: mem_drive_def)
  have be: "List.map_filter (baidu_entry (tree_client share_tree) (remote w0)) ?paths
      = [PDict [(''file_path'', PStr ''/s/B/C''), (''fid'', PStr ''/s/B/C'')],
         PDict [(''file_path'', PStr ''/''), (''fid'', PStr ''/'')]]"
    by code_simp
  have ae: "List.map_filter (aliyun_entry (mem_drive True) (remote ?aw)) ?paths
      = [PDict [(''file_path'', PStr ''/s/B/C''), (''fid'', PStr ''f2'')],
         PDict [(''file_path'', PStr ''/''), (''fid'', PStr ''root'')]]"
    by code_simp
  note run = get_fids_resolved [where bself = "baidu_with (tree_client share_tree)"
        and paths = ?paths and bw = w0 and aself = "aliyun_with (mem_drive True)" and aw = ?aw,
        unfolded bu au option.case]
  have b: "baidu_get_fids (baidu_with (tree_client share_tree)) ?paths w0
      = (Inr (List.map_filter (baidu_entry (tree_client share_tree) (remote w0)) ?paths), w0)"
    by (rule run [THEN conjunct1, THEN conjunct2, THEN conjunct2, THEN mp, OF bf])
  have a: "aliyun_get_fids (aliyun_with (mem_drive True)) ?paths ?aw
      = (Inr (List.map_filter (aliyun_entry (mem_drive True) (remote ?aw)) ?paths), ?aw)"
    by (rule run [THEN conjunct2, THEN conjunct2, THEN conjunct2, THEN mp, OF af])
  show ?thesis unfolding a b be ae by simp
qed

subsection \<open>Repeating mkdir\<close>

text \<open>
  Claim C7 asks that \<open>mkdir\<close> called twice with the same path returns the same fid both
  times and makes no duplicate. AliyunAdapter does not do so on a drive that hands out its
  listings in pages. The root of \<open>paged_drive\<close> holds the folder \<open>a\<close>. The first
  \<open>mkdir("/b")\<close> creates \<open>b\<close> under the id \<open>f1\<close>, which is then the second entry of the
  root. The second \<open>mkdir("/b")\<close> looks \<open>b\<close> up on the first page of the root only, does
  not find it, and creates a second folder \<open>b\<close> under the id \<open>f2\<close>: both calls return code
  0, with different fids, and the root holds two folders \<open>b\<close>. Every call of the drive
  succeeded, and \<open>ls_dir\<close> of the same adapter, which follows the markers of the pages,
  lists \<open>a\<close> and \<open>b\<close> after the first call.
\<close>
theorem mkdir_paged_twice:
  "fst (aliyun_mkdir (aliyun_with paged_drive) ''/b'' (mem_world [(''root'', folder ''f0'' ''a'')]))
     = Inr (PDict [(''code'', PInt 0), (''message'', PStr ''success''),
                   (''data'', PDict [(''fid'', PStr ''f1''), (''file_name'', PStr ''b'')])])
   \<and> snd (aliyun_mkdir (aliyun_with paged_drive) ''/b'' (mem_world [(''root'', folder ''f0'' ''a'')]))
     = mem_world [(''root'', folder ''f0'' ''a''), (''root'', folder ''f1'' ''b'')]
   \<and> map_option fst (aliyun_ls_dir (aliyun_with paged_drive) ''root''
            (ali_mem_world [(''root'', folder ''f0'' ''a''), (''root'', folder ''f1'' ''b'')]))
     = Some (Inr (PDict [(''code'', PInt 0), (''message'', PStr ''success''),
          (''data'', PDict [(''list'', PList [convert_dir_item (folder ''f0'' ''a''),
                                            convert_dir_item (folder ''f1'' ''b'')])]),
          (''metadata'', PDict [(''_total'', PInt 2)])]))
   \<and> fst (aliyun_mkdir (aliyun_with paged_drive) ''/b''
            (mem_world [(''root'', folder ''f0'' ''a''), (''root'', folder ''f1'' ''b'')]))
     = Inr (PDict [(''code'', PInt 0), (''message'', PStr ''success''),
                   (''data'', PDict [(''fid'', PStr ''f2''), (''file_name'', PStr ''b'')])])
   \<and> snd (aliyun_mkdir (aliyun_with paged_drive) ''/b''
            (mem_world [(''root'', folder ''f0'' ''a''), (''root'', folder ''f1'' ''b'')]))
     = mem_world [(''root'', folder ''f0'' ''a''), (''root'', folder ''f1'' ''b''),
                  (''root'', folder ''f2'' ''b'')]"
  by code_simp

end
